(* ===== verification/Prelude.thy ===== *)
theory Prelude
  imports Complex_Main "HOL-Library.Multiset"
begin

text \<open>
  Shared vocabulary of the development: the collection the component
  theories put their invariant-preservation lemmas into,
  the model of the \<open>THREE.MathUtils.lerp\<close> helper that every animation
  frame of the scene calls with the facts on repeated lerps the animation
  theories share, and generic facts on results and lists of records.
  JavaScript numbers are modelled as \<open>real\<close> where they are geometric
  quantities (positions, angles, scales, audio times) and as \<open>nat\<close> where
  they are millisecond delays and counters; the floating-point rounding of the
  browser is not modelled.
\<close>

named_theorems inv_preserved "one-step preservation lemmas of the component invariants"

type_synonym ms = nat \<comment> \<open>a delay or a clock reading in milliseconds\<close>
type_synonym seconds = real \<comment> \<open>an AudioContext time in seconds\<close>

subsection \<open>Linear interpolation (\<open>THREE.MathUtils.lerp\<close>)\<close>

text \<open>\<open>lerp(x, y, t) = (1 - t) * x + t * y\<close> in three.js; written here in the
  equivalent form \<open>x + (y - x) * t\<close>.\<close>

definition lerp :: "real \<Rightarrow> real \<Rightarrow> real \<Rightarrow> real" where
  "lerp x y t = x + (y - x) * t"

text \<open>Successive frames that each move a value towards the same target
  \<open>y\<close>, with the lerp factors \<open>ts\<close> of the frames in order.\<close>

definition lerp_iter :: "real \<Rightarrow> real list \<Rightarrow> real \<Rightarrow> real" where
  "lerp_iter y ts x = fold (\<lambda>t x. lerp x y t) ts x"

lemma lerp_dist [simp]: "\<bar>lerp x y t - y\<bar> = \<bar>1 - t\<bar> * \<bar>x - y\<bar>"
proof -
  have "lerp x y t - y = (1 - t) * (x - y)"
    by (simp add: lerp_def algebra_simps)
  then show ?thesis by (simp add: abs_mult)
qed

lemma lerp_between:
  assumes "0 \<le> t" "t \<le> 1"
  shows "min x y \<le> lerp x y t \<and> lerp x y t \<le> max x y"
proof (cases "x \<le> y")
  case True
  have "0 \<le> (y - x) * t" and "(y - x) * t \<le> y - x"
    using True assms by (simp_all add: mult_left_le mult_nonneg_nonneg)
  moreover have "min x y = x" and "max x y = y" using True by simp_all
  ultimately show ?thesis unfolding lerp_def by linarith
next
  case False
  have "(y - x) * t \<le> 0"
    using False assms by (simp add: mult_nonpos_nonneg)
  moreover have "y - x \<le> (y - x) * t"
    using mult_left_mono_neg [of t 1 "y - x"] False assms by simp
  moreover have "min x y = y" and "max x y = x" using False by simp_all
  ultimately show ?thesis unfolding lerp_def by linarith
qed

lemma lerp_towards:
  assumes "0 \<le> t" "t \<le> 1"
  shows "\<bar>lerp x y t - y\<bar> \<le> \<bar>x - y\<bar>"
  using assms by (simp add: mult_left_le_one_le)

lemma lerp_iter_simps [simp]:
  "lerp_iter y [] x = x"
  "lerp_iter y (t # ts) x = lerp_iter y ts (lerp x y t)"
  by (simp_all add: lerp_iter_def)

lemma lerp_iter_dist: "\<bar>lerp_iter y ts x - y\<bar> = (\<Prod>t \<leftarrow> ts. \<bar>1 - t\<bar>) * \<bar>x - y\<bar>"
  by (induction ts arbitrary: x) (simp_all add: mult.assoc)

lemma lerp_iter_towards:
  "\<forall>t \<in> set ts. 0 \<le> t \<and> t \<le> 1 \<Longrightarrow> \<bar>lerp_iter y ts x - y\<bar> \<le> \<bar>x - y\<bar>"
proof (induction ts arbitrary: x)
  case (Cons t ts)
  have "\<bar>lerp_iter y ts (lerp x y t) - y\<bar> \<le> \<bar>lerp x y t - y\<bar>"
    using Cons.prems by (intro Cons.IH) simp
  also have "\<dots> \<le> \<bar>x - y\<bar>" using Cons.prems by (simp add: mult_left_le_one_le)
  finally show ?case by simp
qed simp

text \<open>An interval holding both a value and the target holds every lerp
  between them.\<close>

lemma lerp_in_interval:
  "0 \<le> t \<Longrightarrow> t \<le> 1 \<Longrightarrow> a \<le> x \<Longrightarrow> x \<le> b \<Longrightarrow> a \<le> y \<Longrightarrow> y \<le> b \<Longrightarrow>
   a \<le> lerp x y t \<and> lerp x y t \<le> b"
  using lerp_between [of t x y] by linarith

subsection \<open>Results as sums\<close>

text \<open>A fallible operation returns \<open>Inl\<close> of the exception it throws or
  \<open>Inr\<close> of its result; \<open>map_sum id f\<close> lifts a component's result into the
  state of its caller.\<close>

lemma map_sum_eq_Inr [simp]: "map_sum f g x = Inr y \<longleftrightarrow> (\<exists>z. x = Inr z \<and> y = g z)"
  by (cases x) auto

lemma map_sum_eq_Inl [simp]: "map_sum f g x = Inl y \<longleftrightarrow> (\<exists>z. x = Inl z \<and> y = f z)"
  by (cases x) auto

subsection \<open>Lists of records\<close>

lemma filter_remove_other [simp]:
  "(\<And>x. x \<in> set xs \<Longrightarrow> Q x \<Longrightarrow> P x) \<Longrightarrow> filter P (filter Q xs) = filter Q xs"
  by (induction xs) auto

end
