(* ===== verification/Types.thy ===== *)
theory Types
  imports Prelude
begin

text \<open>
  The shared data of \<open>src/types.ts\<close>: the enumeration \<open>ExperienceStage\<close>, the
  single piece of state every component reads, and the \<open>Point\<close> interface.
  The stages are ordered by their position on the scripted path
  (\<open>stage_rank\<close>); the \<open>linorder\<close> instance lets the library's order
  automation speak about "later" stages.
\<close>

datatype ExperienceStage = START | GIFT_BOX | OPENING | WORLD | FINAL | CELEBRATION

text \<open>\<open>interface Point { x; y; z }\<close>: the fields are prefixed, since bare
  \<open>x\<close>, \<open>y\<close>, \<open>z\<close> would become constants of every later theory.\<close>

record Point =
  point_x :: real
  point_y :: real
  point_z :: real

primrec stage_rank :: "ExperienceStage \<Rightarrow> nat" where
  "stage_rank START = 0"
| "stage_rank GIFT_BOX = 1"
| "stage_rank OPENING = 2"
| "stage_rank WORLD = 3"
| "stage_rank FINAL = 4"
| "stage_rank CELEBRATION = 5"

instantiation ExperienceStage :: linorder
begin

definition less_eq_ExperienceStage :: "ExperienceStage \<Rightarrow> ExperienceStage \<Rightarrow> bool" where
  "s \<le> t \<longleftrightarrow> stage_rank s \<le> stage_rank t"

definition less_ExperienceStage :: "ExperienceStage \<Rightarrow> ExperienceStage \<Rightarrow> bool" where
  "s < t \<longleftrightarrow> stage_rank s < stage_rank t"

instance
proof
  fix s t u :: ExperienceStage
  show "s < t \<longleftrightarrow> s \<le> t \<and> \<not> t \<le> s"
    by (auto simp: less_eq_ExperienceStage_def less_ExperienceStage_def)
  show "s \<le> s" by (simp add: less_eq_ExperienceStage_def)
  show "s \<le> t \<Longrightarrow> t \<le> u \<Longrightarrow> s \<le> u" by (simp add: less_eq_ExperienceStage_def)
  show "s \<le> t \<Longrightarrow> t \<le> s \<Longrightarrow> s = t"
    by (cases s; cases t) (simp_all add: less_eq_ExperienceStage_def)
  show "s \<le> t \<or> t \<le> s" by (auto simp: less_eq_ExperienceStage_def)
qed

end

lemma stage_rank_inj: "stage_rank s = stage_rank t \<longleftrightarrow> s = t"
  by (cases s; cases t) simp_all

lemma stage_rank_le_5: "stage_rank s \<le> 5"
  by (cases s) simp_all

lemma START_least [simp]: "START \<le> s"
  by (simp add: less_eq_ExperienceStage_def)

lemma CELEBRATION_greatest [simp]: "s \<le> CELEBRATION"
  by (cases s) (simp_all add: less_eq_ExperienceStage_def)

lemma stage_le_code [simp]:
  "s \<le> t \<longleftrightarrow> stage_rank s \<le> stage_rank t"
  by (simp add: less_eq_ExperienceStage_def)

lemma stage_less_code [simp]:
  "s < t \<longleftrightarrow> stage_rank s < stage_rank t"
  by (simp add: less_ExperienceStage_def)

end
