(* ===== verification/Sequencer.thy ===== *)
theory Sequencer
  imports Types
begin

text \<open>
  The stage sequencer of \<open>src/App.tsx\<close>: the two pieces of React state
  of \<open>App\<close> (\<open>stage\<close>, \<open>hasStarted\<close>), the functional updater
  that \<open>nextStage\<close> passes to \<open>setStage\<close>, the timer that the
  \<open>useEffect\<close> on \<open>[stage]\<close> arms for the current stage, and the view
  flags \<open>App\<close> derives from the state.  The calls these handlers make into
  other components (\<open>SoundController.playBackground\<close>, the timer API) are
  composed with them in \<open>Experience\<close>.  The section closes with the
  abstract contract of spec section 4.1 and the lemmas that the pure parts
  refine it.
\<close>

record app_state =
  stage :: ExperienceStage
  hasStarted :: bool

definition app_init :: app_state where
  "app_init = \<lparr>stage = START, hasStarted = False\<rparr>"

text \<open>The updater \<open>(prev) => switch (prev) ...\<close> of \<open>nextStage\<close>.\<close>

fun nextStage_update :: "ExperienceStage \<Rightarrow> ExperienceStage" where
  "nextStage_update GIFT_BOX = OPENING"
| "nextStage_update OPENING = WORLD"
| "nextStage_update WORLD = FINAL"
| "nextStage_update prev = prev"

text \<open>The \<open>useEffect\<close> body: the delay and the target of the
  \<open>setTimeout(() => setStage(target), delay)\<close> it arms for a stage, if any.\<close>

definition stage_timer :: "ExperienceStage \<Rightarrow> (ms \<times> ExperienceStage) option" where
  "stage_timer s =
     (if s = OPENING then Some (3500, WORLD)
      else if s = WORLD then Some (6000, FINAL)
      else None)"

text \<open>View flags of \<open>App\<close>: the start overlay and the \<open>OrbitControls\<close> props.\<close>

definition start_overlay_shown :: "app_state \<Rightarrow> bool" where
  "start_overlay_shown a = (\<not> hasStarted a)"

definition enableZoom :: "ExperienceStage \<Rightarrow> bool" where
  "enableZoom s = (s = WORLD \<or> s = FINAL \<or> s = CELEBRATION)"

definition autoRotate :: "ExperienceStage \<Rightarrow> bool" where
  "autoRotate s = (s = GIFT_BOX \<or> s = FINAL \<or> s = CELEBRATION)"

subsection \<open>The contract of spec section 4.1\<close>

text \<open>The events of the spec's table and its transition function; an event
  the table does not list for a stage leaves the stage unchanged.\<close>

datatype spec_event = StartClick | BoxClick | TimerElapsed | YesClick

fun spec_transition :: "ExperienceStage \<Rightarrow> spec_event \<Rightarrow> ExperienceStage" where
  "spec_transition START StartClick = GIFT_BOX"
| "spec_transition GIFT_BOX BoxClick = OPENING"
| "spec_transition OPENING TimerElapsed = WORLD"
| "spec_transition WORLD TimerElapsed = FINAL"
| "spec_transition FINAL YesClick = CELEBRATION"
| "spec_transition s e = s"

text \<open>The spec's delays: 3500 ms in \<open>OPENING\<close>, 6000 ms in \<open>WORLD\<close>.\<close>

fun spec_delay :: "ExperienceStage \<Rightarrow> ms option" where
  "spec_delay OPENING = Some 3500"
| "spec_delay WORLD = Some 6000"
| "spec_delay s = None"

subsection \<open>Properties of the sequencer's pure parts\<close>

lemma nextStage_update_mono: "s \<le> nextStage_update s"
  by (cases s) simp_all

lemma nextStage_update_fixed:
  "nextStage_update s = s \<longleftrightarrow> s \<in> {START, FINAL, CELEBRATION}"
  by (cases s) simp_all

lemma stage_timer_Some:
  "stage_timer s = Some (d, t) \<longleftrightarrow>
     (s = OPENING \<and> d = 3500 \<and> t = WORLD) \<or> (s = WORLD \<and> d = 6000 \<and> t = FINAL)"
  by (auto simp: stage_timer_def)

lemma stage_timer_None: "stage_timer s = None \<longleftrightarrow> s \<notin> {OPENING, WORLD}"
  by (simp add: stage_timer_def)

subsection \<open>Refinement of the contract\<close>

text \<open>C12: The timer App's effect arms in a stage is the timed transition of the
  spec's table: in \<open>OPENING\<close> a 3500 ms timer to \<open>WORLD\<close>, in \<open>WORLD\<close> a
  6000 ms timer to \<open>FINAL\<close>, and no timer in any other stage.\<close>

theorem stage_timer_refines_spec:
  "stage_timer s =
     (case spec_delay s of None \<Rightarrow> None | Some d \<Rightarrow> Some (d, spec_transition s TimerElapsed))"
  by (cases s) (simp_all add: stage_timer_def)

end
