(* ===== verification/Timers.thy ===== *)
theory Timers
  imports Prelude
begin

text \<open>
  The browser's timer API as the sources use it (\<open>setTimeout\<close>,
  \<open>setInterval\<close>, \<open>clearTimeout\<close>, \<open>clearInterval\<close>): a queue of pending
  timers, each with the handle the call returned, the time it is due, the
  callback it runs (a value of the client's type \<open>'k\<close>) and, for an interval,
  its period.  Handles come from one counter shared by timeouts and intervals,
  as in browsers, and either clear function removes either kind.  The event
  loop fires the pending timer that is due first, earlier-scheduled first among
  equal due times, advancing the clock to its due time; an interval is re-armed
  one period later.  This theory is generic in the callback type: the
  components of the program instantiate \<open>'k\<close> with their own callbacks
  (theory \<open>Experience\<close>).
\<close>

record 'k timer =
  tm_id :: nat
  tm_due :: ms
  tm_kind :: 'k
  tm_period :: "ms option"

record 'k tqueue =
  tq_timers :: "'k timer list"
  tq_next :: nat
  tq_now :: ms

definition tq_empty :: "'k tqueue" where
  "tq_empty = \<lparr>tq_timers = [], tq_next = 1, tq_now = 0\<rparr>"

definition schedule :: "'k \<Rightarrow> ms \<Rightarrow> ms option \<Rightarrow> 'k tqueue \<Rightarrow> nat \<times> 'k tqueue" where
  "schedule k d p q =
     (tq_next q,
      q\<lparr>tq_timers := tq_timers q @ [\<lparr>tm_id = tq_next q, tm_due = tq_now q + d,
                                      tm_kind = k, tm_period = p\<rparr>],
        tq_next := Suc (tq_next q)\<rparr>)"

definition setTimeout :: "'k \<Rightarrow> ms \<Rightarrow> 'k tqueue \<Rightarrow> nat \<times> 'k tqueue" where
  "setTimeout k d = schedule k d None"

definition setInterval :: "'k \<Rightarrow> ms \<Rightarrow> 'k tqueue \<Rightarrow> nat \<times> 'k tqueue" where
  "setInterval k d = schedule k d (Some d)"

definition clearTimer :: "nat \<Rightarrow> 'k tqueue \<Rightarrow> 'k tqueue" where
  "clearTimer h q = q\<lparr>tq_timers := filter (\<lambda>t. tm_id t \<noteq> h) (tq_timers q)\<rparr>"

text \<open>\<open>t\<close> fires no later than \<open>u\<close>.\<close>

definition fires_before :: "'k timer \<Rightarrow> 'k timer \<Rightarrow> bool" where
  "fires_before t u \<longleftrightarrow> tm_due t < tm_due u \<or> (tm_due t = tm_due u \<and> tm_id t \<le> tm_id u)"

fun earliest :: "'k timer list \<Rightarrow> 'k timer option" where
  "earliest [] = None"
| "earliest (t # ts) =
     (case earliest ts of
        None \<Rightarrow> Some t
      | Some u \<Rightarrow> if fires_before t u then Some t else Some u)"

text \<open>Firing: take the earliest timer, move the clock to its due time, drop
  a timeout and re-arm an interval.  \<open>None\<close> when no timer is pending.\<close>

definition rearm :: "'k timer \<Rightarrow> 'k timer list \<Rightarrow> 'k timer list" where
  "rearm t ts =
     (case tm_period t of
        None \<Rightarrow> filter (\<lambda>u. tm_id u \<noteq> tm_id t) ts
      | Some p \<Rightarrow> map (\<lambda>u. if tm_id u = tm_id t then u\<lparr>tm_due := tm_due t + p\<rparr> else u) ts)"

definition fire_next :: "'k tqueue \<Rightarrow> ('k timer \<times> 'k tqueue) option" where
  "fire_next q =
     (case earliest (tq_timers q) of
        None \<Rightarrow> None
      | Some t \<Rightarrow> Some (t, q\<lparr>tq_timers := rearm t (tq_timers q),
                             tq_now := max (tq_now q) (tm_due t)\<rparr>))"

subsection \<open>Well-formedness of the queue\<close>

text \<open>Handles are distinct and below the counter, nothing is due in the past,
  and every interval has a positive period (the sources' periods are 2000,
  3000 and 3500 ms).\<close>

definition tq_wf :: "'k tqueue \<Rightarrow> bool" where
  "tq_wf q \<longleftrightarrow>
     distinct (map tm_id (tq_timers q)) \<and>
     (\<forall>t \<in> set (tq_timers q). tm_id t < tq_next q \<and> tq_now q \<le> tm_due t \<and>
        (\<forall>p. tm_period t = Some p \<longrightarrow> 0 < p))"

definition has_timer :: "nat \<Rightarrow> 'k tqueue \<Rightarrow> bool" where
  "has_timer h q \<longleftrightarrow> h \<in> tm_id ` set (tq_timers q)"

text \<open>How many times timer \<open>u\<close> fires at due times up to \<open>D\<close> unless it is
  cleared: once for a timeout due by \<open>D\<close>, once per period for an interval.
  The backlog of a list of timers up to \<open>D\<close> weighs these firings by a
  weight of the callback.\<close>

definition fire_count :: "ms \<Rightarrow> 'k timer \<Rightarrow> nat" where
  "fire_count D u =
     (if tm_due u \<le> D then (case tm_period u of None \<Rightarrow> 1 | Some p \<Rightarrow> (D - tm_due u) div p + 1)
      else 0)"

definition backlog :: "('k \<Rightarrow> nat) \<Rightarrow> ms \<Rightarrow> 'k timer list \<Rightarrow> nat" where
  "backlog wt D ts = (\<Sum>u \<leftarrow> ts. wt (tm_kind u) * fire_count D u)"

text \<open>The pending timers whose callback satisfies \<open>P\<close>, by handle, callback
  and period (the due time is left out: re-arming changes it).\<close>

definition tsig :: "'k timer \<Rightarrow> nat \<times> 'k \<times> ms option" where
  "tsig t = (tm_id t, tm_kind t, tm_period t)"

definition kind_sigs :: "('k \<Rightarrow> bool) \<Rightarrow> 'k tqueue \<Rightarrow> (nat \<times> 'k \<times> ms option) list" where
  "kind_sigs P q = map tsig (filter (\<lambda>t. P (tm_kind t)) (tq_timers q))"

lemma tq_wf_empty: "tq_wf tq_empty"
  by (simp add: tq_wf_def tq_empty_def)

lemma earliest_None [simp]: "earliest ts = None \<longleftrightarrow> ts = []"
  by (induction ts) (auto split: option.splits)

lemma earliest_in: "earliest ts = Some t \<Longrightarrow> t \<in> set ts"
  by (induction ts arbitrary: t) (auto split: option.splits if_splits)

lemma fires_before_trans:
  "fires_before a b \<Longrightarrow> fires_before b c \<Longrightarrow> fires_before a c"
  by (auto simp: fires_before_def)

lemma fires_before_total: "fires_before a b \<or> fires_before b a"
  by (auto simp: fires_before_def)

lemma earliest_first:
  "earliest ts = Some t \<Longrightarrow> u \<in> set ts \<Longrightarrow> fires_before t u"
proof (induction ts arbitrary: t u)
  case Nil
  then show ?case by simp
next
  case (Cons v ts)
  show ?case
  proof (cases "earliest ts")
    case None
    with Cons.prems show ?thesis by (auto simp: fires_before_def)
  next
    case (Some w)
    have w: "\<And>u. u \<in> set ts \<Longrightarrow> fires_before w u" using Cons.IH[OF Some] by blast
    show ?thesis
    proof (cases "fires_before v w")
      case True
      with Cons.prems(1) Some have "t = v" by simp
      with Cons.prems(2) w True show ?thesis
        by (auto simp: fires_before_def [of v v] intro: fires_before_trans)
    next
      case False
      then have "fires_before w v" using fires_before_total by blast
      with Cons.prems Some w False show ?thesis by auto
    qed
  qed
qed

lemma schedule_fresh:
  "schedule k d p q = (h, q') \<Longrightarrow> tq_wf q \<Longrightarrow> \<not> has_timer h q"
  by (auto simp: schedule_def tq_wf_def has_timer_def)

lemma schedule_wf:
  "tq_wf q \<Longrightarrow> (\<forall>n. p = Some n \<longrightarrow> 0 < n) \<Longrightarrow> tq_wf (snd (schedule k d p q))"
  by (auto simp: schedule_def tq_wf_def)

lemma clearTimer_wf: "tq_wf q \<Longrightarrow> tq_wf (clearTimer h q)"
  by (auto simp: clearTimer_def tq_wf_def distinct_map_filter)

lemma clearTimer_gone: "\<not> has_timer h (clearTimer h q)"
  by (auto simp: clearTimer_def has_timer_def)

lemma clearTimer_other:
  "h' \<noteq> h \<Longrightarrow> has_timer h' (clearTimer h q) \<longleftrightarrow> has_timer h' q"
  by (auto simp: clearTimer_def has_timer_def)

subsection \<open>Timers of one kind of callback\<close>

lemma kind_sigs_schedule_other [simp]:
  "\<not> P k \<Longrightarrow> kind_sigs P (snd (schedule k d p q)) = kind_sigs P q"
  by (simp add: kind_sigs_def schedule_def)

lemma kind_sigs_schedule_same:
  "P k \<Longrightarrow> kind_sigs P (snd (schedule k d p q)) = kind_sigs P q @ [(tq_next q, k, p)]"
  by (simp add: kind_sigs_def schedule_def tsig_def)

lemma kind_sigs_clearTimer:
  "kind_sigs P (clearTimer h q) = filter (\<lambda>x. fst x \<noteq> h) (kind_sigs P q)"
  by (simp add: kind_sigs_def clearTimer_def filter_map comp_def tsig_def conj_commute)

lemma schedule_next [simp]: "tq_next (snd (schedule k d p q)) = Suc (tq_next q)"
  by (simp add: schedule_def)

lemma schedule_fst [simp]: "fst (schedule k d p q) = tq_next q"
  by (simp add: schedule_def)

lemma map_tsig_rearm_filter:
  "map tsig (filter P' (rearm t ts)) =
     (if tm_period t = None then filter (\<lambda>x. fst x \<noteq> tm_id t) (map tsig (filter P' ts))
      else map tsig (filter P' ts))"
  if "\<And>u d. P' (u\<lparr>tm_due := d\<rparr>) = P' u"
  using that by (induction ts) (auto simp: rearm_def tsig_def split: option.splits)

lemma kind_sigs_fire_next:
  "fire_next q = Some (t, q') \<Longrightarrow>
   kind_sigs P q' =
     (if tm_period t = None then filter (\<lambda>x. fst x \<noteq> tm_id t) (kind_sigs P q) else kind_sigs P q)"
  by (auto simp: fire_next_def kind_sigs_def map_tsig_rearm_filter split: option.splits)

lemma fire_next_Some:
  "fire_next q = Some (t, q') \<Longrightarrow> t \<in> set (tq_timers q) \<and> tq_next q' = tq_next q"
  by (auto simp: fire_next_def dest: earliest_in split: option.splits)

lemma fire_next_None: "fire_next q = None \<longleftrightarrow> tq_timers q = []"
  by (auto simp: fire_next_def split: option.splits)

lemma rearm_ids: "map tm_id (rearm t ts) =
  (if tm_period t = None then filter (\<lambda>i. i \<noteq> tm_id t) (map tm_id ts) else map tm_id ts)"
  by (induction ts) (auto simp: rearm_def split: option.splits)

lemma set_rearm:
  "u \<in> set (rearm t ts) \<Longrightarrow>
   (u \<in> set ts \<and> tm_id u \<noteq> tm_id t) \<or>
   (\<exists>v p. v \<in> set ts \<and> tm_id v = tm_id t \<and> tm_period t = Some p \<and>
          u = v\<lparr>tm_due := tm_due t + p\<rparr>)"
  by (auto simp: rearm_def split: option.splits if_splits)

lemma fire_next_wf:
  assumes "tq_wf q" "fire_next q = Some (t, q')"
  shows "tq_wf q'"
proof -
  have t: "earliest (tq_timers q) = Some t" and
    q': "q' = q\<lparr>tq_timers := rearm t (tq_timers q), tq_now := max (tq_now q) (tm_due t)\<rparr>"
    using assms(2) by (auto simp: fire_next_def split: option.splits)
  have tin: "t \<in> set (tq_timers q)" using t by (rule earliest_in)
  have first: "\<And>u. u \<in> set (tq_timers q) \<Longrightarrow> tm_due t \<le> tm_due u"
    using earliest_first [OF t] unfolding fires_before_def by fastforce
  have dist: "distinct (map tm_id (rearm t (tq_timers q)))"
    using assms(1) by (simp add: rearm_ids tq_wf_def distinct_filter)
  have "\<forall>u \<in> set (rearm t (tq_timers q)). tm_id u < tq_next q \<and>
          max (tq_now q) (tm_due t) \<le> tm_due u \<and> (\<forall>p. tm_period u = Some p \<longrightarrow> 0 < p)"
  proof
    fix u assume "u \<in> set (rearm t (tq_timers q))"
    then show "tm_id u < tq_next q \<and> max (tq_now q) (tm_due t) \<le> tm_due u \<and>
                 (\<forall>p. tm_period u = Some p \<longrightarrow> 0 < p)"
      using assms(1) tin first by (auto simp: tq_wf_def dest!: set_rearm)
  qed
  with dist q' show ?thesis by (simp add: tq_wf_def)
qed

lemma kind_sigs_id_other:
  assumes "tq_wf q" "t \<in> set (tq_timers q)" "\<not> P (tm_kind t)" "x \<in> set (kind_sigs P q)"
  shows "fst x \<noteq> tm_id t"
proof
  assume eq: "fst x = tm_id t"
  from assms(4) obtain u where u: "u \<in> set (tq_timers q)" "P (tm_kind u)" "x = tsig u"
    by (auto simp: kind_sigs_def)
  have "inj_on tm_id (set (tq_timers q))"
    using assms(1) by (simp add: tq_wf_def distinct_map)
  with u assms(2) eq have "u = t" by (auto simp: tsig_def dest: inj_onD)
  with u assms(3) show False by simp
qed

lemma kind_sigs_mem:
  "t \<in> set (tq_timers q) \<Longrightarrow> P (tm_kind t) \<Longrightarrow> tsig t \<in> set (kind_sigs P q)"
  by (simp add: kind_sigs_def)

lemma set_schedule: "set (tq_timers (snd (schedule k d p q))) =
  insert \<lparr>tm_id = tq_next q, tm_due = tq_now q + d, tm_kind = k, tm_period = p\<rparr> (set (tq_timers q))"
  by (auto simp: schedule_def)

lemma set_clearTimer: "set (tq_timers (clearTimer h q)) \<subseteq> set (tq_timers q)"
  by (auto simp: clearTimer_def)

subsection \<open>Progress of the event loop\<close>

text \<open>Firing a timer due by \<open>D\<close> lowers the backlog up to \<open>D\<close> by exactly
  the weight of its callback; so a timer due at \<open>D\<close> is reached after
  finitely many firings, whatever the other timers schedule, as long as each
  firing schedules less than its own weight.\<close>

lemma sum_list_remove_id:
  "distinct (map tm_id ts) \<Longrightarrow> t \<in> set ts \<Longrightarrow>
   (\<Sum>u \<leftarrow> ts. (f u :: nat)) = f t + (\<Sum>u \<leftarrow> filter (\<lambda>u. tm_id u \<noteq> tm_id t) ts. f u)"
proof (induction ts)
  case (Cons v ts)
  show ?case
  proof (cases "v = t")
    case True
    with Cons.prems have "filter (\<lambda>u. tm_id u \<noteq> tm_id t) ts = ts"
      by (auto simp: filter_id_conv image_iff)
    with True show ?thesis by simp
  next
    case False
    with Cons.prems have "tm_id v \<noteq> tm_id t" by (auto simp: image_iff)
    with Cons False show ?thesis by (simp add: add_ac)
  qed
qed simp

lemma sum_list_update_id:
  "distinct (map tm_id ts) \<Longrightarrow> t \<in> set ts \<Longrightarrow>
   (\<Sum>u \<leftarrow> map (\<lambda>u. if tm_id u = tm_id t then g u else u) ts. (f u :: nat)) + f t =
   (\<Sum>u \<leftarrow> ts. f u) + f (g t)"
proof (induction ts)
  case (Cons v ts)
  show ?case
  proof (cases "v = t")
    case True
    with Cons.prems have "map (\<lambda>u. if tm_id u = tm_id t then g u else u) ts = ts"
      by (intro map_idI) (auto simp: image_iff)
    with True show ?thesis by (simp add: add_ac)
  next
    case False
    with Cons.prems have "tm_id v \<noteq> tm_id t" by (auto simp: image_iff)
    with Cons False show ?thesis by simp
  qed
qed simp

lemma fire_count_rearm:
  assumes "tm_due t \<le> D" "0 < p" "tm_period t = Some p"
  shows "Suc (fire_count D (t\<lparr>tm_due := tm_due t + p\<rparr>)) = fire_count D t"
proof (cases "tm_due t + p \<le> D")
  case True
  define x where "x = D - (tm_due t + p)"
  have x: "D - tm_due t = x + p" using True by (simp add: x_def)
  have "(x + p) div p = Suc (x div p)" using assms(2) by simp
  with True assms x show ?thesis by (simp add: fire_count_def x_def)
next
  case False
  then have "D < tm_due t + p" by simp
  then have "D - tm_due t < p" using assms(2) by linarith
  then have "(D - tm_due t) div p = 0" by simp
  with False assms show ?thesis by (simp add: fire_count_def)
qed

lemma backlog_append [simp]: "backlog wt D (ts @ us) = backlog wt D ts + backlog wt D us"
  by (simp add: backlog_def)

lemma backlog_fire_next:
  assumes "tq_wf q" "fire_next q = Some (t, q')" "tm_due t \<le> D"
  shows "backlog wt D (tq_timers q') + wt (tm_kind t) = backlog wt D (tq_timers q)"
proof -
  have e: "earliest (tq_timers q) = Some t"
    and q': "tq_timers q' = rearm t (tq_timers q)"
    using assms(2) by (auto simp: fire_next_def split: option.splits)
  have tin: "t \<in> set (tq_timers q)" using e by (rule earliest_in)
  have dist: "distinct (map tm_id (tq_timers q))" using assms(1) by (simp add: tq_wf_def)
  let ?f = "\<lambda>u. wt (tm_kind u) * fire_count D u"
  show ?thesis
  proof (cases "tm_period t")
    case None
    then have "fire_count D t = 1" using assms(3) by (simp add: fire_count_def)
    with sum_list_remove_id [OF dist tin, of ?f] None q' show ?thesis
      by (simp add: backlog_def rearm_def)
  next
    case (Some p)
    have "0 < p" using assms(1) tin Some by (auto simp: tq_wf_def)
    from fire_count_rearm [OF assms(3) this Some]
    have "fire_count D t = Suc (fire_count D (t\<lparr>tm_due := tm_due t + p\<rparr>))" by simp
    then have "?f t = ?f (t\<lparr>tm_due := tm_due t + p\<rparr>) + wt (tm_kind t)" by simp
    with sum_list_update_id [OF dist tin, where g = "\<lambda>u. u\<lparr>tm_due := tm_due t + p\<rparr>" and f = ?f] Some q'
    show ?thesis by (simp add: backlog_def rearm_def)
  qed
qed

lemma rearm_keeps_other:
  "u \<in> set ts \<Longrightarrow> tm_id u \<noteq> tm_id t \<Longrightarrow> u \<in> set (rearm t ts)"
  by (auto simp: rearm_def split: option.splits)

end
