(* ===== verification/Sound.thy ===== *)
theory Sound
  imports Timers
begin

text \<open>
  The singleton \<open>SoundController\<close> of \<open>src/services/SoundController.ts\<close>.
  Its state is the lazily created \<open>audioContext\<close>; each \<open>playTone\<close> starts an
  oscillator whose gain follows a three-point envelope.  The model keeps the
  context's state (\<open>suspended\<close> or \<open>running\<close>) and the log of every oscillator
  started, with its frequency, waveform, start and stop time and the gain
  automation it was given.  The audio clock \<open>currentTime\<close> is an argument.

  The browser is an environment record: whether an \<open>AudioContext\<close> constructor
  exists, and the state a fresh context starts in.  \<open>new undefined()\<close> throws a
  \<open>TypeError\<close>, which the source does not catch: \<open>init\<close>, and every public
  method that calls it, returns \<open>Inl TypeError\<close> in that case.

  \<open>playSparkle\<close> and \<open>playBackground\<close> schedule their notes with
  \<open>setTimeout\<close>/\<open>setInterval\<close>: they act on a timer queue of any callback type
  \<open>'k\<close>, into which the caller's embedding \<open>emb\<close> embeds this component's
  callbacks (\<open>sound_cb\<close>).  Running a fired callback is \<open>run_sound_cb\<close>.
\<close>

datatype OscillatorType = Sine | Square | Sawtooth | Triangle

datatype ctx_state = Suspended | Running

datatype js_error = TypeError

text \<open>The gain automation calls of \<open>playTone\<close>, in the order they are made.\<close>

datatype gain_event =
    SetValueAtTime real seconds
  | LinearRampToValueAtTime real seconds
  | ExponentialRampToValueAtTime real seconds

record tone =
  tone_freq :: real
  tone_type :: OscillatorType
  tone_start :: seconds
  tone_stop :: seconds
  tone_gain :: "gain_event list"

record sound_controller =
  audioContext :: "ctx_state option"
  tones :: "tone list"

record audio_env =
  ctor_available :: bool
  fresh_state :: ctx_state

definition sound_init_state :: sound_controller where
  "sound_init_state = \<lparr>audioContext = None, tones = []\<rparr>"

text \<open>\<open>init()\<close>: create the context once; resume it when suspended (the
  asynchronous \<open>resume()\<close> is taken to succeed).\<close>

definition init :: "audio_env \<Rightarrow> sound_controller \<Rightarrow> js_error + sound_controller" where
  "init env sc =
     (let created =
        (case audioContext sc of
           None \<Rightarrow> if ctor_available env then Inr (sc\<lparr>audioContext := Some (fresh_state env)\<rparr>)
                   else Inl TypeError
         | Some _ \<Rightarrow> Inr sc)
      in case created of
           Inl e \<Rightarrow> Inl e
         | Inr sc' \<Rightarrow>
             Inr (if audioContext sc' = Some Suspended
                  then sc'\<lparr>audioContext := Some Running\<rparr> else sc'))"

definition mk_tone :: "seconds \<Rightarrow> real \<Rightarrow> OscillatorType \<Rightarrow> seconds \<Rightarrow> real \<Rightarrow> tone" where
  "mk_tone now freq type duration volume =
     \<lparr>tone_freq = freq, tone_type = type, tone_start = now, tone_stop = now + duration,
      tone_gain = [SetValueAtTime 0 now,
                   LinearRampToValueAtTime volume (now + 0.05),
                   ExponentialRampToValueAtTime 0.001 (now + duration)]\<rparr>"

definition playTone ::
  "audio_env \<Rightarrow> seconds \<Rightarrow> real \<Rightarrow> OscillatorType \<Rightarrow> seconds \<Rightarrow> real \<Rightarrow>
   sound_controller \<Rightarrow> js_error + sound_controller" where
  "playTone env now freq type duration volume sc =
     (case init env sc of
        Inl e \<Rightarrow> Inl e
      | Inr sc' \<Rightarrow>
          if audioContext sc' = None then Inr sc'
          else Inr (sc'\<lparr>tones := tones sc' @ [mk_tone now freq type duration volume]\<rparr>))"

definition playPop :: "audio_env \<Rightarrow> seconds \<Rightarrow> sound_controller \<Rightarrow> js_error + sound_controller" where
  "playPop env now sc =
     (case playTone env now 400 Sine 0.2 0.1 sc of
        Inl e \<Rightarrow> Inl e
      | Inr sc' \<Rightarrow> playTone env now 600 Sine 0.1 0.05 sc')"

definition playBoop :: "audio_env \<Rightarrow> seconds \<Rightarrow> sound_controller \<Rightarrow> js_error + sound_controller" where
  "playBoop env now sc = playTone env now 880 Sine 0.15 0.05 sc"

subsection \<open>Scheduled notes\<close>

datatype sound_cb = SparkleNote real | PianoTick | HeartbeatTick | HeartbeatEcho

definition sparkle_tones :: "real list" where
  "sparkle_tones = [1200, 1500, 1800, 2200]"

definition pianoNotes :: "real list" where
  "pianoNotes = [261.63, 329.63, 392.00, 493.88]"

text \<open>\<open>tones.forEach((t, i) => setTimeout(() => playTone(t, ...), i * 100))\<close>.\<close>

fun sparkle_loop :: "(sound_cb \<Rightarrow> 'k) \<Rightarrow> nat \<Rightarrow> real list \<Rightarrow> 'k tqueue \<Rightarrow> 'k tqueue" where
  "sparkle_loop emb i [] q = q"
| "sparkle_loop emb i (t # ts) q =
     sparkle_loop emb (Suc i) ts (snd (setTimeout (emb (SparkleNote t)) (i * 100) q))"

definition playSparkle :: "(sound_cb \<Rightarrow> 'k) \<Rightarrow> 'k tqueue \<Rightarrow> 'k tqueue" where
  "playSparkle emb q = sparkle_loop emb 0 sparkle_tones q"

text \<open>\<open>playBackground()\<close>: \<open>init()\<close>, then the piano interval (2000 ms) and the
  heartbeat interval (3000 ms).  Neither interval handle is kept, so nothing
  can ever clear them.\<close>

definition playBackground ::
  "audio_env \<Rightarrow> (sound_cb \<Rightarrow> 'k) \<Rightarrow> sound_controller \<Rightarrow> 'k tqueue \<Rightarrow>
   js_error + sound_controller \<times> 'k tqueue" where
  "playBackground env emb sc q =
     (case init env sc of
        Inl e \<Rightarrow> Inl e
      | Inr sc' \<Rightarrow>
          Inr (sc', snd (setInterval (emb HeartbeatTick) 3000
                           (snd (setInterval (emb PianoTick) 2000 q)))))"

text \<open>\<open>pianoNotes[Math.floor(Math.random() * pianoNotes.length)]\<close>: an
  out-of-range index would read \<open>undefined\<close>, written here as \<open>None\<close>.\<close>

definition js_index :: "'a list \<Rightarrow> int \<Rightarrow> 'a option" where
  "js_index xs i = (if 0 \<le> i \<and> i < int (length xs) then Some (xs ! nat i) else None)"

definition piano_note :: "real \<Rightarrow> real option" where
  "piano_note r = js_index pianoNotes \<lfloor>r * real (length pianoNotes)\<rfloor>"

text \<open>Running a fired callback of this component.  The random number of the
  piano tick is an argument; a piano tick whose index fell out of range would
  pass \<open>undefined\<close> to \<open>setValueAtTime\<close>, which throws a \<open>TypeError\<close>.\<close>

fun run_sound_cb ::
  "audio_env \<Rightarrow> (sound_cb \<Rightarrow> 'k) \<Rightarrow> seconds \<Rightarrow> real \<Rightarrow> sound_cb \<Rightarrow>
   sound_controller \<times> 'k tqueue \<Rightarrow> js_error + sound_controller \<times> 'k tqueue" where
  "run_sound_cb env emb now r (SparkleNote f) (sc, q) =
     (case playTone env now f Sine 0.5 0.02 sc of Inl e \<Rightarrow> Inl e | Inr sc' \<Rightarrow> Inr (sc', q))"
| "run_sound_cb env emb now r PianoTick (sc, q) =
     (case piano_note r of
        None \<Rightarrow> Inl TypeError
      | Some note \<Rightarrow>
          (case playTone env now note Sine 3 0.02 sc of Inl e \<Rightarrow> Inl e | Inr sc' \<Rightarrow> Inr (sc', q)))"
| "run_sound_cb env emb now r HeartbeatTick (sc, q) =
     (case playTone env now 60 Sine 0.1 0.03 sc of
        Inl e \<Rightarrow> Inl e
      | Inr sc' \<Rightarrow> Inr (sc', snd (setTimeout (emb HeartbeatEcho) 150 q)))"
| "run_sound_cb env emb now r HeartbeatEcho (sc, q) =
     (case playTone env now 50 Sine 0.1 0.02 sc of Inl e \<Rightarrow> Inl e | Inr sc' \<Rightarrow> Inr (sc', q))"

subsection \<open>Properties\<close>

text \<open>A well-formed envelope: the gain starts at 0 at the start time, ramps
  linearly to a peak of at most 0.1 at 50 ms, then exponentially to 0.001 at the
  stop time, which lies after the peak; the exponential target is positive
  (Web Audio rejects 0) and below the peak, so the tone fades out.\<close>

fun envelope_ok :: "tone \<Rightarrow> bool" where
  "envelope_ok t =
     (case tone_gain t of
        [SetValueAtTime g a, LinearRampToValueAtTime v b, ExponentialRampToValueAtTime e c] \<Rightarrow>
          g = 0 \<and> a = tone_start t \<and> b = a + 0.05 \<and> c = tone_stop t \<and> b < c \<and>
          0 < e \<and> e < v \<and> v \<le> 0.1 \<and> 0 < tone_freq t
      | _ \<Rightarrow> False)"

definition sound_ok :: "sound_controller \<Rightarrow> bool" where
  "sound_ok sc \<longleftrightarrow> (\<forall>t \<in> set (tones sc). envelope_ok t)"

declare envelope_ok.simps [simp del]

lemma ctx_state_not_Suspended [simp]: "a \<noteq> Suspended \<longleftrightarrow> a = Running"
  by (cases a) simp_all

lemma mk_tone_ok:
  "0.05 < duration \<Longrightarrow> 0.001 < volume \<Longrightarrow> volume \<le> 0.1 \<Longrightarrow> 0 < freq \<Longrightarrow>
   envelope_ok (mk_tone now freq type duration volume)"
  by (simp add: mk_tone_def envelope_ok.simps)

lemma init_tones [simp]: "init env sc = Inr sc' \<Longrightarrow> tones sc' = tones sc"
  by (auto simp: init_def Let_def split: option.splits if_splits sum.splits)

lemma init_Inl: "init env sc = Inl TypeError \<longleftrightarrow> audioContext sc = None \<and> \<not> ctor_available env"
  by (auto simp: init_def Let_def split: option.splits if_splits sum.splits)

lemma init_Inr_running: "init env sc = Inr sc' \<Longrightarrow> audioContext sc' = Some Running"
  by (cases "audioContext sc") (auto simp: init_def Let_def split: if_splits ctx_state.splits)

lemma init_Inr_ex:
  "ctor_available env \<or> audioContext sc \<noteq> None \<Longrightarrow> \<exists>sc'. init env sc = Inr sc'"
  by (auto simp: init_def Let_def split: option.splits)

lemma playTone_Inl: "playTone env now f ty d v sc = Inl e \<longleftrightarrow> init env sc = Inl e"
  by (auto simp: playTone_def split: sum.splits)

lemma playTone_appends:
  "playTone env now f ty d v sc = Inr sc' \<Longrightarrow>
   tones sc' = tones sc @ [mk_tone now f ty d v] \<and> audioContext sc' = Some Running"
  by (auto simp: playTone_def dest: init_Inr_running split: sum.splits if_splits)

lemma playTone_ok [inv_preserved]:
  assumes "playTone env now freq type duration volume sc = Inr sc'" "sound_ok sc"
    and "0.05 < duration" "0.001 < volume" "volume \<le> 0.1" "0 < freq"
  shows "sound_ok sc'"
proof -
  from playTone_appends [OF assms(1)]
  have "tones sc' = tones sc @ [mk_tone now freq type duration volume]" by simp
  with assms(2-) show ?thesis by (simp add: sound_ok_def mk_tone_ok)
qed

lemma piano_note_mem: "piano_note r = Some n \<Longrightarrow> n \<in> set pianoNotes"
proof -
  assume "piano_note r = Some n"
  then have "0 \<le> \<lfloor>r * real (length pianoNotes)\<rfloor>"
    and "nat \<lfloor>r * real (length pianoNotes)\<rfloor> < length pianoNotes"
    and "n = pianoNotes ! nat \<lfloor>r * real (length pianoNotes)\<rfloor>"
    by (auto simp: piano_note_def js_index_def nat_less_iff split: if_splits)
  then show ?thesis by simp
qed

lemma piano_note_in_range: "0 \<le> r \<Longrightarrow> r < 1 \<Longrightarrow> piano_note r \<noteq> None"
proof -
  assume r: "0 \<le> r" "r < 1"
  then have "0 \<le> \<lfloor>r * 4\<rfloor>" and "\<lfloor>r * 4\<rfloor> < 4" by (simp_all add: floor_less_iff)
  then show ?thesis by (simp add: piano_note_def js_index_def pianoNotes_def)
qed

subsection \<open>A browser with \<open>AudioContext\<close>\<close>

text \<open>Where the constructor exists, no operation of the controller throws,
  except a piano tick whose random draw is outside \<open>[0, 1)\<close>.\<close>

lemma playTone_audio: "ctor_available env \<Longrightarrow> \<exists>sc'. playTone env now f ty d v sc = Inr sc'"
  using init_Inr_ex [of env sc] by (auto simp: playTone_def)

lemma playTone_no_throw: "playTone env now f ty d v sc = Inl e \<Longrightarrow> ctor_available env \<Longrightarrow> False"
  using playTone_audio [of env now f ty d v sc] by auto

lemma playPop_audio: "ctor_available env \<Longrightarrow> \<exists>sc'. playPop env now sc = Inr sc'"
proof -
  assume a: "ctor_available env"
  obtain sc1 where "playTone env now 400 Sine 0.2 0.1 sc = Inr sc1" using playTone_audio [OF a] by blast
  then show ?thesis using playTone_audio [OF a] by (simp add: playPop_def)
qed

lemma playBoop_audio: "ctor_available env \<Longrightarrow> \<exists>sc'. playBoop env now sc = Inr sc'"
  by (simp add: playBoop_def playTone_audio)

lemma playBackground_audio: "ctor_available env \<Longrightarrow> \<exists>x. playBackground env emb sc q = Inr x"
  using init_Inr_ex [of env sc] by (auto simp: playBackground_def)

lemma run_sound_cb_audio:
  assumes "ctor_available env" "c = PianoTick \<longrightarrow> 0 \<le> r \<and> r < 1"
  shows "\<exists>x. run_sound_cb env emb now r c (sc, q) = Inr x"
proof (cases c)
  case PianoTick
  then obtain n where "piano_note r = Some n" using assms(2) piano_note_in_range by blast
  moreover obtain sc1 where "playTone env now n Sine 3 0.02 sc = Inr sc1"
    using playTone_audio [OF assms(1)] by blast
  ultimately show ?thesis using PianoTick by simp
qed (use assms(1) in \<open>auto split: sum.split dest: playTone_no_throw\<close>)

subsection \<open>What the operations do to the timer queue and the tone log\<close>

lemma playPop_ok [inv_preserved]:
  "playPop env now sc = Inr sc' \<Longrightarrow> sound_ok sc \<Longrightarrow> sound_ok sc'"
  by (auto simp: playPop_def split: sum.splits elim!: playTone_ok)

lemma playBoop_ok [inv_preserved]:
  "playBoop env now sc = Inr sc' \<Longrightarrow> sound_ok sc \<Longrightarrow> sound_ok sc'"
  by (auto simp: playBoop_def elim!: playTone_ok)

lemma sparkle_loop_sigs:
  "(\<And>c. \<not> P (emb c)) \<Longrightarrow> kind_sigs P (sparkle_loop emb i ts q) = kind_sigs P q"
  by (induction emb i ts q rule: sparkle_loop.induct) (simp_all add: setTimeout_def)

lemma sparkle_loop_wf: "tq_wf q \<Longrightarrow> tq_wf (sparkle_loop emb i ts q)"
  by (induction emb i ts q rule: sparkle_loop.induct) (simp_all add: setTimeout_def schedule_wf)

lemma playSparkle_sigs:
  "(\<And>c. \<not> P (emb c)) \<Longrightarrow> kind_sigs P (playSparkle emb q) = kind_sigs P q"
  by (simp add: playSparkle_def sparkle_loop_sigs)

lemma playSparkle_wf: "tq_wf q \<Longrightarrow> tq_wf (playSparkle emb q)"
  by (simp add: playSparkle_def sparkle_loop_wf)

lemma playBackground_ok:
  assumes "playBackground env emb sc q = Inr (sc', q')"
  shows "sound_ok sc' = sound_ok sc" and "tq_wf q \<Longrightarrow> tq_wf q'"
    and "(\<And>c. \<not> P (emb c)) \<Longrightarrow> kind_sigs P q' = kind_sigs P q"
  using assms by (auto simp: playBackground_def sound_ok_def setInterval_def schedule_wf
      split: sum.splits)

lemma run_sound_cb_ok:
  assumes "run_sound_cb env emb now r c (sc, q) = Inr (sc', q')" "sound_ok sc"
    and "\<forall>f. c = SparkleNote f \<longrightarrow> 0 < f"
  shows "sound_ok sc'" and "tq_wf q \<Longrightarrow> tq_wf q'"
    and "(\<And>c. \<not> P (emb c)) \<Longrightarrow> kind_sigs P q' = kind_sigs P q"
proof -
  have pos: "\<And>n. n \<in> set pianoNotes \<Longrightarrow> 0 < n" by (auto simp: pianoNotes_def)
  with piano_note_mem have pn: "piano_note r = Some n \<Longrightarrow> 0 < n" for n by blast
  show "sound_ok sc'"
    using assms by (cases c) (auto split: sum.splits option.splits elim!: playTone_ok dest: pn)
  show "tq_wf q \<Longrightarrow> tq_wf q'"
    using assms(1) by (cases c) (auto simp: setTimeout_def schedule_wf split: sum.splits option.splits)
  show "(\<And>c. \<not> P (emb c)) \<Longrightarrow> kind_sigs P q' = kind_sigs P q"
    using assms(1) by (cases c) (auto simp: setTimeout_def split: sum.splits option.splits)
qed

text \<open>The callbacks an operation adds to the queue.\<close>

lemma sparkle_loop_kinds:
  "u \<in> set (tq_timers (sparkle_loop emb i ts q)) \<Longrightarrow>
   u \<in> set (tq_timers q) \<or> (\<exists>f \<in> set ts. tm_kind u = emb (SparkleNote f))"
proof (induction emb i ts q arbitrary: u rule: sparkle_loop.induct)
  case (1 emb i q)
  then show ?case by simp
next
  case (2 emb i t ts q)
  then have "u \<in> set (tq_timers (snd (setTimeout (emb (SparkleNote t)) (i * 100) q))) \<or>
             (\<exists>f \<in> set ts. tm_kind u = emb (SparkleNote f))" by simp
  then show ?case by (auto simp: setTimeout_def set_schedule)
qed

lemma playSparkle_kinds:
  "u \<in> set (tq_timers (playSparkle emb q)) \<Longrightarrow>
   u \<in> set (tq_timers q) \<or> (\<exists>f \<in> set sparkle_tones. tm_kind u = emb (SparkleNote f))"
  by (simp add: playSparkle_def sparkle_loop_kinds)

lemma playBackground_kinds:
  "playBackground env emb sc q = Inr (sc', q') \<Longrightarrow> u \<in> set (tq_timers q') \<Longrightarrow>
   u \<in> set (tq_timers q) \<or> tm_kind u = emb PianoTick \<or> tm_kind u = emb HeartbeatTick"
  by (auto simp: playBackground_def setInterval_def set_schedule split: sum.splits)

lemma run_sound_cb_kinds:
  "run_sound_cb env emb now r c (sc, q) = Inr (sc', q') \<Longrightarrow> u \<in> set (tq_timers q') \<Longrightarrow>
   u \<in> set (tq_timers q) \<or> tm_kind u = emb HeartbeatEcho"
  by (cases c) (auto simp: setTimeout_def set_schedule split: sum.splits option.splits)

lemma run_sound_cb_queue:
  "run_sound_cb env emb now r c (sc, q) = Inr (sc', q') \<Longrightarrow>
   tq_timers q' = tq_timers q \<or>
   (c = HeartbeatTick \<and>
    tq_timers q' = tq_timers q @ [\<lparr>tm_id = tq_next q, tm_due = tq_now q + 150,
                                  tm_kind = emb HeartbeatEcho, tm_period = None\<rparr>])"
  by (cases c) (auto simp: setTimeout_def schedule_def split: sum.splits option.splits)

subsection \<open>Claims\<close>

text \<open>C13: \<open>init\<close> throws exactly when no context exists yet and the browser has
  no \<open>AudioContext\<close> constructor; the exception is a \<open>TypeError\<close>, and once a
  context exists no call of \<open>init\<close> can fail.\<close>

theorem init_throws_iff:
  "(\<exists>e. init env sc = Inl e) \<longleftrightarrow> audioContext sc = None \<and> \<not> ctor_available env"
  by (metis init_Inl js_error.exhaust)

text \<open>C14: For every value \<open>Math.random()\<close> can return (\<open>0 \<le> r < 1\<close>) the
  piano tick's index \<open>Math.floor(r * 4)\<close> is in range, so the note read is one
  of the four piano notes and never \<open>undefined\<close>.\<close>

theorem piano_tick_note_defined:
  assumes "0 \<le> r" "r < 1"
  shows "\<exists>n. piano_note r = Some n \<and> n \<in> set pianoNotes"
proof -
  have "0 \<le> \<lfloor>r * 4\<rfloor>" using assms by simp
  moreover have "\<lfloor>r * 4\<rfloor> < 4" using assms by (simp add: floor_less_iff)
  ultimately have "nat \<lfloor>r * 4\<rfloor> < 4" by (simp add: nat_less_iff)
  moreover have "length pianoNotes = 4" by (simp add: pianoNotes_def)
  ultimately show ?thesis
    using assms by (auto simp: piano_note_def js_index_def intro!: nth_mem)
qed

theorem piano_tick_note_defined_witness:
  "0 \<le> (0.9::real) \<and> (0.9::real) < 1 \<and> piano_note 0.9 = Some 493.88"
proof -
  have h: "0 \<le> (0.9::real)" "(0.9::real) < 1" by simp_all
  from piano_tick_note_defined [OF h] show ?thesis
    by (simp add: piano_note_def js_index_def pianoNotes_def)
qed

text \<open>C24: Where the browser has \<open>AudioContext\<close>, \<open>playPop\<close> starts exactly
  two tones, in this order: 400 Hz for 0.2 s at volume 0.1, then 600 Hz for
  0.1 s at volume 0.05, and leaves the context running.\<close>

theorem playPop_two_tones:
  assumes "ctor_available env"
  shows "\<exists>sc'. playPop env now sc = Inr sc' \<and>
           tones sc' = tones sc @ [mk_tone now 400 Sine 0.2 0.1, mk_tone now 600 Sine 0.1 0.05] \<and>
           audioContext sc' = Some Running"
proof -
  obtain sc1 where s1: "playTone env now 400 Sine 0.2 0.1 sc = Inr sc1"
    using playTone_audio [OF assms] by blast
  obtain sc2 where s2: "playTone env now 600 Sine 0.1 0.05 sc1 = Inr sc2"
    using playTone_audio [OF assms] by blast
  from playTone_appends [OF s1] playTone_appends [OF s2] s1 s2 show ?thesis
    by (simp add: playPop_def)
qed

theorem playPop_two_tones_witness:
  "\<exists>sc'. playPop \<lparr>ctor_available = True, fresh_state = Suspended\<rparr> 0 sound_init_state = Inr sc' \<and>
     length (tones sc') = 2"
proof -
  have "ctor_available \<lparr>ctor_available = True, fresh_state = Suspended\<rparr>" by simp
  from playPop_two_tones [OF this, of 0 sound_init_state] show ?thesis
    by (auto simp: sound_init_state_def)
qed

text \<open>C25: \<open>playSparkle\<close> schedules, after the timers already pending, four
  one-shot timers with the next four ids, due 0, 100, 200 and 300 ms from now,
  that play 1200, 1500, 1800 and 2200 Hz in turn.\<close>

theorem playSparkle_schedule:
  "map (\<lambda>t. (tm_id t, tm_due t, tm_kind t, tm_period t))
     (drop (length (tq_timers q)) (tq_timers (playSparkle emb q))) =
   [(tq_next q, tq_now q, emb (SparkleNote 1200), None),
    (tq_next q + 1, tq_now q + 100, emb (SparkleNote 1500), None),
    (tq_next q + 2, tq_now q + 200, emb (SparkleNote 1800), None),
    (tq_next q + 3, tq_now q + 300, emb (SparkleNote 2200), None)] \<and>
   take (length (tq_timers q)) (tq_timers (playSparkle emb q)) = tq_timers q \<and>
   tq_next (playSparkle emb q) = tq_next q + 4"
  by (simp add: playSparkle_def sparkle_tones_def setTimeout_def schedule_def)

text \<open>C26: Where the browser has \<open>AudioContext\<close>, \<open>playBackground\<close> adds
  exactly two intervals to the pending timers: the piano tick every 2000 ms
  and the heartbeat every 3000 ms.  Their handles are dropped, so no code can
  ever clear them.\<close>

theorem playBackground_intervals:
  assumes "ctor_available env"
  shows "\<exists>sc'. playBackground env emb sc q =
           Inr (sc', q\<lparr>tq_timers := tq_timers q @
                   [\<lparr>tm_id = tq_next q, tm_due = tq_now q + 2000, tm_kind = emb PianoTick,
                     tm_period = Some 2000\<rparr>,
                    \<lparr>tm_id = Suc (tq_next q), tm_due = tq_now q + 3000, tm_kind = emb HeartbeatTick,
                     tm_period = Some 3000\<rparr>],
                 tq_next := tq_next q + 2\<rparr>)"
proof -
  obtain sc' where "init env sc = Inr sc'" using init_Inr_ex [of env sc] assms by blast
  then show ?thesis by (simp add: playBackground_def setInterval_def schedule_def)
qed

theorem playBackground_intervals_witness:
  "\<exists>sc' q'. playBackground \<lparr>ctor_available = True, fresh_state = Suspended\<rparr> id sound_init_state
      (tq_empty :: sound_cb tqueue) = Inr (sc', q') \<and> length (tq_timers q') = 2"
proof -
  have "ctor_available \<lparr>ctor_available = True, fresh_state = Suspended\<rparr>" by simp
  from playBackground_intervals [OF this, of id sound_init_state "tq_empty :: sound_cb tqueue"]
  show ?thesis by (auto simp: tq_empty_def)
qed

text \<open>C32: Where the browser has \<open>AudioContext\<close>, a heartbeat tick plays a
  60 Hz beat for 0.1 s at volume 0.03 and schedules exactly one one-shot timer,
  with the next id and due 150 ms later, for the echo; the echo, whenever it
  fires, plays a 50 Hz beat for 0.1 s at volume 0.02 and schedules nothing.\<close>

theorem heartbeat_tick_echo:
  assumes "ctor_available env"
  shows "\<exists>sc'. run_sound_cb env emb now r HeartbeatTick (sc, q) =
           Inr (sc', q\<lparr>tq_timers := tq_timers q @ [\<lparr>tm_id = tq_next q, tm_due = tq_now q + 150,
                                                  tm_kind = emb HeartbeatEcho, tm_period = None\<rparr>],
                       tq_next := Suc (tq_next q)\<rparr>) \<and>
           tones sc' = tones sc @ [mk_tone now 60 Sine 0.1 0.03] \<and>
           (\<exists>sc''. run_sound_cb env emb now' r' HeartbeatEcho (sc', q') = Inr (sc'', q') \<and>
                   tones sc'' = tones sc' @ [mk_tone now' 50 Sine 0.1 0.02])"
proof -
  obtain sc1 where s1: "playTone env now 60 Sine 0.1 0.03 sc = Inr sc1"
    using playTone_audio [OF assms] by blast
  obtain sc2 where s2: "playTone env now' 50 Sine 0.1 0.02 sc1 = Inr sc2"
    using playTone_audio [OF assms] by blast
  from playTone_appends [OF s1] playTone_appends [OF s2] s1 s2 show ?thesis
    by (simp add: setTimeout_def schedule_def)
qed

theorem heartbeat_tick_echo_witness:
  "\<exists>sc'. run_sound_cb \<lparr>ctor_available = True, fresh_state = Running\<rparr> id 3 0 HeartbeatTick
            (sound_init_state, tq_empty) =
          Inr (sc', tq_empty\<lparr>tq_timers := tq_timers tq_empty @ [\<lparr>tm_id = tq_next (tq_empty :: sound_cb tqueue),
              tm_due = tq_now (tq_empty :: sound_cb tqueue) + 150, tm_kind = id HeartbeatEcho, tm_period = None\<rparr>],
              tq_next := Suc (tq_next (tq_empty :: sound_cb tqueue))\<rparr>) \<and>
          tones sc' = tones sound_init_state @ [mk_tone 3 60 Sine 0.1 0.03] \<and>
          (\<exists>sc''. run_sound_cb \<lparr>ctor_available = True, fresh_state = Running\<rparr> id 3.15 0 HeartbeatEcho
                    (sc', tq_empty) = Inr (sc'', tq_empty) \<and>
                  tones sc'' = tones sc' @ [mk_tone 3.15 50 Sine 0.1 0.02])"
proof -
  have "ctor_available \<lparr>ctor_available = True, fresh_state = Running\<rparr>" by simp
  then show ?thesis by (rule heartbeat_tick_echo)
qed

end
