(* ===== verification/Overlay.thy ===== *)
theory Overlay
  imports Types Sound
begin

text \<open>
  The HTML overlay of \<open>src/components/UIOverlay.tsx\<close>.  Its own state is the
  index \<open>msgIndex\<close> of the love note shown during \<open>WORLD\<close>, advanced by an
  interval that the \<open>useEffect\<close> on \<open>[stage, messages.length]\<close> arms in
  \<open>WORLD\<close> and clears on the next stage change.  Its view is three layers
  whose visibility depends on the stage, and whether a layer takes clicks is
  decided by the CSS property \<open>pointer-events\<close>, which is inherited: the root
  sets \<open>none\<close>, the "Yes" button's container sets \<open>auto\<close>, and the two other
  layers set it only in some stages.  The click handler \<open>handleYesClick\<close> is
  composed with the App state and the sound controller in \<open>Experience\<close>.
  The \<open>fade-up\<close> animation of a note is kept as its keyframes.
\<close>

definition messages :: "string list" where
  "messages =
     [''You are my safest place'',
      ''Every future I want has you in it'',
      ''I'' @ [CHR 0xE2, CHR 0x80, CHR 0x99] @ ''d choose you in every universe'',
      ''You make my world infinitely brighter'']"

text \<open>\<open>setMsgIndex((prev) => (prev + 1) % messages.length)\<close>.\<close>

definition msg_cycle :: "nat \<Rightarrow> nat" where
  "msg_cycle prev = (prev + 1) mod length messages"

text \<open>The interval the effect arms for a stage: 3500 ms in \<open>WORLD\<close>.\<close>

definition overlay_interval :: "ExperienceStage \<Rightarrow> ms option" where
  "overlay_interval s = (if s = WORLD then Some 3500 else None)"

text \<open>\<open>messages[msgIndex]\<close>, \<open>undefined\<close> (here \<open>None\<close>) out of range.\<close>

definition shown_message :: "nat \<Rightarrow> string option" where
  "shown_message i = js_index messages (int i)"

subsection \<open>The view\<close>

text \<open>\<open>if (stage === START) return null\<close>: nothing of the overlay is in the
  document at \<open>START\<close>.\<close>

definition overlay_rendered :: "ExperienceStage \<Rightarrow> bool" where
  "overlay_rendered s = (s \<noteq> START)"

definition notes_visible :: "ExperienceStage \<Rightarrow> bool" where
  "notes_visible s = (s = WORLD)"

definition final_visible :: "ExperienceStage \<Rightarrow> bool" where
  "final_visible s = (s = FINAL)"

definition celebration_visible :: "ExperienceStage \<Rightarrow> bool" where
  "celebration_visible s = (s = CELEBRATION)"

datatype pointer_events = PE_auto | PE_none

text \<open>CSS inheritance: an element's own \<open>pointer-events\<close> class, if any, wins;
  otherwise it takes its parent's value.\<close>

definition pe_inherit :: "pointer_events option \<Rightarrow> pointer_events \<Rightarrow> pointer_events" where
  "pe_inherit own parent = (case own of Some v \<Rightarrow> v | None \<Rightarrow> parent)"

text \<open>The classes of the root, the final-reveal layer, the button container and
  the celebration layer (\<open>opacity-0\<close> and the transforms do not set
  \<open>pointer-events\<close>).\<close>

definition root_pe :: pointer_events where
  "root_pe = PE_none"

definition final_layer_pe :: "ExperienceStage \<Rightarrow> pointer_events" where
  "final_layer_pe s = pe_inherit None root_pe"

definition yes_button_pe :: "ExperienceStage \<Rightarrow> pointer_events" where
  "yes_button_pe s = pe_inherit (Some PE_auto) (final_layer_pe s)"

definition celebration_layer_pe :: "ExperienceStage \<Rightarrow> pointer_events" where
  "celebration_layer_pe s =
     pe_inherit (if s = CELEBRATION then None else Some PE_none) root_pe"

text \<open>The button takes a click when the overlay is in the document, the button
  itself has \<open>pointer-events: auto\<close>, and the celebration layer stacked above it
  does not take the click in its place.\<close>

definition yes_clickable :: "ExperienceStage \<Rightarrow> bool" where
  "yes_clickable s =
     (overlay_rendered s \<and> yes_button_pe s = PE_auto \<and> celebration_layer_pe s = PE_none)"

subsection \<open>The fade-up animation of a note\<close>

text \<open>The inline style sheet (lines 75--85): \<open>@keyframes fade-up\<close> moves a
  note from 10px below to 10px above its place and fades it in by 20% and out
  from 80%; \<open>.animate-fade-up\<close> runs it for 3.5 s, forever, with
  \<open>ease-in-out\<close> between keyframes.  The note's \<open>div\<close> has
  \<open>key={msgIndex}\<close>, so React mounts a new one, whose animation starts from
  0%, at every change of the index.\<close>

record keyframe =
  kf_at :: nat
  kf_translate_y :: real
  kf_opacity :: real

record css_animation =
  an_keyframes :: "keyframe list"
  an_duration :: ms
  an_infinite :: bool

definition fade_up :: css_animation where
  "fade_up =
     \<lparr>an_keyframes =
        [\<lparr>kf_at = 0, kf_translate_y = 10, kf_opacity = 0\<rparr>,
         \<lparr>kf_at = 20, kf_translate_y = 0, kf_opacity = 1\<rparr>,
         \<lparr>kf_at = 80, kf_translate_y = 0, kf_opacity = 1\<rparr>,
         \<lparr>kf_at = 100, kf_translate_y = -10, kf_opacity = 0\<rparr>],
      an_duration = 3500, an_infinite = True\<rparr>"

text \<open>The time into the cycle at which a keyframe is reached.\<close>

definition kf_time :: "css_animation \<Rightarrow> keyframe \<Rightarrow> ms" where
  "kf_time a k = an_duration a * kf_at k div 100"

subsection \<open>Properties\<close>

lemma length_messages [simp]: "length messages = 4"
  by (simp add: messages_def)

lemma msg_cycle_bound: "msg_cycle i < 4"
  by (simp add: msg_cycle_def)

lemma shown_message_Some: "i < 4 \<Longrightarrow> shown_message i = Some (messages ! i)"
  by (simp add: shown_message_def js_index_def)

lemma yes_clickable_iff: "yes_clickable s \<longleftrightarrow> s \<noteq> START"
  by (simp add: yes_clickable_def overlay_rendered_def yes_button_pe_def
      celebration_layer_pe_def pe_inherit_def root_pe_def final_layer_pe_def)

text \<open>A note's animation fits its slot: the cycle lasts exactly the 3500 ms
  of the message interval, starts and ends transparent, and holds the note
  fully visible from 700 ms to 2800 ms.  So every note after the first one,
  mounted when the interval fires, fades in and out exactly once before the
  next one replaces it.\<close>

lemma fade_up_fits_interval:
  "overlay_interval WORLD = Some (an_duration fade_up) \<and>
   kf_at (hd (an_keyframes fade_up)) = 0 \<and> kf_opacity (hd (an_keyframes fade_up)) = 0 \<and>
   kf_at (last (an_keyframes fade_up)) = 100 \<and> kf_opacity (last (an_keyframes fade_up)) = 0 \<and>
   sorted (map kf_at (an_keyframes fade_up)) \<and>
   map (kf_time fade_up) (filter (\<lambda>k. kf_opacity k = 1) (an_keyframes fade_up)) = [700, 2800]"
  by (simp add: overlay_interval_def fade_up_def kf_time_def)

subsection \<open>The message cycle\<close>

text \<open>The message cycle has period four: four ticks of the interval bring
  \<open>msgIndex\<close> back to where it was (reduced modulo the number of messages),
  so every message is shown in turn.\<close>

theorem msg_cycle_period: "msg_cycle (msg_cycle (msg_cycle (msg_cycle i))) = i mod 4"
  unfolding msg_cycle_def length_messages by presburger

end
