(* ===== verification/GiftBox.thy ===== *)
theory GiftBox
  imports Prelude
begin

text \<open>
  The 3D gift box of \<open>src/components/GiftBox.tsx\<close>.  Its props are the
  optional \<open>onClick\<close> callback (present or absent) and \<open>isOpen\<close>; its state is
  \<open>hovered\<close> and the transform of the lid group that the per-frame callback
  animates.  The two handlers do not change other components themselves: they
  produce the calls they make, in order (\<open>gb_call\<close>), which \<open>Experience\<close>
  interprets against the sound controller and the App state, so that a call
  that throws stops the calls after it as it does in JavaScript.
\<close>

record giftbox_props =
  has_onClick :: bool
  isOpen :: bool

record lid_transform =
  lid_y :: real
  lid_rot_x :: real
  lid_scale :: real

record giftbox_state =
  hovered :: bool
  lid :: lid_transform

datatype gb_call = CallPlayPop | CallPlaySparkle | CallPlayBoop | CallOnClick | CallSetHovered bool

text \<open>The lid group's initial transform: \<open>position={[0, 1.05, 0]}\<close>, no
  rotation, unit scale.\<close>

definition lid_init :: lid_transform where
  "lid_init = \<lparr>lid_y = 1.05, lid_rot_x = 0, lid_scale = 1\<rparr>"

definition giftbox_init :: giftbox_state where
  "giftbox_init = \<lparr>hovered = False, lid = lid_init\<rparr>"

text \<open>\<open>handleClick\<close>: \<open>if (onClick && !isOpen) { playPop(); playSparkle();
  onClick(); }\<close>.\<close>

definition handleClick :: "giftbox_props \<Rightarrow> gb_call list" where
  "handleClick p =
     (if has_onClick p \<and> \<not> isOpen p then [CallPlayPop, CallPlaySparkle, CallOnClick] else [])"

text \<open>\<open>handlePointerOver\<close>: \<open>if (!isOpen) { setHovered(true); playBoop(); }\<close>.\<close>

definition handlePointerOver :: "giftbox_props \<Rightarrow> gb_call list" where
  "handlePointerOver p = (if \<not> isOpen p then [CallSetHovered True, CallPlayBoop] else [])"

text \<open>\<open>onPointerOut={() => setHovered(false)}\<close>.\<close>

definition handlePointerOut :: "gb_call list" where
  "handlePointerOut = [CallSetHovered False]"

definition box_scale :: "giftbox_state \<Rightarrow> real" where
  "box_scale st = (if hovered st then 1.1 else 1)"

definition label_shown :: "giftbox_props \<Rightarrow> bool" where
  "label_shown p = (\<not> isOpen p)"

text \<open>The \<open>useFrame\<close> callback, for a frame of \<open>delta\<close> seconds: when open, the
  lid's height, tilt and scale each move \<open>delta * 3\<close> of the way towards 4,
  \<open>-\<pi>/2\<close> and 0.\<close>

definition lid_frame :: "bool \<Rightarrow> real \<Rightarrow> lid_transform \<Rightarrow> lid_transform" where
  "lid_frame opened delta l =
     (if opened then
        \<lparr>lid_y = lerp (lid_y l) 4 (delta * 3),
         lid_rot_x = lerp (lid_rot_x l) (- pi / 2) (delta * 3),
         lid_scale = lerp (lid_scale l) 0 (delta * 3)\<rparr>
      else l)"

text \<open>A sequence of frames, with the delta of each.\<close>

fun lid_frames :: "bool \<Rightarrow> real list \<Rightarrow> lid_transform \<Rightarrow> lid_transform" where
  "lid_frames opened [] l = l"
| "lid_frames opened (d # ds) l = lid_frames opened ds (lid_frame opened d l)"

subsection \<open>Properties\<close>

definition frame_ok :: "real \<Rightarrow> bool" where
  "frame_ok d \<longleftrightarrow> 0 \<le> d \<and> d * 3 \<le> 1"

text \<open>The lid between its closed pose and its target: height in
  \<open>[1.05, 4]\<close>, tilt in \<open>[-\<pi>/2, 0]\<close>, scale in \<open>[0, 1]\<close>.\<close>

definition lid_ok :: "lid_transform \<Rightarrow> bool" where
  "lid_ok l \<longleftrightarrow>
     1.05 \<le> lid_y l \<and> lid_y l \<le> 4 \<and> - pi / 2 \<le> lid_rot_x l \<and> lid_rot_x l \<le> 0 \<and>
     0 \<le> lid_scale l \<and> lid_scale l \<le> 1"

lemma lid_frame_closed [simp]: "lid_frame False d l = l"
  by (simp add: lid_frame_def)

lemma lid_frame_y_dist:
  "\<bar>lid_y (lid_frame True d l) - 4\<bar> = \<bar>1 - d * 3\<bar> * \<bar>lid_y l - 4\<bar>"
  by (simp add: lid_frame_def)

lemma lid_frames_y_dist:
  "\<bar>lid_y (lid_frames True ds l) - 4\<bar> = (\<Prod>d \<leftarrow> ds. \<bar>1 - d * 3\<bar>) * \<bar>lid_y l - 4\<bar>"
proof (induction ds arbitrary: l)
  case Nil
  then show ?case by simp
next
  case (Cons d ds)
  have "\<bar>lid_y (lid_frames True (d # ds) l) - 4\<bar> =
        (\<Prod>d \<leftarrow> ds. \<bar>1 - d * 3\<bar>) * \<bar>lid_y (lid_frame True d l) - 4\<bar>"
    using Cons.IH [of "lid_frame True d l"] by simp
  also have "\<dots> = (\<Prod>d \<leftarrow> ds. \<bar>1 - d * 3\<bar>) * (\<bar>1 - d * 3\<bar> * \<bar>lid_y l - 4\<bar>)"
    by (simp only: lid_frame_y_dist)
  finally show ?case by simp
qed

lemma lid_frame_ok [inv_preserved]:
  assumes "frame_ok d" "lid_ok l"
  shows "lid_ok (lid_frame opened d l)"
proof (cases opened)
  case True
  have t: "0 \<le> d * 3" "d * 3 \<le> 1" using assms(1) by (simp_all add: frame_ok_def)
  have pi: "- pi / 2 \<le> 0" by simp
  note iv = lerp_in_interval [OF t]
  have "1.05 \<le> lerp (lid_y l) 4 (d * 3) \<and> lerp (lid_y l) 4 (d * 3) \<le> 4"
    using assms(2) by (intro iv) (simp_all add: lid_ok_def)
  moreover have "- pi / 2 \<le> lerp (lid_rot_x l) (- pi / 2) (d * 3) \<and> lerp (lid_rot_x l) (- pi / 2) (d * 3) \<le> 0"
    using assms(2) pi by (intro iv) (simp_all add: lid_ok_def)
  moreover have "0 \<le> lerp (lid_scale l) 0 (d * 3) \<and> lerp (lid_scale l) 0 (d * 3) \<le> 1"
    using assms(2) by (intro iv) (simp_all add: lid_ok_def)
  ultimately show ?thesis using True by (simp add: lid_frame_def lid_ok_def)
qed (use assms in simp)

subsection \<open>Claims\<close>

text \<open>C21: While every frame is short enough (\<open>delta * 3 \<le> 1\<close>), the lid
  of a gift box, whether open or closed, stays between its closed pose and its
  target: height in \<open>[1.05, 4]\<close>, tilt in \<open>[-\<pi>/2, 0]\<close> and scale in
  \<open>[0, 1]\<close>.\<close>

theorem lid_stays_in_range:
  "\<forall>d \<in> set ds. frame_ok d \<Longrightarrow> lid_ok (lid_frames opened ds lid_init)"
proof -
  have "lid_ok (lid_frames opened ds l)" if "\<forall>d \<in> set ds. frame_ok d" "lid_ok l" for l
    using that by (induction ds arbitrary: l) (simp_all add: inv_preserved)
  moreover have "lid_ok lid_init" by (simp add: lid_ok_def lid_init_def)
  ultimately show "\<forall>d \<in> set ds. frame_ok d \<Longrightarrow> lid_ok (lid_frames opened ds lid_init)" by blast
qed

theorem lid_stays_in_range_witness:
  "lid_y (lid_frames True [0.1, 0.2, 0.3] lid_init) \<le> 4"
proof -
  have "\<forall>d \<in> set [0.1, 0.2, 0.3::real]. frame_ok d" by (simp add: frame_ok_def)
  from lid_stays_in_range [OF this, of True] show ?thesis by (simp only: lid_ok_def)
qed

text \<open>C22: The bound of C21 is exact, and the lerp factor \<open>delta * 3\<close> is
  not clamped: one opening frame from the closed lid keeps the lid in range
  exactly when \<open>0 \<le> delta\<close> and \<open>delta * 3 \<le> 1\<close>; a longer frame throws the
  lid above its target height 4 and turns its scale negative.\<close>

theorem lid_range_iff_short_frame:
  "(lid_ok (lid_frame True delta lid_init) \<longleftrightarrow> 0 \<le> delta \<and> delta * 3 \<le> 1) \<and>
   (4 < lid_y (lid_frame True delta lid_init) \<longleftrightarrow> 1 < delta * 3) \<and>
   (lid_scale (lid_frame True delta lid_init) < 0 \<longleftrightarrow> 1 < delta * 3)"
  by (auto simp: lid_ok_def lid_frame_def lid_init_def lerp_def)

end
