(* ===== verification/MiniatureWorld.thy ===== *)
theory MiniatureWorld
  imports Types
begin

text \<open>
  The miniature world of \<open>src/components/MiniatureWorld.tsx\<close>: the stage
  derived parameters of the hug (\<open>isHugging\<close>, the target scale, the target
  distance of the two figures, the bobbing frequency and amplitude) and the
  \<open>useFrame\<close> callback that moves the world's scale, the two figures, their
  four arms and the heart towards those targets.  The refs are the component's
  state: a record of the transforms the callback writes, starting from the
  values the JSX gives them.  A frame is a stage, the clock's elapsed time
  \<open>t\<close> and the frame's \<open>delta\<close>.  The meshes, materials and the heart's
  shape are presentation and are not modelled.
\<close>

record char_pose =
  pos_x :: real
  pos_y :: real
  rot_z :: real

record arm_rot =
  arm_rx :: real
  arm_rz :: real

record heart_pose =
  heart_scale :: real
  heart_rot_y :: real
  heart_y :: real

record mw_state =
  world_scale :: real
  char1 :: char_pose
  char2 :: char_pose
  arm1L :: arm_rot
  arm1R :: arm_rot
  arm2L :: arm_rot
  arm2R :: arm_rot
  heart :: heart_pose

text \<open>The transforms the JSX gives the refs: the world at scale 0, the blue
  figure at \<open>x = -2\<close>, the pink one at \<open>x = 2\<close>, the heart mesh at scale
  0.08.\<close>

definition mw_init :: mw_state where
  "mw_init =
     \<lparr>world_scale = 0,
      char1 = \<lparr>pos_x = -2, pos_y = 0, rot_z = 0\<rparr>,
      char2 = \<lparr>pos_x = 2, pos_y = 0, rot_z = 0\<rparr>,
      arm1L = \<lparr>arm_rx = 0, arm_rz = 0\<rparr>, arm1R = \<lparr>arm_rx = 0, arm_rz = 0\<rparr>,
      arm2L = \<lparr>arm_rx = 0, arm_rz = 0\<rparr>, arm2R = \<lparr>arm_rx = 0, arm_rz = 0\<rparr>,
      heart = \<lparr>heart_scale = 0.08, heart_rot_y = 0, heart_y = 0\<rparr>\<rparr>"

subsection \<open>Stage-derived parameters\<close>

definition isHugging :: "ExperienceStage \<Rightarrow> bool" where
  "isHugging s \<longleftrightarrow> s = FINAL \<or> s = CELEBRATION"

definition mw_scale :: "ExperienceStage \<Rightarrow> real" where
  "mw_scale s = (if isHugging s then 2.2 else 1)"

definition targetDist :: "ExperienceStage \<Rightarrow> real" where
  "targetDist s = (if isHugging s then 0.08 else 0.6)"

definition bobFreq :: "ExperienceStage \<Rightarrow> real" where
  "bobFreq s = (if isHugging s then (if s = CELEBRATION then 3 else 1.5) else 5)"

definition bobAmp :: "ExperienceStage \<Rightarrow> real" where
  "bobAmp s = (if isHugging s then 0.015 else 0.08)"

text \<open>The heart is rendered in \<open>WORLD\<close>, \<open>FINAL\<close> and \<open>CELEBRATION\<close>.\<close>

definition heart_rendered :: "ExperienceStage \<Rightarrow> bool" where
  "heart_rendered s \<longleftrightarrow> s = FINAL \<or> s = WORLD \<or> s = CELEBRATION"

subsection \<open>The frame callback\<close>

text \<open>One figure: its \<open>x\<close> moves \<open>delta * 1.5\<close> of the way to its target, its
  \<open>y\<close> is the bob \<open>|sin(t * bobFreq + phase)| * bobAmp\<close>, and while hugging it
  leans towards \<open>lean\<close>.\<close>

definition char_frame ::
  "ExperienceStage \<Rightarrow> real \<Rightarrow> real \<Rightarrow> real \<Rightarrow> real \<Rightarrow> real \<Rightarrow> char_pose \<Rightarrow> char_pose" where
  "char_frame s t delta target phase lean c =
     (let c' = c\<lparr>pos_x := lerp (pos_x c) target (delta * 1.5),
                 pos_y := \<bar>sin (t * bobFreq s + phase)\<bar> * bobAmp s\<rparr>
      in if isHugging s then c'\<lparr>rot_z := lerp (rot_z c') lean (delta * 2)\<rparr> else c')"

text \<open>One arm: while hugging, both rotations move \<open>delta * 3\<close> of the way to
  the wrapping pose; otherwise the \<open>z\<close> rotation swings as
  \<open>base + sign * sin(t * 5 + phase) * 0.1\<close>.\<close>

definition arm_frame ::
  "bool \<Rightarrow> real \<Rightarrow> real \<Rightarrow> real \<Rightarrow> real \<Rightarrow> real \<Rightarrow> real \<Rightarrow> real \<Rightarrow> arm_rot \<Rightarrow> arm_rot" where
  "arm_frame hug t delta hx hz base sign phase a =
     (if hug then \<lparr>arm_rx = lerp (arm_rx a) hx (delta * 3), arm_rz = lerp (arm_rz a) hz (delta * 3)\<rparr>
      else a\<lparr>arm_rz := base + sign * (sin (t * 5 + phase) * 0.1)\<rparr>)"

definition heart_frame :: "bool \<Rightarrow> real \<Rightarrow> real \<Rightarrow> heart_pose \<Rightarrow> heart_pose" where
  "heart_frame hug t delta h =
     (if hug then
        \<lparr>heart_scale = 0.12 + sin (t * 8) * 0.04,
         heart_rot_y = heart_rot_y h + delta * 1.5,
         heart_y = lerp (heart_y h) 2.8 (delta * 2)\<rparr>
      else h)"

definition mw_frame :: "ExperienceStage \<Rightarrow> real \<Rightarrow> real \<Rightarrow> mw_state \<Rightarrow> mw_state" where
  "mw_frame s t delta w =
     (let hug = isHugging s; d = targetDist s
      in \<lparr>world_scale = lerp (world_scale w) (mw_scale s) (delta * 1.2),
          char1 = char_frame s t delta (- d) 0 0.2 (char1 w),
          char2 = char_frame s t delta d 0.5 (- 0.2) (char2 w),
          arm1L = arm_frame hug t delta 0.8 0.6 0.2 1 0 (arm1L w),
          arm1R = arm_frame hug t delta 1.2 (- 1.5) (- 0.2) (- 1) 0 (arm1R w),
          arm2L = arm_frame hug t delta 1.2 1.5 0.2 1 0.5 (arm2L w),
          arm2R = arm_frame hug t delta 0.8 (- 0.6) (- 0.2) (- 1) 0.5 (arm2R w),
          heart = heart_frame hug t delta (heart w)\<rparr>)"

text \<open>Successive frames, each with its stage, clock time and delta.\<close>

fun mw_frames :: "(ExperienceStage \<times> real \<times> real) list \<Rightarrow> mw_state \<Rightarrow> mw_state" where
  "mw_frames [] w = w"
| "mw_frames ((s, t, delta) # fs) w = mw_frames fs (mw_frame s t delta w)"

subsection \<open>Properties\<close>

text \<open>A frame short enough that no lerp factor of the figures and the world
  exceeds 1 (\<open>delta * 1.5 \<le> 1\<close>, about 60 ms or more at 15 frames per
  second and below).\<close>

definition mw_delta_ok :: "real \<Rightarrow> bool" where
  "mw_delta_ok delta \<longleftrightarrow> 0 \<le> delta \<and> delta * 1.5 \<le> 1"

text \<open>The figures stay on their own side, the blue one left of \<open>-0.08\<close> and
  the pink one right of \<open>0.08\<close>, both bob between 0 and 0.08, and the world's
  scale stays between 0 and 2.2.\<close>

definition mw_pose_ok :: "mw_state \<Rightarrow> bool" where
  "mw_pose_ok w \<longleftrightarrow>
     -2 \<le> pos_x (char1 w) \<and> pos_x (char1 w) \<le> -0.08 \<and>
     0.08 \<le> pos_x (char2 w) \<and> pos_x (char2 w) \<le> 2 \<and>
     0 \<le> pos_y (char1 w) \<and> pos_y (char1 w) \<le> 0.08 \<and>
     0 \<le> pos_y (char2 w) \<and> pos_y (char2 w) \<le> 0.08 \<and>
     0 \<le> world_scale w \<and> world_scale w \<le> 2.2"

lemma char_frame_pos [simp]:
  "pos_x (char_frame s t delta target ph lean c) = lerp (pos_x c) target (delta * 1.5)"
  "pos_y (char_frame s t delta target ph lean c) = \<bar>sin (t * bobFreq s + ph)\<bar> * bobAmp s"
  by (simp_all add: char_frame_def Let_def)

lemma mw_frame_parts [simp]:
  "world_scale (mw_frame s t delta w) = lerp (world_scale w) (mw_scale s) (delta * 1.2)"
  "char1 (mw_frame s t delta w) = char_frame s t delta (- targetDist s) 0 0.2 (char1 w)"
  "char2 (mw_frame s t delta w) = char_frame s t delta (targetDist s) 0.5 (- 0.2) (char2 w)"
  by (simp_all add: mw_frame_def Let_def)

lemma bob_bounds: "0 \<le> \<bar>sin a\<bar> * bobAmp s \<and> \<bar>sin a\<bar> * bobAmp s \<le> 0.08"
proof -
  have "0 \<le> bobAmp s" "bobAmp s \<le> 0.08" by (simp_all add: bobAmp_def)
  moreover have "\<bar>sin a\<bar> * bobAmp s \<le> 1 * bobAmp s"
    using \<open>0 \<le> bobAmp s\<close> abs_sin_le_one by (rule mult_right_mono [rotated])
  ultimately show ?thesis by simp
qed

lemma targets_in_range:
  "-2 \<le> - targetDist s \<and> - targetDist s \<le> -0.08" "0 \<le> mw_scale s \<and> mw_scale s \<le> 2.2"
  by (simp_all add: targetDist_def mw_scale_def)

lemma mw_frame_pose_ok [inv_preserved]:
  assumes "mw_delta_ok delta" "mw_pose_ok w"
  shows "mw_pose_ok (mw_frame s t delta w)"
proof -
  have f: "0 \<le> delta * 1.5" "delta * 1.5 \<le> 1" and g: "0 \<le> delta * 1.2" "delta * 1.2 \<le> 1"
    using assms(1) by (simp_all add: mw_delta_ok_def)
  note iv = lerp_in_interval [OF f] lerp_in_interval [OF g]
  have "-2 \<le> lerp (pos_x (char1 w)) (- targetDist s) (delta * 1.5) \<and>
        lerp (pos_x (char1 w)) (- targetDist s) (delta * 1.5) \<le> -0.08"
    using assms(2) targets_in_range(1) by (intro iv(1)) (simp_all add: mw_pose_ok_def)
  moreover have "0.08 \<le> lerp (pos_x (char2 w)) (targetDist s) (delta * 1.5) \<and>
        lerp (pos_x (char2 w)) (targetDist s) (delta * 1.5) \<le> 2"
    using assms(2) targets_in_range(1) [of s] by (intro iv(1)) (simp_all add: mw_pose_ok_def)
  moreover have "0 \<le> lerp (world_scale w) (mw_scale s) (delta * 1.2) \<and>
        lerp (world_scale w) (mw_scale s) (delta * 1.2) \<le> 2.2"
    using assms(2) targets_in_range(2) by (intro iv(2)) (simp_all add: mw_pose_ok_def)
  ultimately show ?thesis using bob_bounds by (simp add: mw_pose_ok_def)
qed

lemma mw_pose_ok_init: "mw_pose_ok mw_init"
  by (simp add: mw_pose_ok_def mw_init_def)

lemma mw_frames_char_x:
  "pos_x (char1 (mw_frames (map (\<lambda>(t, d). (s, t, d)) fs) w)) =
     lerp_iter (- targetDist s) (map (\<lambda>(t, d). d * 1.5) fs) (pos_x (char1 w)) \<and>
   pos_x (char2 (mw_frames (map (\<lambda>(t, d). (s, t, d)) fs) w)) =
     lerp_iter (targetDist s) (map (\<lambda>(t, d). d * 1.5) fs) (pos_x (char2 w))"
  by (induction fs arbitrary: w) auto

subsection \<open>Claims\<close>

text \<open>C15: While every frame is short enough (\<open>delta * 1.5 \<le> 1\<close>), the two
  figures never meet or cross, whatever the stages of the frames: the blue one
  stays in \<open>[-2, -0.08]\<close>, the pink one in \<open>[0.08, 2]\<close>; both bob between
  0 and 0.08, and the world's scale stays in \<open>[0, 2.2]\<close>.\<close>

theorem figures_stay_apart:
  "\<forall>f \<in> set fs. mw_delta_ok (snd (snd f)) \<Longrightarrow> mw_pose_ok (mw_frames fs mw_init)"
proof -
  have "mw_pose_ok (mw_frames fs w)" if "\<forall>f \<in> set fs. mw_delta_ok (snd (snd f))" "mw_pose_ok w"
    for w using that
  proof (induction fs arbitrary: w)
    case (Cons f fs)
    obtain s t d where f: "f = (s, t, d)" by (cases f) auto
    have "mw_pose_ok (mw_frame s t d w)" using Cons.prems f by (auto intro: inv_preserved)
    with Cons.IH Cons.prems f show ?case by simp
  qed simp
  then show "\<forall>f \<in> set fs. mw_delta_ok (snd (snd f)) \<Longrightarrow> mw_pose_ok (mw_frames fs mw_init)"
    using mw_pose_ok_init by blast
qed

theorem figures_stay_apart_witness:
  "pos_x (char1 (mw_frames [(WORLD, 0, 0.5), (FINAL, 0.5, 0.5)] mw_init)) \<le> -0.08"
proof -
  have "\<forall>f \<in> set [(WORLD, 0, 0.5), (FINAL, 0.5, 0.5)]. mw_delta_ok (snd (snd f))"
    by (simp add: mw_delta_ok_def)
  from figures_stay_apart [OF this] show ?thesis by (simp only: mw_pose_ok_def)
qed

text \<open>C16: In a fixed stage each frame moves each figure towards its target
  \<open>\<mp>targetDist\<close> by the factor \<open>|1 - 1.5 delta|\<close>: after frames
  \<open>fs\<close> the remaining distance is the product of these factors times the
  initial distance.  So with frame deltas in \<open>(0, 4/3)\<close> bounded away from
  the ends the figures converge to their targets.\<close>

theorem figures_converge:
  "\<bar>pos_x (char1 (mw_frames (map (\<lambda>(t, d). (s, t, d)) fs) w)) + targetDist s\<bar> =
     (\<Prod>x \<leftarrow> map (\<lambda>(t, d). d * 1.5) fs. \<bar>1 - x\<bar>) * \<bar>pos_x (char1 w) + targetDist s\<bar> \<and>
   \<bar>pos_x (char2 (mw_frames (map (\<lambda>(t, d). (s, t, d)) fs) w)) - targetDist s\<bar> =
     (\<Prod>x \<leftarrow> map (\<lambda>(t, d). d * 1.5) fs. \<bar>1 - x\<bar>) * \<bar>pos_x (char2 w) - targetDist s\<bar>"
  using mw_frames_char_x [of s fs w]
    lerp_iter_dist [of "- targetDist s" "map (\<lambda>(t, d). d * 1.5) fs" "pos_x (char1 w)"]
    lerp_iter_dist [of "targetDist s" "map (\<lambda>(t, d). d * 1.5) fs" "pos_x (char2 w)"]
  by (simp only: diff_minus_eq_add)


end
