(* ===== verification/Particles.thy ===== *)
theory Particles
  imports Types
begin

text \<open>
  The particle field of \<open>src/components/Particles.tsx\<close>: 500 points whose
  positions live in a \<open>Float32Array\<close> of \<open>count * 3\<close> numbers, written here
  as a list of \<open>Point\<close>s (point \<open>i\<close> is the triple at \<open>3i\<close>, \<open>3i + 1\<close>,
  \<open>3i + 2\<close>), the rotation of the \<open>points\<close> object and the material's size
  and opacity.  \<open>Math.random()\<close> is a parameter: the draws of point
  \<open>i\<close> at start-up and at a reset are given by functions of \<open>i\<close>.  Single
  precision rounding of the buffer is not modelled.
\<close>

record particles_state =
  positions :: "Point list"
  prot_x :: real
  prot_y :: real
  mat_size :: real
  mat_opacity :: real

definition particle_count :: nat where
  "particle_count = 500"

text \<open>\<open>initialPositions\<close>: each coordinate is \<open>(Math.random() - 0.5) * 20\<close>.\<close>

definition initialPositions :: "(nat \<Rightarrow> real \<times> real \<times> real) \<Rightarrow> Point list" where
  "initialPositions rnd =
     map (\<lambda>i. case rnd i of (a, b, c) \<Rightarrow>
                \<lparr>point_x = (a - 0.5) * 20, point_y = (b - 0.5) * 20, point_z = (c - 0.5) * 20\<rparr>)
       [0..<particle_count]"

text \<open>The JSX's initial props: size 0.2, opacity 0.6, no rotation.\<close>

definition particles_init :: "(nat \<Rightarrow> real \<times> real \<times> real) \<Rightarrow> particles_state" where
  "particles_init rnd =
     \<lparr>positions = initialPositions rnd, prot_x = 0, prot_y = 0, mat_size = 0.2, mat_opacity = 0.6\<rparr>"

text \<open>One point in the celebration's shower: it falls by 0.1, sways by
  \<open>sin(t + i) * 0.02\<close>, and once below \<open>-10\<close> is put back at height 15 with a
  fresh \<open>x\<close> and \<open>z\<close> of \<open>(Math.random() - 0.5) * 25\<close>.\<close>

definition particle_fall :: "real \<Rightarrow> (nat \<Rightarrow> real \<times> real) \<Rightarrow> nat \<Rightarrow> Point \<Rightarrow> Point" where
  "particle_fall t rnd i p =
     (let p' = p\<lparr>point_y := point_y p - 0.1, point_x := point_x p + sin (t + real i) * 0.02\<rparr>
      in if point_y p' < -10
         then p'\<lparr>point_y := 15, point_x := (fst (rnd i) - 0.5) * 25,
                 point_z := (snd (rnd i) - 0.5) * 25\<rparr>
         else p')"

text \<open>The \<open>for (let i = 0; i < count; i++)\<close> loop over the buffer.\<close>

definition shower :: "real \<Rightarrow> (nat \<Rightarrow> real \<times> real) \<Rightarrow> Point list \<Rightarrow> Point list" where
  "shower t rnd ps = map (\<lambda>(i, p). particle_fall t rnd i p) (zip [0..<length ps] ps)"

text \<open>The \<open>useFrame\<close> callback at clock time \<open>t\<close>.\<close>

definition particles_frame ::
  "ExperienceStage \<Rightarrow> real \<Rightarrow> (nat \<Rightarrow> real \<times> real) \<Rightarrow> particles_state \<Rightarrow> particles_state" where
  "particles_frame s t rnd st =
     (let st' =
        (if s = CELEBRATION
         then st\<lparr>positions := shower t rnd (positions st), prot_y := prot_y st + 0.01\<rparr>
         else st\<lparr>prot_y := t * 0.05, prot_x := sin (t * 0.1) * 0.1\<rparr>)
      in if s = FINAL \<or> s = CELEBRATION
         then st'\<lparr>mat_size := 0.4 + sin (t * 3) * 0.15, mat_opacity := 0.8\<rparr>
         else st')"

fun particles_frames ::
  "(ExperienceStage \<times> real \<times> (nat \<Rightarrow> real \<times> real)) list \<Rightarrow> particles_state \<Rightarrow> particles_state" where
  "particles_frames [] st = st"
| "particles_frames ((s, t, rnd) # fs) st = particles_frames fs (particles_frame s t rnd st)"

text \<open>One point followed through successive shower frames.\<close>

fun point_falls :: "(real \<times> (nat \<Rightarrow> real \<times> real)) list \<Rightarrow> nat \<Rightarrow> Point \<Rightarrow> Point" where
  "point_falls [] i p = p"
| "point_falls ((t, rnd) # fs) i p = point_falls fs i (particle_fall t rnd i p)"

definition in_band :: "Point \<Rightarrow> bool" where
  "in_band p \<longleftrightarrow> -10 \<le> point_y p \<and> point_y p \<le> 15"

subsection \<open>Properties\<close>

lemma particle_fall_y:
  "point_y (particle_fall t rnd i p) = (if point_y p - 0.1 < -10 then 15 else point_y p - 0.1)"
  by (simp add: particle_fall_def Let_def)

lemma particle_fall_band: "in_band p \<Longrightarrow> in_band (particle_fall t rnd i p)"
  by (simp add: in_band_def particle_fall_y)

lemma length_shower [simp]: "length (shower t rnd ps) = length ps"
  by (simp add: shower_def)

lemma shower_nth [simp]: "i < length ps \<Longrightarrow> shower t rnd ps ! i = particle_fall t rnd i (ps ! i)"
  by (simp add: shower_def)

lemma set_shower_band: "\<forall>p \<in> set ps. in_band p \<Longrightarrow> \<forall>p \<in> set (shower t rnd ps). in_band p"
  by (clarsimp simp: in_set_conv_nth) (metis nth_mem particle_fall_band)

lemma particles_frame_positions:
  "positions (particles_frame s t rnd st) =
     (if s = CELEBRATION then shower t rnd (positions st) else positions st)"
  by (simp add: particles_frame_def Let_def)

lemma particles_frames_positions:
  "\<forall>f \<in> set fs. fst f = CELEBRATION \<Longrightarrow> i < length (positions st) \<Longrightarrow>
   length (positions (particles_frames fs st)) = length (positions st) \<and>
   positions (particles_frames fs st) ! i = point_falls (map snd fs) i (positions st ! i)"
  by (induction fs arbitrary: st) (auto simp: particles_frame_positions)

lemma point_falls_reset:
  assumes "-10 \<le> point_y p" "nat \<lfloor>(point_y p + 10) * 10\<rfloor> < length fs"
  shows "\<exists>k. 0 < k \<and> k \<le> Suc (nat \<lfloor>(point_y p + 10) * 10\<rfloor>) \<and>
             point_y (point_falls (take k fs) i p) = 15"
  using assms
proof (induction "nat \<lfloor>(point_y p + 10) * 10\<rfloor>" arbitrary: p fs rule: less_induct)
  case less
  obtain t rnd fs' where fs: "fs = (t, rnd) # fs'" using less.prems(2)
    by (cases fs) auto
  let ?p = "particle_fall t rnd i p"
  show ?case
  proof (cases "point_y p - 0.1 < -10")
    case True
    then have "point_y (point_falls (take 1 fs) i p) = 15" by (simp add: fs particle_fall_y)
    then show ?thesis by (intro exI [of _ 1]) simp
  next
    case False
    then have y: "point_y ?p = point_y p - 0.1" by (simp add: particle_fall_y)
    have e: "(point_y ?p + 10) * 10 = (point_y p + 10) * 10 - 1" by (simp add: y algebra_simps)
    have "1 \<le> (point_y p + 10) * 10" using False by (simp add: algebra_simps)
    then have pos: "1 \<le> \<lfloor>(point_y p + 10) * 10\<rfloor>" by (metis le_floor_iff of_int_1)
    have "\<lfloor>(point_y ?p + 10) * 10\<rfloor> = \<lfloor>(point_y p + 10) * 10\<rfloor> - 1"
      unfolding e by (rule floor_diff_one)
    then have fl: "nat \<lfloor>(point_y ?p + 10) * 10\<rfloor> = nat \<lfloor>(point_y p + 10) * 10\<rfloor> - 1"
      using pos by (simp add: nat_diff_distrib)
    have "nat \<lfloor>(point_y ?p + 10) * 10\<rfloor> < nat \<lfloor>(point_y p + 10) * 10\<rfloor>"
      using fl pos by linarith
    moreover have "-10 \<le> point_y ?p" using False y by simp
    moreover have "nat \<lfloor>(point_y ?p + 10) * 10\<rfloor> < length fs'"
    proof -
      have "nat \<lfloor>(point_y p + 10) * 10\<rfloor> < Suc (length fs')" using less.prems(2) fs by simp
      with fl pos show ?thesis by linarith
    qed
    ultimately obtain k where "0 < k" "k \<le> Suc (nat \<lfloor>(point_y ?p + 10) * 10\<rfloor>)"
      and "point_y (point_falls (take k fs') i ?p) = 15"
      using less.hyps by blast
    then show ?thesis using fl pos by (intro exI [of _ "Suc k"]) (simp add: fs)
  qed
qed

lemma particles_frame_band:
  "\<forall>p \<in> set (positions st). in_band p \<Longrightarrow>
   length (positions (particles_frame s t rnd st)) = length (positions st) \<and>
   (\<forall>p \<in> set (positions (particles_frame s t rnd st)). in_band p)"
  by (simp add: particles_frame_positions set_shower_band)

lemma initialPositions_band:
  assumes "\<forall>i. 0 \<le> fst (snd (rnd i)) \<and> fst (snd (rnd i)) < 1"
  shows "\<forall>p \<in> set (initialPositions rnd). in_band p"
proof
  fix p assume "p \<in> set (initialPositions rnd)"
  then obtain i a b c where r: "rnd i = (a, b, c)"
    and p: "p = \<lparr>point_x = (a - 0.5) * 20, point_y = (b - 0.5) * 20, point_z = (c - 0.5) * 20\<rparr>"
    by (auto simp: initialPositions_def split: prod.splits)
  have "0 \<le> b" "b < 1" using assms r by (metis fst_conv snd_conv)+
  then show "in_band p" by (simp add: p in_band_def)
qed

subsection \<open>Claims\<close>

text \<open>C18: Whatever the stages of the frames, the buffer keeps its 500 points
  and every point stays between heights \<open>-10\<close> and 15: the start-up draws put
  it in \<open>[-10, 10)\<close>, a fall of 0.1 below \<open>-10\<close> is undone by the reset to
  15 in the same frame.\<close>

theorem particles_in_band:
  assumes "\<forall>i. 0 \<le> fst (snd (rnd i)) \<and> fst (snd (rnd i)) < 1"
  shows "length (positions (particles_frames fs (particles_init rnd))) = particle_count \<and>
         (\<forall>p \<in> set (positions (particles_frames fs (particles_init rnd))). in_band p)"
proof -
  have step: "length (positions (particles_frames fs st)) = length (positions st) \<and>
        (\<forall>p \<in> set (positions (particles_frames fs st)). in_band p)"
    if "\<forall>p \<in> set (positions st). in_band p" for st
    using that
  proof (induction fs arbitrary: st)
    case (Cons f fs)
    obtain s t r where f: "f = (s, t, r)" by (cases f) auto
    from particles_frame_band [OF Cons.prems, of s t r] Cons.IH [of "particles_frame s t r st"]
    show ?case by (simp add: f)
  qed simp
  have "\<forall>p \<in> set (positions (particles_init rnd)). in_band p"
    using initialPositions_band [OF assms] by (simp add: particles_init_def)
  note h = step [OF this]
  have "length (positions (particles_init rnd)) = particle_count"
    by (simp add: particles_init_def initialPositions_def)
  with h show ?thesis by simp
qed

theorem particles_in_band_witness:
  "in_band (hd (positions (particles_frames [(CELEBRATION, 0, \<lambda>i. (0.5, 0.5))]
     (particles_init (\<lambda>i. (0.5, 0.5, 0.5))))))"
proof -
  have "\<forall>i. 0 \<le> fst (snd ((\<lambda>i. (0.5::real, 0.5::real, 0.5::real)) i)) \<and>
            fst (snd ((\<lambda>i. (0.5::real, 0.5::real, 0.5::real)) i)) < 1" by simp
  from particles_in_band [OF this, of "[(CELEBRATION, 0, \<lambda>i. (0.5, 0.5))]"]
  show ?thesis unfolding particle_count_def by (metis hd_in_set list.size(3) zero_neq_numeral)
qed

text \<open>C19: In the celebration every point comes back to the top: a point in
  the band is put back at height 15 within 251 frames, whatever the clock times
  and random draws of the frames.\<close>

theorem point_back_on_top:
  assumes "\<forall>f \<in> set fs. fst f = CELEBRATION" "251 \<le> length fs"
    and "i < length (positions st)" "in_band (positions st ! i)"
  shows "\<exists>k. 1 \<le> k \<and> k \<le> 251 \<and> point_y (positions (particles_frames (take k fs) st) ! i) = 15"
proof -
  let ?y = "point_y (positions st ! i)"
  have "(?y + 10) * 10 < 251" using assms(4) by (simp add: in_band_def)
  then have "\<lfloor>(?y + 10) * 10\<rfloor> \<le> 250" by (subst floor_le_iff) simp
  then have b: "nat \<lfloor>(?y + 10) * 10\<rfloor> \<le> 250" by (simp only: nat_le_iff)
  then have "nat \<lfloor>(?y + 10) * 10\<rfloor> < length (map snd fs)" using assms(2) by simp
  from point_falls_reset [OF _ this, of i] assms(4) obtain k where
    k: "0 < k" "k \<le> Suc (nat \<lfloor>(?y + 10) * 10\<rfloor>)"
      "point_y (point_falls (take k (map snd fs)) i (positions st ! i)) = 15"
    by (auto simp: in_band_def)
  have "\<forall>f \<in> set (take k fs). fst f = CELEBRATION" using assms(1) by (auto dest: in_set_takeD)
  from particles_frames_positions [OF this assms(3)] k b show ?thesis
    by (intro exI [of _ k]) (simp add: take_map)
qed

theorem point_back_on_top_witness:
  "\<exists>k. 1 \<le> k \<and> k \<le> 251 \<and>
     point_y (positions (particles_frames (take k (replicate 251 (CELEBRATION, 0, \<lambda>i. (0.5, 0.5))))
       (particles_init (\<lambda>i. (0.5, 0.5, 0.5)))) ! 0) = 15"
proof (rule point_back_on_top)
  show "\<forall>f \<in> set (replicate 251 (CELEBRATION, 0::real, \<lambda>i::nat. (0.5::real, 0.5::real))). fst f = CELEBRATION"
    by simp
  show "251 \<le> length (replicate 251 (CELEBRATION, 0::real, \<lambda>i::nat. (0.5::real, 0.5::real)))" by simp
  show "0 < length (positions (particles_init (\<lambda>i. (0.5, 0.5, 0.5))))"
    by (simp add: particles_init_def initialPositions_def particle_count_def)
  show "in_band (positions (particles_init (\<lambda>i. (0.5, 0.5, 0.5))) ! 0)"
    by (simp add: particles_init_def initialPositions_def particle_count_def in_band_def)
qed

end
