(* ===== verification/Scene.thy ===== *)
theory Scene
  imports Types GiftBox MiniatureWorld Particles
begin

text \<open>
  The 3D scene graph of \<open>src/components/Scene.tsx\<close>: which children are
  mounted in each stage, and with which props the gift box is mounted.  The
  floating gift box of \<open>GIFT_BOX\<close> and the open one of \<open>OPENING\<close> sit at
  different places of the JSX, so React mounts two different \<open>GiftBox\<close>
  instances; the second has no \<open>onClick\<close>.  The per-frame bobbing of the
  group (\<open>Math.sin(t * 0.5) * 0.1\<close>) is the height \<open>scene_group_y\<close>.
  \<open>Particles\<close> is mounted in every stage; \<open>MiniatureWorld\<close> only in
  \<open>WORLD\<close> and \<open>FINAL\<close>, which leaves its \<open>CELEBRATION\<close> branches dead.
\<close>

datatype scene_child = ParticlesChild | FloatingGiftBox | OpenGiftBox | MiniatureWorldChild

definition scene_children :: "ExperienceStage \<Rightarrow> scene_child list" where
  "scene_children s =
     [ParticlesChild] @
     (if s = GIFT_BOX then [FloatingGiftBox] else []) @
     (if s = OPENING then [OpenGiftBox] else []) @
     (if s = WORLD \<or> s = FINAL then [MiniatureWorldChild] else [])"

text \<open>The \<open>useFrame\<close> callback of the scene's group: its height at clock
  time \<open>t\<close>.\<close>

definition scene_group_y :: "real \<Rightarrow> real" where
  "scene_group_y t = sin (t * 0.5) * 0.1"

text \<open>The props of the mounted gift box: \<open>onClick={onBoxClick}\<close> in
  \<open>GIFT_BOX\<close>, \<open>isOpen={true}\<close> in \<open>OPENING\<close>; no box otherwise.\<close>

definition giftbox_props_of :: "ExperienceStage \<Rightarrow> giftbox_props option" where
  "giftbox_props_of s =
     (if s = GIFT_BOX then Some \<lparr>has_onClick = True, isOpen = False\<rparr>
      else if s = OPENING then Some \<lparr>has_onClick = False, isOpen = True\<rparr>
      else None)"

lemma giftbox_props_of_Some:
  "giftbox_props_of s = Some p \<longleftrightarrow>
     (s = GIFT_BOX \<and> p = \<lparr>has_onClick = True, isOpen = False\<rparr>) \<or>
     (s = OPENING \<and> p = \<lparr>has_onClick = False, isOpen = True\<rparr>)"
  by (auto simp: giftbox_props_of_def)

lemma scene_group_y_bound: "\<bar>scene_group_y t\<bar> \<le> 0.1"
  using abs_sin_le_one [of "t * 0.5"] by (simp add: scene_group_y_def abs_mult)

lemma scene_box_mounted:
  "giftbox_props_of s \<noteq> None \<longleftrightarrow>
     FloatingGiftBox \<in> set (scene_children s) \<or> OpenGiftBox \<in> set (scene_children s)"
  by (simp add: giftbox_props_of_def scene_children_def)

text \<open>C20: \<open>MiniatureWorld\<close> is unmounted in \<open>CELEBRATION\<close>, so the
  stage it sees is never \<open>CELEBRATION\<close>: its celebration bob (frequency 3)
  never runs, and it hugs only in \<open>FINAL\<close>.  The hug and the heart vanish
  when the "Yes" button is clicked, although the component has code for
  \<open>CELEBRATION\<close> in \<open>isHugging\<close>, \<open>bobFreq\<close> and the heart's
  condition.\<close>

theorem world_celebration_code_dead:
  "MiniatureWorldChild \<in> set (scene_children s) \<Longrightarrow>
   s \<noteq> CELEBRATION \<and> bobFreq s \<noteq> 3 \<and> (isHugging s \<longleftrightarrow> s = FINAL)"
  by (auto simp: scene_children_def bobFreq_def isHugging_def)

theorem world_celebration_code_dead_witness:
  "MiniatureWorldChild \<in> set (scene_children FINAL) \<and> bobFreq FINAL = 1.5"
proof -
  have m: "MiniatureWorldChild \<in> set (scene_children FINAL)" by (simp add: scene_children_def)
  from world_celebration_code_dead [OF m] m show ?thesis by (simp add: bobFreq_def isHugging_def)
qed

end
