(* ===== verification/Experience.thy ===== *)
theory Experience
  imports Sequencer Overlay Scene
begin

text \<open>
  The page as one system: the App state (\<open>src/App.tsx\<close>), the overlay's
  \<open>msgIndex\<close> (\<open>UIOverlay.tsx\<close>), the floating gift box's \<open>hovered\<close>
  (\<open>GiftBox.tsx\<close>), the sound controller (\<open>SoundController.ts\<close>) and the
  browser's timer queue, with the two handles that the effects' cleanup
  functions hold: the App's \<open>timer\<close> and the overlay's \<open>interval\<close>.

  Every handler of the sources is a list of calls (\<open>call\<close>), run in order by
  \<open>run_calls\<close>; a call that throws (the sound controller without an
  \<open>AudioContext\<close>) ends the handler, the state updates made before it stay,
  and the exception is recorded as uncaught.  After a handler, React re-renders;
  when \<open>stage\<close> changed, the cleanups of the effects on \<open>[stage]\<close> run
  (overlay first, as a child of \<open>App\<close>), then their bodies (\<open>commit\<close>), and the
  floating gift box, unmounted outside \<open>GIFT_BOX\<close>, loses its state.  One
  discrete event (a click, a pointer move, a timer firing) and the commit that
  follows it is one step (\<open>experience_step\<close>), as React 18 flushes the updates
  of a discrete event before the next one.
\<close>

datatype callback = AppSetStage ExperienceStage | MsgTick | SoundCb sound_cb

record world =
  app :: app_state
  msgIndex :: nat
  box :: giftbox_state
  sound :: sound_controller
  queue :: "callback tqueue"
  app_timer :: "nat option"
  msg_interval :: "nat option"
  uncaught :: "js_error list"

definition world_init :: world where
  "world_init =
     \<lparr>app = app_init, msgIndex = 0, box = giftbox_init, sound = sound_init_state,
      queue = tq_empty, app_timer = None, msg_interval = None, uncaught = []\<rparr>"

text \<open>The audio clock, read as the event loop's clock in seconds.\<close>

definition audio_now :: "world \<Rightarrow> seconds" where
  "audio_now w = real (tq_now (queue w)) / 1000"

datatype call =
    SetStage ExperienceStage | NextStage | SetHasStarted bool | SetHovered bool | CycleMsg
  | PlayPop | PlayBoop | PlaySparkle | PlayBackground | RunSound sound_cb real

definition set_sound :: "world \<Rightarrow> sound_controller \<Rightarrow> world" where
  "set_sound w sc = w\<lparr>sound := sc\<rparr>"

definition set_sound_queue :: "world \<Rightarrow> sound_controller \<times> callback tqueue \<Rightarrow> world" where
  "set_sound_queue w r = w\<lparr>sound := fst r, queue := snd r\<rparr>"

fun run_call :: "audio_env \<Rightarrow> call \<Rightarrow> world \<Rightarrow> js_error + world" where
  "run_call env (SetStage s) w = Inr (w\<lparr>app := (app w)\<lparr>stage := s\<rparr>\<rparr>)"
| "run_call env NextStage w =
     Inr (w\<lparr>app := (app w)\<lparr>stage := nextStage_update (stage (app w))\<rparr>\<rparr>)"
| "run_call env (SetHasStarted b) w = Inr (w\<lparr>app := (app w)\<lparr>hasStarted := b\<rparr>\<rparr>)"
| "run_call env (SetHovered b) w = Inr (w\<lparr>box := (box w)\<lparr>hovered := b\<rparr>\<rparr>)"
| "run_call env CycleMsg w = Inr (w\<lparr>msgIndex := msg_cycle (msgIndex w)\<rparr>)"
| "run_call env PlayPop w = map_sum id (set_sound w) (playPop env (audio_now w) (sound w))"
| "run_call env PlayBoop w = map_sum id (set_sound w) (playBoop env (audio_now w) (sound w))"
| "run_call env PlaySparkle w = Inr (w\<lparr>queue := playSparkle SoundCb (queue w)\<rparr>)"
| "run_call env PlayBackground w =
     map_sum id (set_sound_queue w) (playBackground env SoundCb (sound w) (queue w))"
| "run_call env (RunSound c r) w =
     map_sum id (set_sound_queue w) (run_sound_cb env SoundCb (audio_now w) r c (sound w, queue w))"

fun run_calls :: "audio_env \<Rightarrow> call list \<Rightarrow> world \<Rightarrow> world" where
  "run_calls env [] w = w"
| "run_calls env (c # cs) w =
     (case run_call env c w of
        Inl e \<Rightarrow> w\<lparr>uncaught := uncaught w @ [e]\<rparr>
      | Inr w' \<Rightarrow> run_calls env cs w')"

subsection \<open>Handlers\<close>

text \<open>\<open>startExperience\<close> (App.tsx): \<open>setHasStarted(true);
  setStage(GIFT_BOX); SoundController.playBackground()\<close>.\<close>

definition startExperience :: "call list" where
  "startExperience = [SetHasStarted True, SetStage GIFT_BOX, PlayBackground]"

text \<open>\<open>handleYesClick\<close> (UIOverlay.tsx): \<open>setStage(CELEBRATION);
  playSparkle(); playPop()\<close>.\<close>

definition handleYesClick :: "call list" where
  "handleYesClick = [SetStage CELEBRATION, PlaySparkle, PlayPop]"

text \<open>The gift box's calls; its only \<open>onClick\<close> is App's \<open>nextStage\<close>
  (passed as \<open>onBoxClick\<close> through \<open>Scene\<close>).\<close>

fun gb_to_call :: "gb_call \<Rightarrow> call" where
  "gb_to_call CallPlayPop = PlayPop"
| "gb_to_call CallPlaySparkle = PlaySparkle"
| "gb_to_call CallPlayBoop = PlayBoop"
| "gb_to_call CallOnClick = NextStage"
| "gb_to_call (CallSetHovered b) = SetHovered b"

datatype event = ClickStart | ClickBox | PointerOverBox | PointerOutBox | ClickYes | FireTimer real

text \<open>The calls a user event makes.  While the start overlay (\<open>z-50\<close>,
  \<open>inset-0\<close>) is shown it receives every pointer event; the box handlers exist
  only while a gift box is mounted; the "Yes" button takes clicks where
  \<open>yes_clickable\<close> says so.\<close>

fun event_calls :: "event \<Rightarrow> world \<Rightarrow> call list" where
  "event_calls ClickStart w = (if start_overlay_shown (app w) then startExperience else [])"
| "event_calls ClickBox w =
     (if start_overlay_shown (app w) then []
      else case giftbox_props_of (stage (app w)) of
             None \<Rightarrow> [] | Some p \<Rightarrow> map gb_to_call (handleClick p))"
| "event_calls PointerOverBox w =
     (if start_overlay_shown (app w) then []
      else case giftbox_props_of (stage (app w)) of
             None \<Rightarrow> [] | Some p \<Rightarrow> map gb_to_call (handlePointerOver p))"
| "event_calls PointerOutBox w =
     (if start_overlay_shown (app w) then []
      else case giftbox_props_of (stage (app w)) of
             None \<Rightarrow> [] | Some p \<Rightarrow> map gb_to_call handlePointerOut)"
| "event_calls ClickYes w =
     (if \<not> start_overlay_shown (app w) \<and> yes_clickable (stage (app w)) then handleYesClick
      else [])"
| "event_calls (FireTimer r) w = []"

text \<open>The calls a fired timer's callback makes; \<open>r\<close> is the value of
  \<open>Math.random()\<close> a piano tick draws.\<close>

fun cb_calls :: "callback \<Rightarrow> real \<Rightarrow> call list" where
  "cb_calls (AppSetStage s) r = [SetStage s]"
| "cb_calls MsgTick r = [CycleMsg]"
| "cb_calls (SoundCb c) r = [RunSound c r]"

subsection \<open>Commit: effects on \<open>[stage]\<close>\<close>

definition clear_opt :: "nat option \<Rightarrow> callback tqueue \<Rightarrow> callback tqueue" where
  "clear_opt h q = (case h of None \<Rightarrow> q | Some i \<Rightarrow> clearTimer i q)"

text \<open>The cleanups: \<open>clearInterval(interval)\<close> of the overlay, then
  \<open>clearTimeout(timer)\<close> of App.\<close>

definition effects_cleanup :: "world \<Rightarrow> world" where
  "effects_cleanup w =
     w\<lparr>queue := clear_opt (app_timer w) (clear_opt (msg_interval w) (queue w)),
       msg_interval := None, app_timer := None\<rparr>"

text \<open>The effect bodies for the new stage: the overlay's interval, then App's
  timer.\<close>

definition arm_overlay :: "world \<Rightarrow> world" where
  "arm_overlay w =
     (case overlay_interval (stage (app w)) of
        None \<Rightarrow> w
      | Some d \<Rightarrow> (let (h, q) = setInterval MsgTick d (queue w)
                   in w\<lparr>queue := q, msg_interval := Some h\<rparr>))"

definition arm_app :: "world \<Rightarrow> world" where
  "arm_app w =
     (case stage_timer (stage (app w)) of
        None \<Rightarrow> w
      | Some (d, s) \<Rightarrow> (let (h, q) = setTimeout (AppSetStage s) d (queue w)
                        in w\<lparr>queue := q, app_timer := Some h\<rparr>))"

text \<open>The floating gift box is unmounted outside \<open>GIFT_BOX\<close>.\<close>

definition unmount_box :: "world \<Rightarrow> world" where
  "unmount_box w = (if stage (app w) = GIFT_BOX then w else w\<lparr>box := giftbox_init\<rparr>)"

definition commit :: "ExperienceStage \<Rightarrow> world \<Rightarrow> world" where
  "commit old w =
     (if stage (app w) = old then w else arm_app (arm_overlay (unmount_box (effects_cleanup w))))"

subsection \<open>Steps and runs\<close>

fun experience_step :: "audio_env \<Rightarrow> event \<Rightarrow> world \<Rightarrow> world" where
  "experience_step env (FireTimer r) w =
     (case fire_next (queue w) of
        None \<Rightarrow> w
      | Some (t, q) \<Rightarrow> commit (stage (app w)) (run_calls env (cb_calls (tm_kind t) r) (w\<lparr>queue := q\<rparr>)))"
| "experience_step env e w = commit (stage (app w)) (run_calls env (event_calls e w) w)"

fun run_events :: "audio_env \<Rightarrow> event list \<Rightarrow> world \<Rightarrow> world" where
  "run_events env [] w = w"
| "run_events env (e # es) w = run_events env es (experience_step env e w)"

inductive reachable :: "audio_env \<Rightarrow> world \<Rightarrow> bool" for env where
  init: "reachable env world_init"
| step: "reachable env w \<Longrightarrow> reachable env (experience_step env e w)"

subsection \<open>Evaluation\<close>

text \<open>The definitions a concrete run unfolds, for evaluating runs by
  \<open>simp\<close>.\<close>

lemmas experience_eval = world_init_def app_init_def tq_empty_def giftbox_init_def lid_init_def
  sound_init_state_def startExperience_def handleYesClick_def commit_def effects_cleanup_def
  arm_overlay_def arm_app_def unmount_box_def clear_opt_def setTimeout_def setInterval_def
  schedule_def clearTimer_def fire_next_def rearm_def fires_before_def playBackground_def
  playPop_def playBoop_def playTone_def init_def playSparkle_def sparkle_tones_def mk_tone_def
  set_sound_def set_sound_queue_def stage_timer_def overlay_interval_def start_overlay_shown_def
  giftbox_props_of_def handleClick_def handlePointerOver_def handlePointerOut_def
  yes_clickable_iff audio_now_def piano_note_def js_index_def pianoNotes_def Let_def

end
