(* ===== verification/Invariants.thy ===== *)
theory Invariants
  imports Experience
begin

text \<open>
  The invariant of the page (theory \<open>Experience\<close>) and its proof by rule
  induction over \<open>reachable\<close>.  The invariant ties the pending timers to the
  stage: in \<open>OPENING\<close> and \<open>WORLD\<close> exactly one App timer is pending, it is the
  one whose handle App's effect cleanup holds, and it targets the next stage;
  in \<open>WORLD\<close> exactly one overlay interval is pending, held by the overlay's
  cleanup; in every other stage neither exists.  Besides it: the queue is
  well-formed, \<open>hasStarted\<close> is true exactly past \<open>START\<close>, \<open>msgIndex\<close> is a
  valid index, only the floating box can be hovered, every tone started has a
  well-formed envelope, and every pending sparkle note has a positive
  frequency.

  The proof is split as the step is: what one call does (\<open>run_call_aux\<close>,
  \<open>run_call_app\<close>), what a handler does (\<open>run_calls_aux\<close>, \<open>app_stops\<close>), what
  the commit does (\<open>commit_timers\<close>), and what firing a timer does.
\<close>

fun is_app_cb :: "callback \<Rightarrow> bool" where
  "is_app_cb (AppSetStage s) = True"
| "is_app_cb _ = False"

fun is_msg_cb :: "callback \<Rightarrow> bool" where
  "is_msg_cb MsgTick = True"
| "is_msg_cb _ = False"

definition app_sigs :: "world \<Rightarrow> (nat \<times> callback \<times> ms option) list" where
  "app_sigs w = kind_sigs is_app_cb (queue w)"

definition msg_sigs :: "world \<Rightarrow> (nat \<times> callback \<times> ms option) list" where
  "msg_sigs w = kind_sigs is_msg_cb (queue w)"

definition timers_inv :: "world \<Rightarrow> bool" where
  "timers_inv w \<longleftrightarrow>
     (case stage_timer (stage (app w)) of
        None \<Rightarrow> app_timer w = None \<and> app_sigs w = []
      | Some (d, s) \<Rightarrow> \<exists>h. app_timer w = Some h \<and> app_sigs w = [(h, AppSetStage s, None)]) \<and>
     (case overlay_interval (stage (app w)) of
        None \<Rightarrow> msg_interval w = None \<and> msg_sigs w = []
      | Some d \<Rightarrow> \<exists>h. msg_interval w = Some h \<and> msg_sigs w = [(h, MsgTick, Some d)])"

definition sparkles_ok :: "callback tqueue \<Rightarrow> bool" where
  "sparkles_ok q \<longleftrightarrow> (\<forall>t \<in> set (tq_timers q). \<forall>f. tm_kind t = SoundCb (SparkleNote f) \<longrightarrow> 0 < f)"

text \<open>The stage-independent part.\<close>

definition aux_inv :: "world \<Rightarrow> bool" where
  "aux_inv w \<longleftrightarrow> tq_wf (queue w) \<and> sparkles_ok (queue w) \<and> msgIndex w < 4 \<and> sound_ok (sound w)"

definition exp_inv :: "world \<Rightarrow> bool" where
  "exp_inv w \<longleftrightarrow>
     aux_inv w \<and> timers_inv w \<and> (hasStarted (app w) \<longleftrightarrow> stage (app w) \<noteq> START) \<and>
     (hovered (box w) \<longrightarrow> stage (app w) = GIFT_BOX)"

text \<open>Calls leave the effect handles and the App/overlay timers alone.\<close>

definition same_handles :: "world \<Rightarrow> world \<Rightarrow> bool" where
  "same_handles w w' \<longleftrightarrow>
     app_timer w' = app_timer w \<and> msg_interval w' = msg_interval w \<and>
     app_sigs w' = app_sigs w \<and> msg_sigs w' = msg_sigs w"

fun call_ok :: "call \<Rightarrow> bool" where
  "call_ok (RunSound (SparkleNote f) r) = (0 < f)"
| "call_ok c = True"

text \<open>A call that cannot throw in a browser with \<open>AudioContext\<close>: every
  call but a piano tick whose random draw is outside \<open>[0, 1)\<close>.\<close>

fun audio_safe :: "call \<Rightarrow> bool" where
  "audio_safe (RunSound PianoTick r) = (0 \<le> r \<and> r < 1)"
| "audio_safe c = True"

text \<open>What a call does to the App state.\<close>

fun call_app :: "call \<Rightarrow> app_state \<Rightarrow> app_state" where
  "call_app (SetStage s) a = a\<lparr>stage := s\<rparr>"
| "call_app NextStage a = a\<lparr>stage := nextStage_update (stage a)\<rparr>"
| "call_app (SetHasStarted b) a = a\<lparr>hasStarted := b\<rparr>"
| "call_app c a = a"

fun may_throw :: "call \<Rightarrow> bool" where
  "may_throw PlayPop = True"
| "may_throw PlayBoop = True"
| "may_throw PlayBackground = True"
| "may_throw (RunSound c r) = True"
| "may_throw c = False"

text \<open>The App states a handler can end in: it stops just before a call that
  throws, or after its last call.\<close>

fun app_stops :: "call list \<Rightarrow> app_state \<Rightarrow> app_state list" where
  "app_stops [] a = [a]"
| "app_stops (c # cs) a = (if may_throw c then [a] else []) @ app_stops cs (call_app c a)"

text \<open>Every pending App timer and overlay interval is the one whose handle
  the effect cleanup holds.\<close>

definition cover :: "world \<Rightarrow> bool" where
  "cover w \<longleftrightarrow>
     (\<forall>x \<in> set (app_sigs w). app_timer w = Some (fst x)) \<and>
     (\<forall>x \<in> set (msg_sigs w). msg_interval w = Some (fst x))"

text \<open>The calls a step makes: the user event's handler, or the callback of
  the timer that fires.\<close>

definition step_calls :: "event \<Rightarrow> world \<Rightarrow> call list" where
  "step_calls e w =
     (case e of
        FireTimer r \<Rightarrow> (case fire_next (queue w) of None \<Rightarrow> [] | Some (t, q) \<Rightarrow> cb_calls (tm_kind t) r)
      | _ \<Rightarrow> event_calls e w)"

text \<open>The invariant of a page in a browser without \<open>AudioContext\<close>.\<close>

definition mute_inv :: "world \<Rightarrow> bool" where
  "mute_inv w \<longleftrightarrow> audioContext (sound w) = None \<and> stage (app w) \<in> {START, GIFT_BOX, CELEBRATION}"

lemma audio_safe_RunSound: "audio_safe (RunSound c r) \<longleftrightarrow> (c = PianoTick \<longrightarrow> 0 \<le> r \<and> r < 1)"
  by (cases c) simp_all

lemma call_ok_RunSound: "call_ok (RunSound c r) \<longleftrightarrow> (\<forall>f. c = SparkleNote f \<longrightarrow> 0 < f)"
  by (cases c) simp_all

lemma same_handles_refl [simp]: "same_handles w w"
  by (simp add: same_handles_def)

lemma same_handles_trans: "same_handles w1 w2 \<Longrightarrow> same_handles w2 w3 \<Longrightarrow> same_handles w1 w3"
  by (simp add: same_handles_def)

lemma not_cb_SoundCb [simp]: "\<not> is_app_cb (SoundCb c)" "\<not> is_msg_cb (SoundCb c)"
  by simp_all

lemma aux_inv_uncaught [simp]: "aux_inv (w\<lparr>uncaught := es\<rparr>) = aux_inv w"
  by (simp add: aux_inv_def)

lemma same_handles_uncaught [simp]: "same_handles w (w\<lparr>uncaught := es\<rparr>)"
  by (simp add: same_handles_def app_sigs_def msg_sigs_def)

lemma sparkles_ok_sound_queue:
  assumes "sparkles_ok q"
    and "\<And>u. u \<in> set (tq_timers q') \<Longrightarrow> u \<in> set (tq_timers q) \<or> (\<forall>f. tm_kind u \<noteq> SoundCb (SparkleNote f))"
  shows "sparkles_ok q'"
  using assms by (fastforce simp: sparkles_ok_def)

subsection \<open>One call\<close>

lemma run_call_aux:
  assumes "run_call env c w = Inr w'" "aux_inv w" "call_ok c"
  shows "aux_inv w' \<and> same_handles w w'"
proof (cases c)
  case PlayPop
  with assms show ?thesis
    by (auto simp: aux_inv_def same_handles_def set_sound_def app_sigs_def msg_sigs_def
        intro: playPop_ok)
next
  case PlayBoop
  with assms show ?thesis
    by (auto simp: aux_inv_def same_handles_def set_sound_def app_sigs_def msg_sigs_def
        intro: playBoop_ok)
next
  case PlaySparkle
  have "sparkles_ok (playSparkle SoundCb (queue w))"
    using assms(2) unfolding sparkles_ok_def aux_inv_def
    by (fastforce simp: sparkle_tones_def dest!: playSparkle_kinds)
  with assms PlaySparkle show ?thesis
    by (auto simp: aux_inv_def same_handles_def app_sigs_def msg_sigs_def
        playSparkle_wf playSparkle_sigs)
next
  case PlayBackground
  then obtain sc q where r: "playBackground env SoundCb (sound w) (queue w) = Inr (sc, q)"
    and w': "w' = w\<lparr>sound := sc, queue := q\<rparr>"
    using assms(1) by (auto simp: set_sound_queue_def split: sum.splits)
  have "sparkles_ok q"
    using assms(2) by (rule_tac sparkles_ok_sound_queue [of "queue w"])
      (auto simp: aux_inv_def dest: playBackground_kinds [OF r])
  with assms(2) playBackground_ok [OF r] show ?thesis
    by (simp add: w' aux_inv_def same_handles_def app_sigs_def msg_sigs_def)
next
  case (RunSound sc0 rnd)
  then obtain sc q where r: "run_sound_cb env SoundCb (audio_now w) rnd sc0 (sound w, queue w) = Inr (sc, q)"
    and w': "w' = w\<lparr>sound := sc, queue := q\<rparr>"
    using assms(1) by (auto simp: set_sound_queue_def split: sum.splits)
  have pos: "\<forall>f. sc0 = SparkleNote f \<longrightarrow> 0 < f" using assms(3) RunSound by auto
  have "sparkles_ok q"
    using assms(2) by (rule_tac sparkles_ok_sound_queue [of "queue w"])
      (auto simp: aux_inv_def dest: run_sound_cb_kinds [OF r])
  with assms(2) run_sound_cb_ok [OF r _ pos] show ?thesis
    by (simp add: w' aux_inv_def same_handles_def app_sigs_def msg_sigs_def)
qed (use assms in \<open>auto simp: aux_inv_def same_handles_def app_sigs_def msg_sigs_def msg_cycle_bound\<close>)

lemma run_call_app: "run_call env c w = Inr w' \<Longrightarrow> app w' = call_app c (app w)"
  by (cases c) (auto simp: set_sound_def set_sound_queue_def split: sum.splits)

lemma run_call_Inl: "run_call env c w = Inl e \<Longrightarrow> may_throw c"
  by (cases c) (auto simp: set_sound_def set_sound_queue_def split: sum.splits)

lemma run_call_hovered:
  "run_call env c w = Inr w' \<Longrightarrow> hovered (box w') \<Longrightarrow> hovered (box w) \<or> c = SetHovered True"
  by (cases c) (auto simp: set_sound_def set_sound_queue_def split: sum.splits)

subsection \<open>One handler\<close>

lemma run_calls_app: "app (run_calls env cs w) \<in> set (app_stops cs (app w))"
proof (induction cs arbitrary: w)
  case Nil
  then show ?case by simp
next
  case (Cons c cs)
  show ?case
  proof (cases "run_call env c w")
    case (Inl e)
    then show ?thesis by (simp add: run_call_Inl)
  next
    case (Inr w')
    with Cons.IH [of w'] show ?thesis by (simp add: run_call_app)
  qed
qed

lemma run_calls_aux:
  "aux_inv w \<Longrightarrow> \<forall>c \<in> set cs. call_ok c \<Longrightarrow>
   aux_inv (run_calls env cs w) \<and> same_handles w (run_calls env cs w)"
proof (induction cs arbitrary: w)
  case Nil
  then show ?case by simp
next
  case (Cons c cs)
  show ?case
  proof (cases "run_call env c w")
    case (Inl e)
    with Cons.prems show ?thesis by simp
  next
    case (Inr w')
    with Cons.prems have "aux_inv w' \<and> same_handles w w'" by (simp add: run_call_aux)
    with Cons.IH [of w'] Cons.prems Inr show ?thesis by (auto intro: same_handles_trans)
  qed
qed

lemma run_calls_hovered:
  "hovered (box (run_calls env cs w)) \<Longrightarrow> hovered (box w) \<or> SetHovered True \<in> set cs"
  by (induction cs arbitrary: w) (auto split: sum.splits dest: run_call_hovered)

subsection \<open>The commit\<close>

lemma timers_inv_cover: "timers_inv w \<Longrightarrow> cover w"
  by (auto simp: timers_inv_def cover_def split: option.splits)

lemma cover_same: "same_handles w w' \<Longrightarrow> cover w \<Longrightarrow> cover w'"
  by (simp add: same_handles_def cover_def)

lemma timers_inv_same:
  "same_handles w w' \<Longrightarrow> stage (app w') = stage (app w) \<Longrightarrow> timers_inv w \<Longrightarrow> timers_inv w'"
  unfolding same_handles_def timers_inv_def by (elim conjE) (simp only:)

lemma kind_sigs_clear_opt:
  "kind_sigs P (clear_opt h q) =
     (case h of None \<Rightarrow> kind_sigs P q | Some i \<Rightarrow> filter (\<lambda>x. fst x \<noteq> i) (kind_sigs P q))"
  by (simp add: clear_opt_def kind_sigs_clearTimer split: option.splits)

lemma clear_opt_wf: "tq_wf q \<Longrightarrow> tq_wf (clear_opt h q)"
  by (simp add: clear_opt_def clearTimer_wf split: option.splits)

lemma set_clear_opt: "set (tq_timers (clear_opt h q)) \<subseteq> set (tq_timers q)"
  by (simp add: clear_opt_def set_clearTimer split: option.splits)

lemma effects_cleanup_sigs:
  assumes "cover w"
  shows "app_sigs (effects_cleanup w) = []" "msg_sigs (effects_cleanup w) = []"
proof -
  have a: "\<forall>x \<in> set (app_sigs w). app_timer w = Some (fst x)"
    and m: "\<forall>x \<in> set (msg_sigs w). msg_interval w = Some (fst x)"
    using assms by (simp_all add: cover_def)
  have a': "app_timer w = None \<Longrightarrow> app_sigs w = []" and m': "msg_interval w = None \<Longrightarrow> msg_sigs w = []"
    using a m by (metis list.set_intros(1) neq_Nil_conv option.distinct(1))+
  show "app_sigs (effects_cleanup w) = []"
    using a a' by (cases "app_timer w") (auto simp: effects_cleanup_def app_sigs_def kind_sigs_clear_opt
        filter_empty_conv split: option.splits)
  show "msg_sigs (effects_cleanup w) = []"
    using m m' by (cases "msg_interval w") (auto simp: effects_cleanup_def msg_sigs_def kind_sigs_clear_opt
        filter_empty_conv split: option.splits)
qed

lemma arm_overlay_eq:
  "arm_overlay w =
     (if stage (app w) = WORLD
      then w\<lparr>queue := snd (setInterval MsgTick 3500 (queue w)), msg_interval := Some (tq_next (queue w))\<rparr>
      else w)"
  by (simp add: arm_overlay_def overlay_interval_def setInterval_def schedule_def)

lemma arm_app_eq:
  "arm_app w =
     (case stage_timer (stage (app w)) of
        None \<Rightarrow> w
      | Some (d, s) \<Rightarrow>
          w\<lparr>queue := snd (setTimeout (AppSetStage s) d (queue w)), app_timer := Some (tq_next (queue w))\<rparr>)"
  by (simp add: arm_app_def setTimeout_def schedule_def split: option.splits prod.splits)

lemma commit_app [simp]: "app (commit old w) = app w"
  by (simp add: commit_def arm_overlay_eq arm_app_eq unmount_box_def effects_cleanup_def
      split: option.splits prod.splits)

lemma commit_same: "stage (app w) = old \<Longrightarrow> commit old w = w"
  by (simp add: commit_def)

lemma commit_hovered:
  "hovered (box (commit old w)) \<Longrightarrow> hovered (box w) \<and> (stage (app w) \<noteq> old \<longrightarrow> stage (app w) = GIFT_BOX)"
  by (auto simp: commit_def arm_overlay_eq arm_app_eq unmount_box_def effects_cleanup_def
      giftbox_init_def split: option.splits prod.splits if_splits)

lemma commit_aux: "aux_inv w \<Longrightarrow> aux_inv (commit old w)"
  unfolding commit_def
  by (auto simp: arm_overlay_eq arm_app_eq unmount_box_def effects_cleanup_def aux_inv_def
      setInterval_def setTimeout_def schedule_wf clear_opt_wf sparkles_ok_def set_schedule
      dest!: set_clear_opt [THEN subsetD] split: option.splits prod.splits)

lemma commit_timers:
  assumes "cover w" "stage (app w) \<noteq> old"
  shows "timers_inv (commit old w)"
proof -
  let ?w1 = "unmount_box (effects_cleanup w)"
  have s1: "app_sigs ?w1 = []" "msg_sigs ?w1 = []"
    using effects_cleanup_sigs [OF assms(1)]
    by (simp_all add: unmount_box_def app_sigs_def msg_sigs_def)
  have h1: "app_timer ?w1 = None" "msg_interval ?w1 = None" "app ?w1 = app w"
    by (simp_all add: unmount_box_def effects_cleanup_def)
  show ?thesis
    using s1 h1 assms(2) unfolding commit_def
    by (cases "stage (app w)")
       (simp_all add: arm_overlay_eq arm_app_eq timers_inv_def stage_timer_def overlay_interval_def
         app_sigs_def msg_sigs_def setInterval_def setTimeout_def kind_sigs_schedule_same)
qed

subsection \<open>One step\<close>

text \<open>A handler followed by the commit keeps the invariant when the App states
  it may stop in keep \<open>hasStarted\<close> in step with the stage, the box is hovered
  only in \<open>GIFT_BOX\<close>, and either the timers agree with the current stage or
  every possible outcome leaves it (so that the commit re-arms them).\<close>

lemma handler_inv:
  assumes aux: "aux_inv w" and cov: "cover w" and ok: "\<forall>c \<in> set cs. call_ok c"
    and started: "\<forall>a \<in> set (app_stops cs (app w)). hasStarted a \<longleftrightarrow> stage a \<noteq> START"
    and hov: "hovered (box w) \<longrightarrow> stage (app w) = GIFT_BOX"
    and hov2: "SetHovered True \<in> set cs \<longrightarrow> (\<forall>a \<in> set (app_stops cs (app w)). stage a = GIFT_BOX)"
    and tim: "timers_inv w \<or> (\<forall>a \<in> set (app_stops cs (app w)). stage a \<noteq> stage (app w))"
  shows "exp_inv (commit (stage (app w)) (run_calls env cs w))"
proof -
  let ?w' = "run_calls env cs w"
  have aw: "aux_inv ?w'" and sh: "same_handles w ?w'" using run_calls_aux [OF aux ok] by simp_all
  have stop: "app ?w' \<in> set (app_stops cs (app w))" by (rule run_calls_app)
  have cov': "cover ?w'" using cover_same [OF sh cov] .
  show ?thesis
  proof (cases "stage (app ?w') = stage (app w)")
    case True
    have "timers_inv ?w'"
      using tim stop True sh by (auto intro: timers_inv_same)
    moreover have "hovered (box ?w') \<longrightarrow> stage (app ?w') = GIFT_BOX"
      using run_calls_hovered [of env cs w] hov hov2 stop True by auto
    ultimately show ?thesis
      using True aw started stop by (simp add: commit_same exp_inv_def)
  next
    case False
    have "hovered (box (commit (stage (app w)) ?w')) \<longrightarrow> stage (app ?w') = GIFT_BOX"
      using commit_hovered False by blast
    then show ?thesis
      using False aw started stop commit_timers [OF cov' False] commit_aux [OF aw]
      by (simp add: exp_inv_def)
  qed
qed

text \<open>Firing a timer of a kind other than \<open>P\<close> leaves the timers of kind
  \<open>P\<close> as they are.\<close>

lemma fire_sigs_other:
  assumes "tq_wf q0" "fire_next q0 = Some (t, q)" "\<not> P (tm_kind t)"
  shows "kind_sigs P q = kind_sigs P q0"
proof -
  have tin: "t \<in> set (tq_timers q0)" using fire_next_Some [OF assms(2)] by simp
  have "filter (\<lambda>x. fst x \<noteq> tm_id t) (kind_sigs P q0) = kind_sigs P q0"
    using kind_sigs_id_other [of q0 t P, OF assms(1) tin assms(3)] by (simp add: filter_id_conv)
  with kind_sigs_fire_next [OF assms(2)] show ?thesis by simp
qed

lemma fire_keeps_kinds:
  "fire_next q0 = Some (t, q) \<Longrightarrow> u \<in> set (tq_timers q) \<Longrightarrow>
   \<exists>v \<in> set (tq_timers q0). tm_kind v = tm_kind u"
  by (fastforce simp: fire_next_def split: option.splits dest!: set_rearm)

lemma fire_analysis:
  assumes inv: "exp_inv w" and f: "fire_next (queue w) = Some (t, q)"
  shows "aux_inv (w\<lparr>queue := q\<rparr>)" and "cover (w\<lparr>queue := q\<rparr>)"
    and "\<forall>c \<in> set (cb_calls (tm_kind t) r). call_ok c"
    and "(\<exists>s d. tm_kind t = AppSetStage s \<and> stage_timer (stage (app w)) = Some (d, s)) \<or>
         (\<not> is_app_cb (tm_kind t) \<and> timers_inv (w\<lparr>queue := q\<rparr>))"
proof -
  let ?w1 = "w\<lparr>queue := q\<rparr>"
  have aux: "aux_inv w" and ti: "timers_inv w" using inv by (simp_all add: exp_inv_def)
  have wf: "tq_wf (queue w)" using aux by (simp add: aux_inv_def)
  have tin: "t \<in> set (tq_timers (queue w))" using fire_next_Some [OF f] by simp
  have sp: "sparkles_ok q"
    using aux fire_keeps_kinds [OF f] unfolding aux_inv_def sparkles_ok_def by metis
  show "aux_inv ?w1" using aux sp fire_next_wf [OF wf f] by (simp add: aux_inv_def)
  have sub: "set (kind_sigs P q) \<subseteq> set (kind_sigs P (queue w))" for P
    using kind_sigs_fire_next [OF f] by auto
  show "cover ?w1"
    using timers_inv_cover [OF ti] sub [of is_app_cb] sub [of is_msg_cb]
    unfolding cover_def app_sigs_def msg_sigs_def by auto
  show "\<forall>c \<in> set (cb_calls (tm_kind t) r). call_ok c"
    using aux tin by (cases "tm_kind t") (auto simp: aux_inv_def sparkles_ok_def call_ok_RunSound)
  show "(\<exists>s d. tm_kind t = AppSetStage s \<and> stage_timer (stage (app w)) = Some (d, s)) \<or>
        (\<not> is_app_cb (tm_kind t) \<and> timers_inv ?w1)"
  proof (cases "tm_kind t")
    case (AppSetStage s)
    have "tsig t \<in> set (app_sigs w)"
      using kind_sigs_mem [OF tin] AppSetStage by (simp add: app_sigs_def)
    with ti AppSetStage show ?thesis
      by (auto simp: timers_inv_def tsig_def split: option.splits)
  next
    case MsgTick
    have "tsig t \<in> set (msg_sigs w)"
      using kind_sigs_mem [OF tin] MsgTick by (simp add: msg_sigs_def)
    with ti have per: "tm_period t \<noteq> None"
      by (auto simp: timers_inv_def tsig_def split: option.splits if_splits)
    have "same_handles w ?w1"
      using fire_sigs_other [OF wf f, of is_app_cb] kind_sigs_fire_next [OF f, of is_msg_cb] per MsgTick
      by (simp add: same_handles_def app_sigs_def msg_sigs_def)
    with ti MsgTick show ?thesis by (auto intro: timers_inv_same)
  next
    case (SoundCb c)
    have "same_handles w ?w1"
      using fire_sigs_other [OF wf f, of is_app_cb] fire_sigs_other [OF wf f, of is_msg_cb] SoundCb
      by (simp add: same_handles_def app_sigs_def msg_sigs_def)
    with ti SoundCb show ?thesis by (auto intro: timers_inv_same)
  qed
qed

lemma exp_inv_init: "exp_inv world_init"
  by (simp add: exp_inv_def aux_inv_def timers_inv_def world_init_def app_init_def tq_wf_def
      sparkles_ok_def tq_empty_def sound_ok_def sound_init_state_def giftbox_init_def
      stage_timer_def overlay_interval_def app_sigs_def msg_sigs_def kind_sigs_def)

lemmas handler_defs = startExperience_def handleYesClick_def giftbox_props_of_def handleClick_def
  handlePointerOver_def handlePointerOut_def start_overlay_shown_def

lemma user_event_inv:
  assumes inv: "exp_inv w" and e: "\<forall>r. e \<noteq> FireTimer r"
  shows "exp_inv (experience_step env e w)"
proof -
  have aux: "aux_inv w" and ti: "timers_inv w"
    and st: "hasStarted (app w) \<longleftrightarrow> stage (app w) \<noteq> START"
    and hov: "hovered (box w) \<longrightarrow> stage (app w) = GIFT_BOX"
    using inv by (simp_all add: exp_inv_def)
  have step: "experience_step env e w = commit (stage (app w)) (run_calls env (event_calls e w) w)"
    using e by (cases e) simp_all
  have "exp_inv (commit (stage (app w)) (run_calls env (event_calls e w) w))"
  proof (rule handler_inv [OF aux timers_inv_cover [OF ti]])
    show "\<forall>c \<in> set (event_calls e w). call_ok c"
      by (cases e) (auto simp: handler_defs split: option.splits)
    show "\<forall>a \<in> set (app_stops (event_calls e w) (app w)). hasStarted a \<longleftrightarrow> stage a \<noteq> START"
      using st e by (cases e) (auto simp: handler_defs split: if_splits)
    show "hovered (box w) \<longrightarrow> stage (app w) = GIFT_BOX" by (rule hov)
    show "SetHovered True \<in> set (event_calls e w) \<longrightarrow>
          (\<forall>a \<in> set (app_stops (event_calls e w) (app w)). stage a = GIFT_BOX)"
      by (cases e) (auto simp: handler_defs split: if_splits)
    show "timers_inv w \<or> (\<forall>a \<in> set (app_stops (event_calls e w) (app w)). stage a \<noteq> stage (app w))"
      using ti by simp
  qed
  with step show ?thesis by simp
qed

lemma fire_event_inv:
  assumes inv: "exp_inv w"
  shows "exp_inv (experience_step env (FireTimer r) w)"
proof (cases "fire_next (queue w)")
  case None
  with inv show ?thesis by simp
next
  case (Some tq)
  then obtain t q where f: "fire_next (queue w) = Some (t, q)" by (cases tq) auto
  let ?w1 = "w\<lparr>queue := q\<rparr>"
  have st: "hasStarted (app w) \<longleftrightarrow> stage (app w) \<noteq> START"
    and hov: "hovered (box w) \<longrightarrow> stage (app w) = GIFT_BOX"
    using inv by (simp_all add: exp_inv_def)
  note fa = fire_analysis [OF inv f]
  have "exp_inv (commit (stage (app ?w1)) (run_calls env (cb_calls (tm_kind t) r) ?w1))"
  proof (rule handler_inv [OF fa(1) fa(2) fa(3)])
    show "\<forall>a \<in> set (app_stops (cb_calls (tm_kind t) r) (app ?w1)). hasStarted a \<longleftrightarrow> stage a \<noteq> START"
      using fa(4) st by (cases "tm_kind t") (auto simp: stage_timer_Some)
    show "hovered (box ?w1) \<longrightarrow> stage (app ?w1) = GIFT_BOX" using hov by simp
    show "SetHovered True \<in> set (cb_calls (tm_kind t) r) \<longrightarrow>
          (\<forall>a \<in> set (app_stops (cb_calls (tm_kind t) r) (app ?w1)). stage a = GIFT_BOX)"
      by (cases "tm_kind t") simp_all
    show "timers_inv ?w1 \<or>
          (\<forall>a \<in> set (app_stops (cb_calls (tm_kind t) r) (app ?w1)). stage a \<noteq> stage (app ?w1))"
      using fa(4) by (auto simp: stage_timer_Some)
  qed
  with f show ?thesis by simp
qed

lemma step_inv [inv_preserved]: "exp_inv w \<Longrightarrow> exp_inv (experience_step env e w)"
  by (cases "\<exists>r. e = FireTimer r") (auto intro: fire_event_inv user_event_inv)

lemma reachable_inv: "reachable env w \<Longrightarrow> exp_inv w"
  by (induction rule: reachable.induct) (auto intro: exp_inv_init inv_preserved)

subsection \<open>Stages along a step\<close>

lemma step_app: "app (experience_step env e w) \<in> set (app_stops (step_calls e w) (app w))"
proof (cases e)
  case (FireTimer r)
  then show ?thesis
  proof (cases "fire_next (queue w)")
    case (Some tq)
    then obtain t q where "fire_next (queue w) = Some (t, q)" by (cases tq) auto
    with FireTimer run_calls_app [of env "cb_calls (tm_kind t) r" "w\<lparr>queue := q\<rparr>"] show ?thesis
      by (simp add: step_calls_def)
  qed (simp add: step_calls_def)
qed (simp_all add: step_calls_def run_calls_app)

lemma step_stage_mono: "exp_inv w \<Longrightarrow> stage (app w) \<le> stage (app (experience_step env e w))"
proof -
  assume inv: "exp_inv w"
  have st: "hasStarted (app w) \<longleftrightarrow> stage (app w) \<noteq> START" using inv by (simp add: exp_inv_def)
  have "\<forall>a \<in> set (app_stops (step_calls e w) (app w)). stage (app w) \<le> stage a"
  proof (cases e)
    case (FireTimer r)
    show ?thesis
    proof (cases "fire_next (queue w)")
      case (Some tq)
      then obtain t q where f: "fire_next (queue w) = Some (t, q)" by (cases tq) auto
      from fire_analysis(4) [OF inv f] FireTimer f show ?thesis
        by (cases "tm_kind t") (auto simp: step_calls_def stage_timer_Some)
    qed (simp add: FireTimer step_calls_def)
  qed (use st in \<open>auto simp: step_calls_def handler_defs nextStage_update_mono stage_rank_le_5
          split: option.splits\<close>)
  with step_app show ?thesis by blast
qed

lemma run_events_reachable:
  "reachable env w \<Longrightarrow> reachable env (run_events env es w)"
  by (induction es arbitrary: w) (auto intro: reachable.step)

subsection \<open>A browser without \<open>AudioContext\<close>\<close>

text \<open>Without an \<open>AudioContext\<close> constructor no context is ever created, so
  every sound call throws.  The gift box's handler calls \<open>playPop()\<close> before
  \<open>onClick()\<close>, so the box never opens: the stages reached are \<open>START\<close>,
  \<open>GIFT_BOX\<close> and (through the "Yes" button, which sets the stage before it
  plays) \<open>CELEBRATION\<close>.\<close>

lemmas mute_defs = set_sound_def set_sound_queue_def playPop_def playBoop_def playTone_def
  playBackground_def init_def Let_def

lemma mute_run_call:
  assumes "\<not> ctor_available env" "audioContext (sound w) = None" "run_call env c w = Inr w'"
  shows "audioContext (sound w') = None \<and> \<not> may_throw c"
proof (cases c)
  case (RunSound c0 r)
  with assms show ?thesis
    by (cases c0) (auto simp: mute_defs split: sum.splits option.splits)
qed (use assms in \<open>auto simp: mute_defs split: sum.splits option.splits\<close>)

lemma mute_run_calls:
  "\<not> ctor_available env \<Longrightarrow> audioContext (sound w) = None \<Longrightarrow>
   audioContext (sound (run_calls env cs w)) = None \<and>
   app (run_calls env cs w) = fold call_app (takeWhile (\<lambda>c. \<not> may_throw c) cs) (app w)"
proof (induction cs arbitrary: w)
  case Nil
  then show ?case by simp
next
  case (Cons c cs)
  show ?case
  proof (cases "run_call env c w")
    case (Inl e)
    with run_call_Inl [OF Inl] Cons.prems show ?thesis by simp
  next
    case (Inr w')
    with mute_run_call [OF Cons.prems Inr] Cons.IH [of w'] Cons.prems show ?thesis
      by (simp add: run_call_app)
  qed
qed

lemma commit_sound [simp]: "sound (commit old w) = sound w"
  by (simp add: commit_def arm_overlay_eq arm_app_eq unmount_box_def effects_cleanup_def
      split: option.splits prod.splits)

lemma mute_step:
  assumes env: "\<not> ctor_available env" and inv: "exp_inv w" and m: "mute_inv w"
  shows "mute_inv (experience_step env e w)"
proof -
  have ctx: "audioContext (sound w) = None" and stg: "stage (app w) \<in> {START, GIFT_BOX, CELEBRATION}"
    using m by (simp_all add: mute_inv_def)
  have st: "hasStarted (app w) \<longleftrightarrow> stage (app w) \<noteq> START" using inv by (simp add: exp_inv_def)
  show ?thesis
  proof (cases e)
    case (FireTimer r)
    show ?thesis
    proof (cases "fire_next (queue w)")
      case (Some tq)
      then obtain t q where f: "fire_next (queue w) = Some (t, q)" by (cases tq) auto
      have "\<not> is_app_cb (tm_kind t)"
        using fire_analysis(4) [OF inv f] stg by (auto simp: stage_timer_Some)
      then have "app (run_calls env (cb_calls (tm_kind t) r) (w\<lparr>queue := q\<rparr>)) = app w"
        using mute_run_calls [OF env, of "w\<lparr>queue := q\<rparr>" "cb_calls (tm_kind t) r"] ctx
        by (cases "tm_kind t") simp_all
      with f FireTimer ctx stg mute_run_calls [OF env, of "w\<lparr>queue := q\<rparr>"] show ?thesis
        by (simp add: mute_inv_def)
    qed (use FireTimer m in simp)
  qed (use stg st ctx mute_run_calls [OF env ctx] in
       \<open>auto simp: mute_inv_def handler_defs split: option.splits\<close>)
qed

lemma mute_reachable: "reachable env w \<Longrightarrow> \<not> ctor_available env \<Longrightarrow> mute_inv w"
proof (induction rule: reachable.induct)
  case init
  then show ?case by (simp add: mute_inv_def world_init_def app_init_def sound_init_state_def)
next
  case (step w e)
  then show ?case using mute_step reachable_inv by blast
qed

subsection \<open>A browser with \<open>AudioContext\<close>\<close>

text \<open>Where the constructor exists, a handler runs to its end: its stage
  updates are all applied and no exception is recorded.\<close>

lemma run_call_audio:
  assumes "ctor_available env" "audio_safe c"
  shows "\<exists>w'. run_call env c w = Inr w' \<and> uncaught w' = uncaught w"
proof (cases c)
  case PlayPop
  obtain sc' where "playPop env (audio_now w) (sound w) = Inr sc'"
    using playPop_audio [OF assms(1)] by blast
  with PlayPop show ?thesis by (simp add: set_sound_def)
next
  case PlayBoop
  obtain sc' where "playBoop env (audio_now w) (sound w) = Inr sc'"
    using playBoop_audio [OF assms(1)] by blast
  with PlayBoop show ?thesis by (simp add: set_sound_def)
next
  case PlayBackground
  then show ?thesis
    using playBackground_audio [OF assms(1), of SoundCb "sound w" "queue w"]
    by (auto simp: set_sound_queue_def)
next
  case (RunSound c0 r)
  then have "c0 = PianoTick \<longrightarrow> 0 \<le> r \<and> r < 1" using assms(2) by (cases c0) simp_all
  from run_sound_cb_audio [OF assms(1) this, of SoundCb "audio_now w" "sound w" "queue w"]
  obtain sc' q'
    where "run_sound_cb env SoundCb (audio_now w) r c0 (sound w, queue w) = Inr (sc', q')"
    by (metis surj_pair)
  with RunSound show ?thesis by (simp add: set_sound_queue_def)
qed simp_all

lemma run_calls_audio:
  "ctor_available env \<Longrightarrow> \<forall>c \<in> set cs. audio_safe c \<Longrightarrow>
   app (run_calls env cs w) = fold call_app cs (app w) \<and> uncaught (run_calls env cs w) = uncaught w"
proof (induction cs arbitrary: w)
  case (Cons c cs)
  then obtain w' where "run_call env c w = Inr w'" "uncaught w' = uncaught w"
    using run_call_audio by (meson list.set_intros(1))
  with Cons show ?case by (simp add: run_call_app)
qed simp

lemma commit_uncaught [simp]: "uncaught (commit old w) = uncaught w"
  by (simp add: commit_def arm_overlay_eq arm_app_eq unmount_box_def effects_cleanup_def
      split: option.splits prod.splits)

lemma event_calls_audio_safe: "\<forall>c \<in> set (event_calls e w). audio_safe c"
  by (cases e) (auto simp: handler_defs split: option.splits)

lemma user_step_audio:
  assumes "ctor_available env" "\<forall>r. e \<noteq> FireTimer r"
  shows "app (experience_step env e w) = fold call_app (event_calls e w) (app w) \<and>
         uncaught (experience_step env e w) = uncaught w"
proof -
  have "experience_step env e w = commit (stage (app w)) (run_calls env (event_calls e w) w)"
    using assms(2) by (cases e) simp_all
  with run_calls_audio [OF assms(1) event_calls_audio_safe] show ?thesis by simp
qed

lemma fire_step_app:
  "fire_next (queue w) = Some (t, q) \<Longrightarrow>
   app (experience_step env (FireTimer r) w) =
     (case tm_kind t of AppSetStage s \<Rightarrow> (app w)\<lparr>stage := s\<rparr> | _ \<Rightarrow> app w)"
  using run_calls_app [of env "cb_calls (tm_kind t) r" "w\<lparr>queue := q\<rparr>"]
  by (cases "tm_kind t") (auto split: sum.splits)

end
