(* ===== verification/Progress.thy ===== *)
theory Progress
  imports Invariants
begin

text \<open>
  Progress of the scripted path: in \<open>OPENING\<close> and \<open>WORLD\<close> the page does not
  depend on the user, and App's timer is eventually run by the event loop.
  Other timers may fire first (sparkle notes, the piano and heartbeat
  intervals, the heartbeat's echo, the message interval), and some of them
  schedule new timers.  The backlog of the queue up to the App timer's due time
  (theory \<open>Timers\<close>) counts the firings still to come before it, a heartbeat
  counting twice as it schedules its echo.  Every firing of another timer
  lowers this backlog.
\<close>

text \<open>The weight of a callback in the backlog: a heartbeat tick counts for
  itself and the echo it schedules.\<close>

fun exp_weight :: "callback \<Rightarrow> nat" where
  "exp_weight (SoundCb HeartbeatTick) = 2"
| "exp_weight c = 1"

lemma fire_count_timeout: "tm_period u = None \<Longrightarrow> fire_count D u \<le> 1"
  by (simp add: fire_count_def)

text \<open>The queue after the calls of a callback: unchanged, except that a
  heartbeat tick that did not throw appends its echo.\<close>

lemma cb_calls_queue:
  assumes "\<not> is_app_cb k"
  shows "tq_timers (queue (run_calls env (cb_calls k r) w)) = tq_timers (queue w) \<or>
         (k = SoundCb HeartbeatTick \<and>
          (\<exists>u. tm_period u = None \<and> tm_kind u = SoundCb HeartbeatEcho \<and>
               tq_timers (queue (run_calls env (cb_calls k r) w)) = tq_timers (queue w) @ [u]))"
proof (cases k)
  case (SoundCb c)
  show ?thesis
  proof (cases "run_sound_cb env SoundCb (audio_now w) r c (sound w, queue w)")
    case (Inr x)
    obtain sc' q' where x: "x = (sc', q')" by (cases x)
    from run_sound_cb_queue [OF Inr [unfolded x]] SoundCb Inr x show ?thesis
      by (auto simp: set_sound_queue_def)
  qed (simp add: SoundCb)
qed (use assms in simp_all)

lemma fire_other_progress:
  assumes inv: "exp_inv w" and f: "fire_next (queue w) = Some (t, q)"
    and a: "a \<in> set (tq_timers (queue w))" "tm_id t \<noteq> tm_id a" "tm_due t \<le> tm_due a"
    and k: "\<not> is_app_cb (tm_kind t)"
  shows "stage (app (experience_step env (FireTimer r) w)) = stage (app w) \<and>
         a \<in> set (tq_timers (queue (experience_step env (FireTimer r) w))) \<and>
         backlog exp_weight (tm_due a) (tq_timers (queue (experience_step env (FireTimer r) w))) <
         backlog exp_weight (tm_due a) (tq_timers (queue w))"
proof -
  let ?D = "tm_due a" and ?w1 = "w\<lparr>queue := q\<rparr>"
  let ?w2 = "run_calls env (cb_calls (tm_kind t) r) ?w1"
  have wf: "tq_wf (queue w)" using inv by (simp add: exp_inv_def aux_inv_def)
  have b1: "backlog exp_weight ?D (tq_timers q) + exp_weight (tm_kind t) =
            backlog exp_weight ?D (tq_timers (queue w))"
    using backlog_fire_next [OF wf f a(3)] .
  have q: "tq_timers q = rearm t (tq_timers (queue w))"
    using f by (auto simp: fire_next_def split: option.splits)
  have a1: "a \<in> set (tq_timers q)" using rearm_keeps_other [OF a(1)] a(2) q by auto
  have app2: "app ?w2 = app w"
    using fire_step_app [OF f, of env r] k run_calls_app [of env "cb_calls (tm_kind t) r" ?w1]
    by (cases "tm_kind t") (auto split: sum.splits)
  have step: "experience_step env (FireTimer r) w = ?w2"
    using f app2 by (simp add: commit_same)
  from cb_calls_queue [OF k, of env r ?w1]
  have "a \<in> set (tq_timers (queue ?w2)) \<and>
        backlog exp_weight ?D (tq_timers (queue ?w2)) < backlog exp_weight ?D (tq_timers (queue w))"
  proof
    assume "tq_timers (queue ?w2) = tq_timers (queue ?w1)"
    with a1 b1 show ?thesis by (cases "tm_kind t" rule: exp_weight.cases) auto
  next
    assume "tm_kind t = SoundCb HeartbeatTick \<and>
      (\<exists>u. tm_period u = None \<and> tm_kind u = SoundCb HeartbeatEcho \<and>
           tq_timers (queue ?w2) = tq_timers (queue ?w1) @ [u])"
    then obtain u where h: "tm_kind t = SoundCb HeartbeatTick" "tm_period u = None"
      "tm_kind u = SoundCb HeartbeatEcho" "tq_timers (queue ?w2) = tq_timers q @ [u]" by auto
    have "backlog exp_weight ?D [u] \<le> 1"
      using fire_count_timeout [OF h(2), of ?D] h(3) by (simp add: backlog_def)
    with a1 b1 h show ?thesis by simp
  qed
  with step app2 show ?thesis by simp
qed

lemma app_timer_pending:
  assumes "exp_inv w" "stage_timer (stage (app w)) = Some (d, s)"
  shows "\<exists>a \<in> set (tq_timers (queue w)). tm_kind a = AppSetStage s"
proof -
  from assms obtain h where "app_sigs w = [(h, AppSetStage s, None)]"
    by (auto simp: exp_inv_def timers_inv_def)
  then have "(h, AppSetStage s, None) \<in> set (kind_sigs is_app_cb (queue w))"
    by (simp add: app_sigs_def)
  then show ?thesis by (auto simp: kind_sigs_def tsig_def)
qed

lemma same_id_same_timer:
  "tq_wf q \<Longrightarrow> t \<in> set (tq_timers q) \<Longrightarrow> a \<in> set (tq_timers q) \<Longrightarrow> tm_id t = tm_id a \<Longrightarrow> t = a"
  by (auto simp: tq_wf_def distinct_map dest: inj_onD)

lemma app_timer_reached:
  assumes "reachable env w" "stage_timer (stage (app w)) = Some (d, s)"
    and "a \<in> set (tq_timers (queue w))" "tm_kind a = AppSetStage s"
  shows "\<exists>n. stage (app (run_events env (replicate n (FireTimer r)) w)) = s"
  using assms
proof (induction "backlog exp_weight (tm_due a) (tq_timers (queue w))" arbitrary: w rule: less_induct)
  case less
  have inv: "exp_inv w" using reachable_inv [OF less.prems(1)] .
  have wf: "tq_wf (queue w)" using inv by (simp add: exp_inv_def aux_inv_def)
  obtain t q where f: "fire_next (queue w) = Some (t, q)"
    using less.prems(3) fire_next_None [of "queue w"] by (cases "fire_next (queue w)") auto
  have e: "earliest (tq_timers (queue w)) = Some t"
    using f by (auto simp: fire_next_def split: option.splits)
  have tin: "t \<in> set (tq_timers (queue w))" using e by (rule earliest_in)
  have due: "tm_due t \<le> tm_due a"
    using earliest_first [OF e less.prems(3)] by (auto simp: fires_before_def)
  show ?case
  proof (cases "is_app_cb (tm_kind t)")
    case True
    with fire_analysis(4) [OF inv f] less.prems(2) obtain s' d' where
      "tm_kind t = AppSetStage s'" "stage_timer (stage (app w)) = Some (d', s')" by auto
    with less.prems(2) fire_step_app [OF f, of env r] show ?thesis
      by (intro exI [of _ 1]) simp
  next
    case False
    have "tm_id t \<noteq> tm_id a"
      using same_id_same_timer [OF wf tin less.prems(3)] False less.prems(4) by auto
    note p = fire_other_progress [OF inv f less.prems(3) this due False, of env r]
    let ?w' = "experience_step env (FireTimer r) w"
    have "reachable env ?w'" using less.prems(1) by (rule reachable.step)
    with p less.prems(2,4) less.hyps obtain n where
      "stage (app (run_events env (replicate n (FireTimer r)) ?w')) = s"
      by (metis (no_types, lifting))
    then show ?thesis by (intro exI [of _ "Suc n"]) simp
  qed
qed

end
