(* ===== verification/Config.thy ===== *)
theory Config
  imports Prelude
begin

text \<open>
  \<open>src/vite.config.ts\<close>: the public \<open>base\<close> path, taken from the process
  environment variable \<open>GITHUB_REPOSITORY_NAME\<close> (\<open>None\<close> when unset;
  JavaScript's truthiness test treats the empty string as unset), and the
  whole configuration object, whose \<open>define\<close> table substitutes
  \<open>JSON.stringify(env.GEMINI_API_KEY)\<close> for two expressions of the bundle.
  \<open>JSON.stringify\<close> on strings and the JavaScript reader of string literals
  are modelled from ECMA-262; the claim is that the key survives the trip.
  The server, plugin and alias settings are data.
\<close>

definition vite_base :: "string option \<Rightarrow> string" where
  "vite_base name =
     (case name of
        None \<Rightarrow> ''/''
      | Some n \<Rightarrow> if n = [] then ''/'' else ''/'' @ n @ ''/'')"

subsection \<open>JSON strings in the \<open>define\<close> table\<close>

text \<open>\<open>JSON.stringify\<close> of a string (ECMA-262, QuoteJSONString): the
  string between double quotes, with \<open>"\<close> and the backslash escaped, the
  control characters with a short form written \<open>\b \t \n \f \r\<close>, and the
  other control characters below 0x20 written \<open>\u00hh\<close> in lowercase hex.
  Characters are the 8-bit \<open>char\<close> of HOL.\<close>

definition dq :: char where "dq = CHR 0x22"

definition bs :: char where "bs = CHR 0x5C"

definition hex_digit :: "nat \<Rightarrow> char" where
  "hex_digit n = (if n < 10 then char_of (48 + n) else char_of (87 + n))"

definition json_escape :: "char \<Rightarrow> string" where
  "json_escape c =
     (let n = of_char c :: nat in
      if n = 8 then [bs, CHR ''b''] else if n = 9 then [bs, CHR ''t'']
      else if n = 10 then [bs, CHR ''n''] else if n = 12 then [bs, CHR ''f'']
      else if n = 13 then [bs, CHR ''r''] else if c = dq then [bs, dq] else if c = bs then [bs, bs]
      else if n < 32 then [bs, CHR ''u'', CHR ''0'', CHR ''0'', hex_digit (n div 16), hex_digit (n mod 16)]
      else [c])"

definition json_quote :: "string \<Rightarrow> string" where
  "json_quote s = dq # concat (map json_escape s) @ [dq]"

text \<open>Vite substitutes the text of a \<open>define\<close> value for the expression in
  the bundle, where the JavaScript parser reads it back.  The reader of a
  double-quoted string literal (ECMA-262, DoubleStringCharacters, strict
  mode): a raw line terminator is an error; after a backslash come the
  single-character escapes, \<open>\0\<close> not followed by a digit, \<open>\xhh\<close>,
  \<open>\uhhhh\<close> (here only below 0x100, the range of \<open>char\<close>), a line
  continuation, or any other character standing for itself.\<close>

definition hex_val :: "char \<Rightarrow> nat option" where
  "hex_val c =
     (let n = of_char c :: nat in
      if 48 \<le> n \<and> n \<le> 57 then Some (n - 48)
      else if 97 \<le> n \<and> n \<le> 102 then Some (n - 87)
      else if 65 \<le> n \<and> n \<le> 70 then Some (n - 55) else None)"

fun hex_vals :: "string \<Rightarrow> nat option" where
  "hex_vals [] = Some 0"
| "hex_vals (c # cs) =
     (case hex_val c of None \<Rightarrow> None
      | Some v \<Rightarrow> map_option (\<lambda>w. v * 16 ^ length cs + w) (hex_vals cs))"

definition is_digit :: "char \<Rightarrow> bool" where
  "is_digit c \<longleftrightarrow> 48 \<le> (of_char c :: nat) \<and> (of_char c :: nat) \<le> 57"

text \<open>The value of the escape \<open>\d cs\<close> and how many characters of \<open>cs\<close> it
  uses.\<close>

definition escape_value :: "char \<Rightarrow> string \<Rightarrow> (string \<times> nat) option" where
  "escape_value d cs =
     (let n = of_char d :: nat in
      if d = CHR ''b'' then Some ([char_of (8 :: nat)], 0)
      else if d = CHR ''t'' then Some ([char_of (9 :: nat)], 0)
      else if d = CHR ''n'' then Some ([char_of (10 :: nat)], 0)
      else if d = CHR ''v'' then Some ([char_of (11 :: nat)], 0)
      else if d = CHR ''f'' then Some ([char_of (12 :: nat)], 0)
      else if d = CHR ''r'' then Some ([char_of (13 :: nat)], 0)
      else if d = CHR ''0'' \<and> (cs = [] \<or> \<not> is_digit (hd cs)) then Some ([char_of (0 :: nat)], 0)
      else if is_digit d then None
      else if d = CHR ''x'' then
        (if length cs \<ge> 2 then map_option (\<lambda>v. ([char_of v], 2)) (hex_vals (take 2 cs)) else None)
      else if d = CHR ''u'' then
        (if length cs \<ge> 4 then
           (case hex_vals (take 4 cs) of
              Some v \<Rightarrow> if v < 256 then Some ([char_of v], 4) else None
            | None \<Rightarrow> None)
         else None)
      else if n = 10 then Some ([], 0)
      else if n = 13 then Some ([], if cs \<noteq> [] \<and> hd cs = char_of (10 :: nat) then 1 else 0)
      else Some ([d], 0))"

function js_str_body :: "string \<Rightarrow> (string \<times> string) option" where
  "js_str_body [] = None"
| "js_str_body (c # cs) =
     (if c = dq then Some ([], cs)
      else if c = bs then
        (case cs of
           [] \<Rightarrow> None
         | d # ds \<Rightarrow>
             (case escape_value d ds of
                None \<Rightarrow> None
              | Some (v, k) \<Rightarrow> map_option (apfst (\<lambda>r. v @ r)) (js_str_body (drop k ds))))
      else if (of_char c :: nat) = 10 \<or> (of_char c :: nat) = 13 then None
      else map_option (apfst (Cons c)) (js_str_body cs))"
  by pat_completeness auto
termination by (relation "measure length") auto

definition js_string_literal :: "string \<Rightarrow> string option" where
  "js_string_literal t =
     (case t of
        c # cs \<Rightarrow>
          if c = dq then (case js_str_body cs of Some (v, []) \<Rightarrow> Some v | _ \<Rightarrow> None) else None
      | [] \<Rightarrow> None)"

subsection \<open>The configuration object\<close>

text \<open>The object the function passed to \<open>defineConfig\<close> returns, for the
  process environment \<open>penv\<close> (read for the base path), the environment
  \<open>env\<close> that \<open>loadEnv(mode, '.', '')\<close> loads, and the directory of the
  file.  \<open>path.resolve(__dirname, '.')\<close> is \<open>__dirname\<close> itself, an
  absolute normalised path.  A \<open>define\<close> value is \<open>None\<close> where
  \<open>JSON.stringify(undefined)\<close> gives \<open>undefined\<close>.\<close>

record vite_config =
  cfg_base :: string
  cfg_port :: nat
  cfg_host :: string
  cfg_plugins :: "string list"
  cfg_define :: "(string \<times> string option) list"
  cfg_alias :: "(string \<times> string) list"

definition vite_config :: "(string \<Rightarrow> string option) \<Rightarrow> (string \<Rightarrow> string option) \<Rightarrow> string \<Rightarrow> vite_config" where
  "vite_config penv env dirname =
     \<lparr>cfg_base = vite_base (penv ''GITHUB_REPOSITORY_NAME''),
      cfg_port = 3000, cfg_host = ''0.0.0.0'', cfg_plugins = [''@vitejs/plugin-react''],
      cfg_define = [(''process.env.API_KEY'', map_option json_quote (env ''GEMINI_API_KEY'')),
                    (''process.env.GEMINI_API_KEY'', map_option json_quote (env ''GEMINI_API_KEY''))],
      cfg_alias = [(''@'', dirname)]\<rparr>"

subsection \<open>Reading back a JSON string\<close>

lemma hex_val_hex_digit: "n < 16 \<Longrightarrow> hex_val (hex_digit n) = Some n"
  by (auto simp: hex_val_def hex_digit_def Let_def)

lemma hex_vals_byte:
  "n < 256 \<Longrightarrow> hex_vals [CHR ''0'', CHR ''0'', hex_digit (n div 16), hex_digit (n mod 16)] = Some n"
proof -
  assume n: "n < 256"
  then have "n div 16 < 16" by simp
  moreover have "hex_val (CHR ''0'') = Some 0" by (simp add: hex_val_def)
  ultimately show ?thesis by (simp add: hex_val_hex_digit)
qed

lemma append_singleton_Cons [simp]: "(@) [x] = (#) x"
  by (rule ext) simp

lemma js_str_body_escape:
  "js_str_body (json_escape c @ ts) = map_option (apfst (Cons c)) (js_str_body ts)"
proof -
  define n where "n = (of_char c :: nat)"
  have n: "n < 256" unfolding n_def by simp
  have c: "c = char_of n" unfolding n_def by simp
  show ?thesis
  proof (cases "n < 32")
    case True
    then show ?thesis
      using n hex_vals_byte [OF n]
      by (auto simp: json_escape_def escape_value_def Let_def dq_def bs_def is_digit_def c
          char_of_eq_iff take_bit_eq_mod)
  next
    case False
    have cc: "char_of (34 :: nat) = CHR 0x22" "char_of (92 :: nat) = CHR 0x5C"
      by (simp_all add: char_of_eq_iff)
    from False show ?thesis
      using n by (auto simp: json_escape_def escape_value_def Let_def dq_def bs_def c is_digit_def
          char_of_eq_iff take_bit_eq_mod cc)
  qed
qed

lemma js_str_body_json: "js_str_body (concat (map json_escape s) @ dq # rest) = Some (s, rest)"
  by (induction s) (simp_all add: js_str_body_escape)

lemma js_string_literal_json_quote: "js_string_literal (json_quote s) = Some s"
  using js_str_body_json [of s "[]"] by (simp add: json_quote_def js_string_literal_def)

subsection \<open>Claims\<close>

text \<open>C28: The base path always begins and ends with a slash, as Vite requires
  of a base URL, and it is the root \<open>/\<close> exactly when the repository name is
  unset or empty.\<close>

theorem vite_base_slashes:
  "hd (vite_base name) = CHR ''/'' \<and> last (vite_base name) = CHR ''/'' \<and>
   (vite_base name = ''/'' \<longleftrightarrow> name = None \<or> name = Some [])"
  by (cases name) (auto simp: vite_base_def)

text \<open>C23: The \<open>define\<close> table of \<open>vite.config.ts\<close> substitutes, for both
  \<open>process.env.API_KEY\<close> and \<open>process.env.GEMINI_API_KEY\<close>, a text that the
  JavaScript parser reads back as exactly the loaded \<open>GEMINI_API_KEY\<close>,
  whatever characters it contains (quotes, backslashes, control characters);
  when the variable is unset, no text is substituted.\<close>

theorem define_reads_back_key:
  "map (\<lambda>(k, v). (k, map_option js_string_literal v)) (cfg_define (vite_config penv env dirname)) =
   [(''process.env.API_KEY'', map_option Some (env ''GEMINI_API_KEY'')),
    (''process.env.GEMINI_API_KEY'', map_option Some (env ''GEMINI_API_KEY''))]"
  by (cases "env ''GEMINI_API_KEY''") (simp_all add: vite_config_def js_string_literal_json_quote)

end
