(* ===== verification/ParticleBuffer.thy ===== *)
theory ParticleBuffer
  imports Particles
begin

text \<open>
  The particle positions as the code keeps them: one \<open>Float32Array\<close> of
  \<open>count * 3\<close> numbers, point \<open>i\<close> at indices \<open>3i\<close>, \<open>3i + 1\<close>, \<open>3i + 2\<close>.
  Both loops of \<open>src/components/Particles.tsx\<close> are written here as the code
  writes them, index by index on the flat buffer: the start-up loop of
  \<open>initialPositions\<close> and the loop of the celebration's shower.  A write
  outside a typed array is ignored, as a list update outside the list is.
  Each loop terminates after \<open>count - i\<close> rounds, and it computes the
  point-wise functions of theory \<open>Particles\<close> through the encoding
  \<open>to_flat\<close> of points as consecutive triples.
\<close>

subsection \<open>The layout\<close>

definition to_flat :: "Point list \<Rightarrow> real list" where
  "to_flat ps = concat (map (\<lambda>p. [point_x p, point_y p, point_z p]) ps)"

subsection \<open>The two loops\<close>

text \<open>One round of the start-up loop:
  \<open>pos[i * 3 + k] = (Math.random() - 0.5) * 20\<close> for \<open>k = 0, 1, 2\<close>.\<close>

definition init_body :: "(nat \<Rightarrow> real \<times> real \<times> real) \<Rightarrow> nat \<Rightarrow> real list \<Rightarrow> real list" where
  "init_body rnd i pos =
     (case rnd i of (a, b, c) \<Rightarrow>
        pos[i * 3 := (a - 0.5) * 20, i * 3 + 1 := (b - 0.5) * 20, i * 3 + 2 := (c - 0.5) * 20])"

function init_loop :: "(nat \<Rightarrow> real \<times> real \<times> real) \<Rightarrow> nat \<Rightarrow> real list \<Rightarrow> real list" where
  "init_loop rnd i pos = (if i < particle_count then init_loop rnd (Suc i) (init_body rnd i pos) else pos)"
  by pat_completeness auto
termination by (relation "measure (\<lambda>(rnd, i, pos). particle_count - i)") auto

text \<open>\<open>new Float32Array(count * 3)\<close> is filled with zeros.\<close>

definition initial_buffer :: "(nat \<Rightarrow> real \<times> real \<times> real) \<Rightarrow> real list" where
  "initial_buffer rnd = init_loop rnd 0 (replicate (particle_count * 3) 0)"

text \<open>One round of the shower: the point falls, sways, and is put back at the
  top with two fresh draws once below \<open>-10\<close>.\<close>

definition shower_body :: "real \<Rightarrow> (nat \<Rightarrow> real \<times> real) \<Rightarrow> nat \<Rightarrow> real list \<Rightarrow> real list" where
  "shower_body t rnd i pos =
     (let pos1 = pos[i * 3 + 1 := pos ! (i * 3 + 1) - 0.1];
          pos2 = pos1[i * 3 := pos1 ! (i * 3) + sin (t + real i) * 0.02]
      in if pos2 ! (i * 3 + 1) < -10
         then pos2[i * 3 + 1 := 15, i * 3 := (fst (rnd i) - 0.5) * 25,
                   i * 3 + 2 := (snd (rnd i) - 0.5) * 25]
         else pos2)"

function shower_loop :: "real \<Rightarrow> (nat \<Rightarrow> real \<times> real) \<Rightarrow> nat \<Rightarrow> real list \<Rightarrow> real list" where
  "shower_loop t rnd i pos =
     (if i < particle_count then shower_loop t rnd (Suc i) (shower_body t rnd i pos) else pos)"
  by pat_completeness auto
termination by (relation "measure (\<lambda>(t, rnd, i, pos). particle_count - i)") auto

subsection \<open>The layout: lengths, reads and writes\<close>

lemma to_flat_simps [simp]:
  "to_flat [] = []"
  "to_flat (p # ps) = point_x p # point_y p # point_z p # to_flat ps"
  by (simp_all add: to_flat_def)

lemma length_to_flat [simp]: "length (to_flat ps) = 3 * length ps"
  by (induction ps) simp_all

lemma to_flat_nth:
  "i < length ps \<Longrightarrow>
   to_flat ps ! (i * 3) = point_x (ps ! i) \<and> to_flat ps ! (i * 3 + 1) = point_y (ps ! i) \<and>
   to_flat ps ! (i * 3 + 2) = point_z (ps ! i)"
proof (induction ps arbitrary: i)
  case (Cons p ps)
  then show ?case
  proof (cases i)
    case (Suc j)
    have "Suc j * 3 = Suc (Suc (Suc (j * 3)))" by simp
    with Cons Suc show ?thesis by simp
  qed simp
qed simp

lemma to_flat_nth_other:
  assumes j: "j < 3 * length ps" "j div 3 = i"
  shows "to_flat ps ! j = (if j mod 3 = 0 then point_x (ps ! i) else if j mod 3 = 1 then point_y (ps ! i)
                           else point_z (ps ! i))"
proof -
  have i: "i < length ps" using j by linarith
  have e: "j = i * 3 + j mod 3" using j(2) div_mult_mod_eq [of j 3] by simp
  have "j mod 3 = 0 \<or> j mod 3 = 1 \<or> j mod 3 = 2" by arith
  then show ?thesis
  proof (elim disjE)
    assume m: "j mod 3 = 0"
    with e have "j = i * 3" by simp
    with m to_flat_nth [OF i] show ?thesis by simp
  next
    assume m: "j mod 3 = 1"
    with e have "j = i * 3 + 1" by simp
    with m to_flat_nth [OF i] show ?thesis by simp
  next
    assume m: "j mod 3 = 2"
    with e have "j = i * 3 + 2" by simp
    with m to_flat_nth [OF i] show ?thesis by simp
  qed
qed

lemma to_flat_update:
  assumes "i < length ps"
  shows "to_flat (ps[i := q]) =
           (to_flat ps)[i * 3 := point_x q, i * 3 + 1 := point_y q, i * 3 + 2 := point_z q]"
proof (rule nth_equalityI)
  show "length (to_flat (ps[i := q])) =
        length ((to_flat ps)[i * 3 := point_x q, i * 3 + 1 := point_y q, i * 3 + 2 := point_z q])"
    by simp
next
  fix j assume "j < length (to_flat (ps[i := q]))"
  then have j: "j < 3 * length ps" by simp
  have "j div 3 < length ps" using j by linarith
  then show "to_flat (ps[i := q]) ! j =
        (to_flat ps)[i * 3 := point_x q, i * 3 + 1 := point_y q, i * 3 + 2 := point_z q] ! j"
    using j assms to_flat_nth_other [OF j refl] to_flat_nth_other [of j "ps[i := q]", OF _ refl]
    by (auto simp: nth_list_update) arith+
qed

subsection \<open>One round on the buffer is one point updated\<close>

lemma shower_body_flat:
  assumes "i < length ps"
  shows "shower_body t rnd i (to_flat ps) = to_flat (ps[i := particle_fall t rnd i (ps ! i)])"
  unfolding to_flat_update [OF assms]
  using assms to_flat_nth [OF assms]
  by (intro nth_equalityI) (auto simp: shower_body_def particle_fall_def Let_def nth_list_update)

lemma init_body_flat:
  assumes "i < length ps"
  shows "init_body rnd i (to_flat ps) =
           to_flat (ps[i := (case rnd i of (a, b, c) \<Rightarrow>
             \<lparr>point_x = (a - 0.5) * 20, point_y = (b - 0.5) * 20, point_z = (c - 0.5) * 20\<rparr>)])"
  unfolding to_flat_update [OF assms]
  by (simp add: init_body_def split: prod.split)

subsection \<open>The loops run a bounded number of rounds\<close>

lemma shower_loop_fold: "shower_loop t rnd i pos = fold (shower_body t rnd) [i..<particle_count] pos"
  by (induction t rnd i pos rule: shower_loop.induct) (simp add: upt_conv_Cons)

lemma init_loop_fold: "init_loop rnd i pos = fold (init_body rnd) [i..<particle_count] pos"
  by (induction rnd i pos rule: init_loop.induct) (simp add: upt_conv_Cons)

lemma length_shower_body [simp]: "length (shower_body t rnd i pos) = length pos"
  by (simp add: shower_body_def Let_def)

lemma length_init_body [simp]: "length (init_body rnd i pos) = length pos"
  by (simp add: init_body_def split: prod.split)

subsection \<open>The loops compute the point-wise functions\<close>

text \<open>A loop that rewrites point \<open>j\<close> by \<open>g j\<close> in rounds \<open>0, \<dots>, k - 1\<close>
  has rewritten exactly the first \<open>k\<close> points.\<close>

lemma fold_point_updates:
  "k \<le> length ps \<Longrightarrow>
   fold (\<lambda>j qs. qs[j := g j (qs ! j)]) [0..<k] ps =
   map (\<lambda>(j, p). if j < k then g j p else p) (zip [0..<length ps] ps)"
proof (induction k)
  case 0
  show ?case by (rule nth_equalityI) simp_all
next
  case (Suc k)
  then show ?case by (intro nth_equalityI) (auto simp: nth_list_update)
qed

lemma fold_shower_body_flat:
  "\<forall>j \<in> set js. j < length ps \<Longrightarrow>
   fold (shower_body t rnd) js (to_flat ps) =
   to_flat (fold (\<lambda>j qs. qs[j := particle_fall t rnd j (qs ! j)]) js ps)"
  by (induction js arbitrary: ps) (simp_all add: shower_body_flat)

lemma fold_init_body_flat:
  "\<forall>j \<in> set js. j < length ps \<Longrightarrow>
   fold (init_body rnd) js (to_flat ps) =
   to_flat (fold (\<lambda>j qs. qs[j := (\<lambda>j p. case rnd j of (a, b, c) \<Rightarrow>
     \<lparr>point_x = (a - 0.5) * 20, point_y = (b - 0.5) * 20, point_z = (c - 0.5) * 20\<rparr>) j (qs ! j)]) js ps)"
  by (induction js arbitrary: ps) (simp_all add: init_body_flat)

lemma fold_point_updates_all:
  "fold (\<lambda>j qs. qs[j := g j (qs ! j)]) [0..<length ps] ps = map (\<lambda>(j, p). g j p) (zip [0..<length ps] ps)"
  using fold_point_updates [of "length ps" ps g] by (auto intro!: map_cong dest: set_zip_leftD)

lemma zero_buffer: "replicate (n * 3) 0 = to_flat (replicate n \<lparr>point_x = 0, point_y = 0, point_z = 0\<rparr>)"
  by (induction n) (simp_all add: numeral_3_eq_3)

subsection \<open>Claims\<close>

text \<open>C29: On a buffer holding the 500 points, the shower loop of
  \<open>Particles.tsx\<close>, run index by index on the flat array, leaves the buffer
  holding exactly the points of the point-wise shower: every point fell,
  swayed and, when below \<open>-10\<close>, was put back on top, and no other entry changed.\<close>

theorem shower_loop_is_shower:
  assumes n: "length ps = particle_count"
  shows "shower_loop t rnd 0 (to_flat ps) = to_flat (Particles.shower t rnd ps)"
proof -
  have "shower_loop t rnd 0 (to_flat ps) = fold (shower_body t rnd) [0..<length ps] (to_flat ps)"
    unfolding shower_loop_fold n ..
  also have "\<dots> = to_flat (fold (\<lambda>j qs. qs[j := particle_fall t rnd j (qs ! j)]) [0..<length ps] ps)"
    by (rule fold_shower_body_flat) simp
  also have "\<dots> = to_flat (Particles.shower t rnd ps)"
    unfolding fold_point_updates_all Particles.shower_def ..
  finally show ?thesis .
qed

theorem shower_loop_is_shower_witness:
  "length (replicate particle_count \<lparr>point_x = 0, point_y = -10, point_z = 0\<rparr>) = particle_count \<and>
   shower_loop 1 (\<lambda>i. (0, 0)) 0 (to_flat (replicate particle_count \<lparr>point_x = 0, point_y = -10, point_z = 0\<rparr>)) =
   to_flat (Particles.shower 1 (\<lambda>i. (0, 0)) (replicate particle_count \<lparr>point_x = 0, point_y = -10, point_z = 0\<rparr>))"
  using shower_loop_is_shower [where ps = "replicate particle_count \<lparr>point_x = 0, point_y = -10, point_z = 0\<rparr>"
      and t = 1 and rnd = "\<lambda>i. (0, 0)"]
  by (simp only: length_replicate simp_thms)

text \<open>C30: The start-up loop, writing three fresh coordinates per index into the
  zero-filled \<open>Float32Array(count * 3)\<close>, builds the encoding of the point
  list \<open>initialPositions\<close>: point \<open>i\<close> sits at indices \<open>3i\<close> to \<open>3i + 2\<close>.\<close>

theorem initial_buffer_is_initialPositions:
  "initial_buffer rnd = to_flat (Particles.initialPositions rnd)"
proof -
  let ?o = "\<lparr>point_x = 0, point_y = 0, point_z = 0\<rparr> :: Point"
  let ?g = "\<lambda>j p. case rnd j of (a, b, c) \<Rightarrow>
     \<lparr>point_x = (a - 0.5) * 20, point_y = (b - 0.5) * 20, point_z = (c - 0.5) * 20\<rparr>"
  let ?ps = "replicate particle_count ?o"
  have "initial_buffer rnd = fold (init_body rnd) [0..<length ?ps] (to_flat ?ps)"
    unfolding initial_buffer_def init_loop_fold zero_buffer length_replicate ..
  also have "\<dots> = to_flat (fold (\<lambda>j qs. qs[j := ?g j (qs ! j)]) [0..<length ?ps] ?ps)"
    by (rule fold_init_body_flat) simp
  also have "\<dots> = to_flat (map (\<lambda>(j, p). ?g j p) (zip [0..<length ?ps] ?ps))"
    unfolding fold_point_updates_all [where g = ?g] ..
  also have "\<dots> = to_flat (Particles.initialPositions rnd)"
    by (simp add: Particles.initialPositions_def zip_replicate2 comp_def del: upt.simps)
  finally show ?thesis .
qed


end
