(* ===== verification/Meshes.thy ===== *)
theory Meshes
  imports Types
begin

text \<open>
  The meshes of the JSX of \<open>GiftBox.tsx\<close> and \<open>MiniatureWorld.tsx\<close>: a
  position and an Euler rotation (as the \<open>position\<close> and \<open>rotation\<close>
  props), a geometry with its constructor arguments, and the material's
  colour.  The geometries are those of three.js and drei:
  \<open>CapsuleGeometry(radius, length)\<close> along y, \<open>SphereGeometry(radius)\<close>,
  drei's \<open>RoundedBox\<close> of the given size and corner radius,
  \<open>BoxGeometry(w, h, d)\<close>, and \<open>TorusGeometry(radius, tube)\<close> in the xy
  plane.  \<open>half_extent\<close> is the half size of a geometry along each axis of
  its own frame, before rotation and scale.
\<close>

type_synonym vec3 = "real \<times> real \<times> real"

datatype mesh_shape =
    Capsule real real
  | Ball real
  | RoundedBox vec3 real
  | BoxGeom vec3
  | Torus real real

record mesh_part =
  mp_pos :: vec3
  mp_rot :: vec3
  mp_shape :: mesh_shape
  mp_color :: string

text \<open>The radius argument of a geometry (the corner radius of a rounded box,
  the ring radius of a torus; a plain box has none).\<close>

fun shape_radius :: "mesh_shape \<Rightarrow> real" where
  "shape_radius (Capsule r l) = r"
| "shape_radius (Ball r) = r"
| "shape_radius (RoundedBox d r) = r"
| "shape_radius (BoxGeom d) = 0"
| "shape_radius (Torus r t) = r"

fun half_extent :: "mesh_shape \<Rightarrow> vec3" where
  "half_extent (Capsule r l) = (r, r + l / 2, r)"
| "half_extent (Ball r) = (r, r, r)"
| "half_extent (RoundedBox (w, h, d) r) = (w / 2, h / 2, d / 2)"
| "half_extent (BoxGeom (w, h, d)) = (w / 2, h / 2, d / 2)"
| "half_extent (Torus r t) = (r + t, r + t, t)"

text \<open>A rotation by Euler angles \<open>(a, b, c)\<close> in three.js's default order
  \<open>'XYZ'\<close> has the matrix \<open>Rx(a) Ry(b) Rz(c)\<close>: a point is turned about z,
  then y, then x.\<close>

fun rot_x :: "real \<Rightarrow> vec3 \<Rightarrow> vec3" where
  "rot_x a (x, y, z) = (x, y * cos a - z * sin a, y * sin a + z * cos a)"

fun rot_y :: "real \<Rightarrow> vec3 \<Rightarrow> vec3" where
  "rot_y b (x, y, z) = (x * cos b + z * sin b, y, z * cos b - x * sin b)"

fun rot_z :: "real \<Rightarrow> vec3 \<Rightarrow> vec3" where
  "rot_z c (x, y, z) = (x * cos c - y * sin c, x * sin c + y * cos c, z)"

fun euler_xyz :: "vec3 \<Rightarrow> vec3 \<Rightarrow> vec3" where
  "euler_xyz (a, b, c) p = rot_x a (rot_y b (rot_z c p))"

fun scale3 :: "real \<Rightarrow> vec3 \<Rightarrow> vec3" where
  "scale3 s (x, y, z) = (s * x, s * y, s * z)"

text \<open>The squared distance of a point from the vertical axis.\<close>

fun axis_dist2 :: "vec3 \<Rightarrow> real" where
  "axis_dist2 (x, y, z) = x\<^sup>2 + z\<^sup>2"

fun dist2 :: "vec3 \<Rightarrow> vec3 \<Rightarrow> real" where
  "dist2 (x, y, z) (x', y', z') = (x - x')\<^sup>2 + (y - y')\<^sup>2 + (z - z')\<^sup>2"

subsection \<open>Turning about the vertical axis\<close>

lemma rot_sq_sum:
  fixes x z c s :: real
  shows "(x * c + z * s)\<^sup>2 + (z * c - x * s)\<^sup>2 = (x\<^sup>2 + z\<^sup>2) * (s\<^sup>2 + c\<^sup>2)"
  by algebra

lemma cos_sin_sq_sum:
  fixes x z b :: real
  shows "(x * cos b + z * sin b)\<^sup>2 + (z * cos b - x * sin b)\<^sup>2 = x\<^sup>2 + z\<^sup>2"
  using rot_sq_sum [of x "cos b" z "sin b"] by simp

lemma rot_zero [simp]: "rot_x 0 p = p" "rot_y 0 p = p" "rot_z 0 p = p"
  by (cases p; simp)+

lemma axis_dist2_rot_y [simp]: "axis_dist2 (rot_y b p) = axis_dist2 p"
  by (cases p) (simp add: cos_sin_sq_sum)

lemma axis_dist2_rot_x_pi [simp]: "axis_dist2 (rot_x (- pi) p) = axis_dist2 p"
  by (cases p) simp

lemma axis_dist2_scale3 [simp]: "axis_dist2 (scale3 s p) = s\<^sup>2 * axis_dist2 p"
  by (cases p) (simp add: power_mult_distrib algebra_simps)

subsection \<open>A ball inside a ball\<close>

lemma sq_split:
  fixes a b t :: real
  assumes "0 < t"
  shows "(a + b)\<^sup>2 \<le> (1 + t) * a\<^sup>2 + (1 + 1 / t) * b\<^sup>2"
proof -
  have "(1 + t) * a\<^sup>2 + (1 + 1 / t) * b\<^sup>2 - (a + b)\<^sup>2 = (t * a - b)\<^sup>2 / t"
    using assms by (simp add: field_simps power2_eq_square)
  moreover have "0 \<le> (t * a - b)\<^sup>2 / t" using assms by simp
  ultimately show ?thesis by linarith
qed

lemma ball_in_ball:
  assumes "dist2 p e \<le> r\<^sup>2" "0 < t" "(1 + t) * r\<^sup>2 + (1 + 1 / t) * dist2 e h < R\<^sup>2"
  shows "dist2 p h < R\<^sup>2"
proof -
  obtain px py pz ex ey ez hx hy hz where
    v: "p = (px, py, pz)" "e = (ex, ey, ez)" "h = (hx, hy, hz)"
    by (metis prod.exhaust)
  have "px - hx = (px - ex) + (ex - hx)" "py - hy = (py - ey) + (ey - hy)" "pz - hz = (pz - ez) + (ez - hz)"
    by simp_all
  then have "dist2 p h \<le> (1 + t) * dist2 p e + (1 + 1 / t) * dist2 e h"
    using sq_split [OF assms(2), of "px - ex" "ex - hx"] sq_split [OF assms(2), of "py - ey" "ey - hy"]
      sq_split [OF assms(2), of "pz - ez" "ez - hz"]
    unfolding v by (simp add: algebra_simps)
  moreover have "(1 + t) * dist2 p e \<le> (1 + t) * r\<^sup>2" using assms(1,2) by simp
  ultimately show ?thesis using assms(3) by linarith
qed

end
