(* ===== verification/WorldDecor.thy ===== *)
theory WorldDecor
  imports Meshes
begin

text \<open>
  The static geometry of \<open>src/components/MiniatureWorld.tsx\<close>: the outline
  \<open>HeartShape\<close> (a \<open>THREE.Shape\<close> built by one \<open>moveTo\<close> and six
  \<open>bezierCurveTo\<close> calls), the soft ground base, the ring of ten
  decorative hearts, and the meshes of the two figures.  A \<open>THREE.Path\<close> keeps a current point: \<open>moveTo\<close> sets
  it, and \<open>bezierCurveTo(c1, c2, e)\<close> appends the cubic curve from the current
  point through the control points \<open>c1\<close>, \<open>c2\<close> to \<open>e\<close> and moves the current
  point to \<open>e\<close>.  A cubic curve at parameter \<open>t \<in> [0, 1]\<close> is the Bernstein
  combination of its four points, as \<open>THREE.CubicBezierCurve\<close> evaluates it.
\<close>

subsection \<open>The heart outline\<close>

type_synonym vec2 = "real \<times> real"

datatype path_cmd = MoveTo vec2 | BezierCurveTo vec2 vec2 vec2

text \<open>The \<open>useMemo\<close> body of \<open>HeartShape\<close>, with \<open>x = 0\<close> and \<open>y = 0\<close>.\<close>

definition HeartShape :: "path_cmd list" where
  "HeartShape =
     (let x = 0 :: real; y = 0 :: real in
      [MoveTo (x + 5, y + 5),
       BezierCurveTo (x + 5, y + 5) (x + 4, y) (x, y),
       BezierCurveTo (x - 6, y) (x - 6, y + 7) (x - 6, y + 7),
       BezierCurveTo (x - 6, y + 11) (x - 3, y + 15.4) (x + 5, y + 19),
       BezierCurveTo (x + 12, y + 15.4) (x + 16, y + 11) (x + 16, y + 7),
       BezierCurveTo (x + 16, y + 7) (x + 16, y) (x + 10, y),
       BezierCurveTo (x + 7, y) (x + 5, y + 5) (x + 5, y + 5)])"

text \<open>A cubic curve: start point, two control points, end point.\<close>

type_synonym curve = "vec2 \<times> vec2 \<times> vec2 \<times> vec2"

fun path_curves :: "vec2 \<Rightarrow> path_cmd list \<Rightarrow> curve list" where
  "path_curves cur [] = []"
| "path_curves cur (MoveTo p # cs) = path_curves p cs"
| "path_curves cur (BezierCurveTo c1 c2 e # cs) = (cur, c1, c2, e) # path_curves e cs"

definition cubic :: "real \<Rightarrow> real \<Rightarrow> real \<Rightarrow> real \<Rightarrow> real \<Rightarrow> real" where
  "cubic t p0 p1 p2 p3 =
     (1 - t) ^ 3 * p0 + 3 * (1 - t) ^ 2 * t * p1 + 3 * (1 - t) * t ^ 2 * p2 + t ^ 3 * p3"

fun curve_point :: "curve \<Rightarrow> real \<Rightarrow> vec2" where
  "curve_point ((x0, y0), (x1, y1), (x2, y2), (x3, y3)) t = (cubic t x0 x1 x2 x3, cubic t y0 y1 y2 y3)"

fun curve_start :: "curve \<Rightarrow> vec2" where
  "curve_start (p0, _, _, _) = p0"

fun curve_end :: "curve \<Rightarrow> vec2" where
  "curve_end (_, _, _, p3) = p3"

text \<open>Consecutive curves join: each starts where the previous one ends.\<close>

fun chained :: "curve list \<Rightarrow> bool" where
  "chained (c # d # cs) \<longleftrightarrow> curve_end c = curve_start d \<and> chained (d # cs)"
| "chained _ \<longleftrightarrow> True"

text \<open>All four points of a curve inside a box.\<close>

fun curve_in_box :: "real \<Rightarrow> real \<Rightarrow> real \<Rightarrow> real \<Rightarrow> curve \<Rightarrow> bool" where
  "curve_in_box xl xh yl yh ((x0, y0), (x1, y1), (x2, y2), (x3, y3)) \<longleftrightarrow>
     list_all (\<lambda>v. xl \<le> v \<and> v \<le> xh) [x0, x1, x2, x3] \<and> list_all (\<lambda>v. yl \<le> v \<and> v \<le> yh) [y0, y1, y2, y3]"

subsection \<open>The ground and the decorations\<close>

text \<open>\<open><Sphere args={[2.8, 64, 64]} scale={[1, 0.08, 1]} position={[0, -0.2, 0]}>\<close>:
  a disc of radius 2.8 whose top is at \<open>-0.2 + 2.8 * 0.08\<close>.\<close>

definition ground_radius :: real where "ground_radius = 2.8"

definition ground_top :: real where "ground_top = -0.2 + ground_radius * 0.08"

text \<open>\<open>[...Array(10)].map((_, i) => <group position={[cos(i * 0.6) * 2.5, 0.3, sin(i * 0.6) * 2.5]}>)\<close>.\<close>

definition decor_position :: "nat \<Rightarrow> Point" where
  "decor_position i =
     \<lparr>point_x = cos (real i * 0.6) * 2.5, point_y = 0.3, point_z = sin (real i * 0.6) * 2.5\<rparr>"

definition decorations :: "Point list" where
  "decorations = map decor_position [0..<10]"

subsection \<open>The two figures\<close>

text \<open>The meshes of a figure's group, in the order of the JSX: the body
  (\<open>capsuleGeometry args={[0.2, 0.4, ...]}\<close>), the left and right arms, the
  head (\<open>sphereGeometry args={[0.28, ...]}\<close>) and the two eyes
  (\<open>sphereGeometry args={[0.03, ...]}\<close>, black).  The two figures differ
  only in their colours.  None of them is rotated.\<close>

definition figure :: "string \<Rightarrow> string \<Rightarrow> mesh_part list" where
  "figure body_color limb_color =
     [\<lparr>mp_pos = (0, 0.5, 0), mp_rot = (0, 0, 0), mp_shape = Capsule 0.2 0.4, mp_color = body_color\<rparr>,
      \<lparr>mp_pos = (-0.22, 0.6, 0), mp_rot = (0, 0, 0), mp_shape = Capsule 0.06 0.35, mp_color = limb_color\<rparr>,
      \<lparr>mp_pos = (0.22, 0.6, 0), mp_rot = (0, 0, 0), mp_shape = Capsule 0.06 0.35, mp_color = limb_color\<rparr>,
      \<lparr>mp_pos = (0, 1.05, 0), mp_rot = (0, 0, 0), mp_shape = Ball 0.28, mp_color = limb_color\<rparr>,
      \<lparr>mp_pos = (0.1, 1.1, 0.22), mp_rot = (0, 0, 0), mp_shape = Ball 0.03, mp_color = ''#000''\<rparr>,
      \<lparr>mp_pos = (-0.1, 1.1, 0.22), mp_rot = (0, 0, 0), mp_shape = Ball 0.03, mp_color = ''#000''\<rparr>]"

definition char1_parts :: "mesh_part list" where
  "char1_parts = figure ''#93c5fd'' ''#bfdbfe''"

definition char2_parts :: "mesh_part list" where
  "char2_parts = figure ''#f9a8d4'' ''#fce7f3''"

subsection \<open>The extruded hearts\<close>

text \<open>Both kinds of heart mesh extrude \<open>HeartShape\<close>
  (\<open>extrudeGeometry args={[HeartShape, {depth, bevelEnabled: true,
  bevelThickness, bevelSize}]}\<close>) and turn it by \<open>rotation={[-Math.PI, 0, 0]}\<close>.
  The decorations (lines 119--121) are small and dim; the reveal heart above
  the hug (lines 185--196) sits in a group at \<open>(0, 3, 0)\<close>, starts at scale
  0.08, and is the mesh of \<open>heartRef\<close> that \<open>heart_frame\<close> scales and turns
  about y.\<close>

record extrude_settings =
  ex_depth :: real
  ex_bevel_thickness :: real
  ex_bevel_size :: real

record heart_mesh =
  hm_rot :: vec3
  hm_scale :: real
  hm_extrude :: extrude_settings
  hm_color :: string
  hm_emissive :: string
  hm_emissive_intensity :: real

definition decor_heart :: heart_mesh where
  "decor_heart =
     \<lparr>hm_rot = (- pi, 0, 0), hm_scale = 0.012,
      hm_extrude = \<lparr>ex_depth = 2, ex_bevel_thickness = 2, ex_bevel_size = 2\<rparr>,
      hm_color = ''#fca5a5'', hm_emissive = ''#fb7185'', hm_emissive_intensity = 0.5\<rparr>"

definition reveal_group_pos :: vec3 where
  "reveal_group_pos = (0, 3, 0)"

definition reveal_heart :: heart_mesh where
  "reveal_heart =
     \<lparr>hm_rot = (- pi, 0, 0), hm_scale = 0.08,
      hm_extrude = \<lparr>ex_depth = 5, ex_bevel_thickness = 4, ex_bevel_size = 4\<rparr>,
      hm_color = ''#e11d48'', hm_emissive = ''#fb7185'', hm_emissive_intensity = 4\<rparr>"

text \<open>The centre of the box around an extruded \<open>HeartShape\<close>: the outline
  lies in \<open>[-6, 16] \<times> [0, 19]\<close> (\<open>heart_outline_closed_in_box\<close>), and the bevel adds its thickness on
  both sides of the depth.\<close>

definition heart_centre :: "extrude_settings \<Rightarrow> vec3" where
  "heart_centre e = (5, 9.5, ex_depth e / 2)"

subsection \<open>Curves stay in the box of their points\<close>

lemma convex4:
  fixes w0 w1 w2 w3 :: real
  assumes "0 \<le> w0" "0 \<le> w1" "0 \<le> w2" "0 \<le> w3" "w0 + w1 + w2 + w3 = 1"
    and "list_all (\<lambda>v. lo \<le> v \<and> v \<le> hi) [p0, p1, p2, p3]"
  shows "lo \<le> w0 * p0 + w1 * p1 + w2 * p2 + w3 * p3 \<and> w0 * p0 + w1 * p1 + w2 * p2 + w3 * p3 \<le> hi"
proof -
  have l: "w0 * lo + w1 * lo + w2 * lo + w3 * lo = lo" and h: "w0 * hi + w1 * hi + w2 * hi + w3 * hi = hi"
    using assms(5) by (metis distrib_right mult_1)+
  from assms(6) have "lo \<le> p0" "lo \<le> p1" "lo \<le> p2" "lo \<le> p3" "p0 \<le> hi" "p1 \<le> hi" "p2 \<le> hi" "p3 \<le> hi"
    by simp_all
  with assms(1-4) have "w0 * lo \<le> w0 * p0" "w1 * lo \<le> w1 * p1" "w2 * lo \<le> w2 * p2" "w3 * lo \<le> w3 * p3"
    "w0 * p0 \<le> w0 * hi" "w1 * p1 \<le> w1 * hi" "w2 * p2 \<le> w2 * hi" "w3 * p3 \<le> w3 * hi"
    by (simp_all add: mult_left_mono)
  with l h show ?thesis by linarith
qed

lemma cubic_between:
  assumes "0 \<le> t" "t \<le> 1" "list_all (\<lambda>v. lo \<le> v \<and> v \<le> hi) [p0, p1, p2, p3]"
  shows "lo \<le> cubic t p0 p1 p2 p3 \<and> cubic t p0 p1 p2 p3 \<le> hi"
proof -
  have "(1 - t) ^ 3 + 3 * (1 - t) ^ 2 * t + 3 * (1 - t) * t ^ 2 + t ^ 3 = 1"
    by algebra
  moreover have "0 \<le> (1 - t) ^ 3" "0 \<le> 3 * (1 - t) ^ 2 * t" "0 \<le> 3 * (1 - t) * t ^ 2" "0 \<le> t ^ 3"
    using assms(1,2) by simp_all
  ultimately show ?thesis
    using convex4 [OF _ _ _ _ _ assms(3)] unfolding cubic_def by blast
qed

lemma curve_in_box_point:
  assumes "curve_in_box xl xh yl yh c" "0 \<le> t" "t \<le> 1"
  shows "xl \<le> fst (curve_point c t) \<and> fst (curve_point c t) \<le> xh \<and>
         yl \<le> snd (curve_point c t) \<and> snd (curve_point c t) \<le> yh"
proof -
  obtain x0 y0 x1 y1 x2 y2 x3 y3 where c: "c = ((x0, y0), (x1, y1), (x2, y2), (x3, y3))"
    by (metis prod.exhaust)
  have "list_all (\<lambda>v. xl \<le> v \<and> v \<le> xh) [x0, x1, x2, x3]" "list_all (\<lambda>v. yl \<le> v \<and> v \<le> yh) [y0, y1, y2, y3]"
    using assms(1) unfolding c by simp_all
  from this [THEN cubic_between [OF assms(2,3)]] show ?thesis unfolding c by simp
qed

lemma heart_curves:
  "path_curves (0, 0) HeartShape =
     [((5, 5), (5, 5), (4, 0), (0, 0)), ((0, 0), (-6, 0), (-6, 7), (-6, 7)),
      ((-6, 7), (-6, 11), (-3, 15.4), (5, 19)), ((5, 19), (12, 15.4), (16, 11), (16, 7)),
      ((16, 7), (16, 7), (16, 0), (10, 0)), ((10, 0), (7, 0), (5, 5), (5, 5))]"
  by (simp add: HeartShape_def)

lemma decor_position_ring: "point_x (decor_position i) ^ 2 + point_z (decor_position i) ^ 2 = 2.5 ^ 2"
proof -
  have "(cos a * r) ^ 2 + (sin a * r) ^ 2 = r ^ 2" for a r :: real
  proof -
    have "(cos a * r) ^ 2 + (sin a * r) ^ 2 = ((cos a)\<^sup>2 + (sin a)\<^sup>2) * r ^ 2"
      by (simp only: power_mult_distrib distrib_right)
    also have "\<dots> = r ^ 2" by simp
    finally show ?thesis .
  qed
  then show ?thesis unfolding decor_position_def by (simp only: Point.select_convs)
qed

subsection \<open>The reveal heart is off the couple's axis\<close>

text \<open>The outline's origin, not its centre, is on the group's vertical axis.
  Whatever turn \<open>b\<close> about y the frames have given it and whatever scale
  \<open>s\<close>, the centre of the reveal heart is \<open>s * \<surd>31.25\<close> away from the
  vertical axis above the couple, so the heart circles that axis instead of
  turning in place above it.\<close>

lemma reveal_heart_off_axis:
  "axis_dist2 (euler_xyz (fst (hm_rot reveal_heart), b, 0) (scale3 s (heart_centre (hm_extrude reveal_heart)))) =
   31.25 * s\<^sup>2"
proof -
  have c: "axis_dist2 (heart_centre (hm_extrude reveal_heart)) = 31.25"
    by (simp add: reveal_heart_def heart_centre_def power2_eq_square)
  have "fst (hm_rot reveal_heart) = - pi" by (simp add: reveal_heart_def)
  then show ?thesis
    using c by (simp del: rot_x.simps rot_y.simps rot_z.simps scale3.simps)
qed

subsection \<open>Claims\<close>

text \<open>The heart outline of \<open>MiniatureWorld.tsx\<close> is a closed chain of six
  cubic curves: it starts and ends at \<open>(5, 5)\<close>, each curve starts where the
  previous one ends, and every point of every curve lies in the box
  \<open>[-6, 16] \<times> [0, 19]\<close> that the extruded heart meshes are sized for.\<close>

lemma heart_outline_closed_in_box:
  "length (path_curves (0, 0) HeartShape) = 6 \<and> chained (path_curves (0, 0) HeartShape) \<and>
   curve_start (hd (path_curves (0, 0) HeartShape)) = (5, 5) \<and>
   curve_end (last (path_curves (0, 0) HeartShape)) = (5, 5) \<and>
   (\<forall>c \<in> set (path_curves (0, 0) HeartShape). \<forall>t. 0 \<le> t \<and> t \<le> 1 \<longrightarrow>
      -6 \<le> fst (curve_point c t) \<and> fst (curve_point c t) \<le> 16 \<and>
      0 \<le> snd (curve_point c t) \<and> snd (curve_point c t) \<le> 19)"
proof -
  have "\<forall>c \<in> set (path_curves (0, 0) HeartShape). curve_in_box (-6) 16 0 19 c"
    unfolding heart_curves by simp
  then have "\<forall>c \<in> set (path_curves (0, 0) HeartShape). \<forall>t. 0 \<le> t \<and> t \<le> 1 \<longrightarrow>
      -6 \<le> fst (curve_point c t) \<and> fst (curve_point c t) \<le> 16 \<and>
      0 \<le> snd (curve_point c t) \<and> snd (curve_point c t) \<le> 19"
    using curve_in_box_point by blast
  moreover have "length (path_curves (0, 0) HeartShape) = 6 \<and> chained (path_curves (0, 0) HeartShape) \<and>
      curve_start (hd (path_curves (0, 0) HeartShape)) = (5, 5) \<and>
      curve_end (last (path_curves (0, 0) HeartShape)) = (5, 5)"
    unfolding heart_curves by simp
  ultimately show ?thesis by blast
qed

text \<open>The ten decorative hearts stand on a ring of radius 2.5 around the
  couple, inside the ground disc of radius 2.8, and above the ground's top.\<close>

theorem decorations_on_ground:
  "length decorations = 10 \<and>
   (\<forall>p \<in> set decorations. point_x p ^ 2 + point_z p ^ 2 = 2.5 ^ 2 \<and>
      point_x p ^ 2 + point_z p ^ 2 < ground_radius ^ 2 \<and> ground_top < point_y p)"
proof -
  have r: "(2.5 :: real) ^ 2 < ground_radius ^ 2" by (simp add: ground_radius_def power2_eq_square)
  have "ground_top < point_y (decor_position i)" for i
    by (simp add: ground_top_def ground_radius_def decor_position_def)
  with r decor_position_ring show ?thesis by (auto simp: decorations_def)
qed

text \<open>The two upper lobes are not mirror images about the axis \<open>x = 5\<close>: at
  mid-curve they reach the same height, but the left lobe bulges 0.375 further
  out than the mirror image of the right one (control point \<open>x - 3\<close> where
  the mirror of \<open>x + 12\<close> is \<open>x - 2\<close>).\<close>

lemma heart_lobes_not_mirrored:
  "snd (curve_point (path_curves (0, 0) HeartShape ! 2) (1 / 2)) =
     snd (curve_point (path_curves (0, 0) HeartShape ! 3) (1 / 2)) \<and>
   fst (curve_point (path_curves (0, 0) HeartShape ! 2) (1 / 2)) =
     10 - fst (curve_point (path_curves (0, 0) HeartShape ! 3) (1 / 2)) - 0.375"
  unfolding heart_curves by (simp add: cubic_def power2_eq_square power3_eq_cube)

text \<open>C31: Each figure's eyes are hidden inside its head: every point of
  either eye ball lies strictly inside the head ball (the eye centres are
  \<open>\<surd>0.0609 < 0.25\<close> from the head's centre and the eyes have radius 0.03,
  the head 0.28), so the opaque head covers the eyes from every camera
  position.\<close>

theorem eyes_inside_head:
  assumes "fig \<in> {char1_parts, char2_parts}" "e \<in> set fig" "mp_color e = ''#000''"
    and "dist2 p (mp_pos e) \<le> (shape_radius (mp_shape e))\<^sup>2"
  shows "dist2 p (mp_pos (fig ! 3)) < (shape_radius (mp_shape (fig ! 3)))\<^sup>2"
proof -
  have e: "(mp_pos e = (0.1, 1.1, 0.22) \<or> mp_pos e = (-0.1, 1.1, 0.22)) \<and> mp_shape e = Ball 0.03"
    and h: "mp_pos (fig ! 3) = (0, 1.05, 0) \<and> mp_shape (fig ! 3) = Ball 0.28"
    using assms(1-3) by (auto simp: char1_parts_def char2_parts_def figure_def)
  have p: "dist2 p (mp_pos e) \<le> 0.03\<^sup>2" using assms(4) e by simp
  have "(1 + 8) * 0.03\<^sup>2 + (1 + 1 / 8) * dist2 (mp_pos e) (0, 1.05, 0) < (0.28 :: real)\<^sup>2"
    using e by (auto simp: power2_eq_square)
  from ball_in_ball [OF p _ this] h show ?thesis by simp
qed

theorem eyes_inside_head_witness:
  "dist2 (0.1, 1.1, 0.25) (mp_pos (char1_parts ! 3)) < (shape_radius (mp_shape (char1_parts ! 3)))\<^sup>2"
proof -
  have "char1_parts ! 4 \<in> set char1_parts" "mp_color (char1_parts ! 4) = ''#000''"
    "dist2 (0.1, 1.1, 0.25) (mp_pos (char1_parts ! 4)) \<le> (shape_radius (mp_shape (char1_parts ! 4)))\<^sup>2"
    by (simp_all add: char1_parts_def figure_def power2_eq_square)
  with eyes_inside_head [of char1_parts "char1_parts ! 4" "(0.1, 1.1, 0.25)"] show ?thesis by simp
qed

end
