(* ===== verification/BoxGeometry.thy ===== *)
theory BoxGeometry
  imports GiftBox Meshes
begin

text \<open>
  The meshes of \<open>src/components/GiftBox.tsx\<close>: the body with its two
  ribbons, the lid group (the lid, its two ribbons and the two loops of the
  bow, placed in the frame of the group that \<open>lid_frame\<close> animates), and the
  label under the box.  The lemmas check the layout of the closed box: the
  lid caps the body and its ribbons, and the ribbons show on all four sides.
\<close>

subsection \<open>The meshes\<close>

text \<open>Lines 50--62: the body \<open>RoundedBox args={[2, 2, 2]} radius={0.1}\<close> and two
  ribbons \<open>boxGeometry args={[2.05, 0.3, 2.05]}\<close>, the second turned by
  \<open>\<pi>/2\<close> about y.\<close>

definition giftbox_body :: "mesh_part list" where
  "giftbox_body =
     [\<lparr>mp_pos = (0, 0, 0), mp_rot = (0, 0, 0), mp_shape = RoundedBox (2, 2, 2) 0.1, mp_color = ''#ffc1cc''\<rparr>,
      \<lparr>mp_pos = (0, 0, 0), mp_rot = (0, 0, 0), mp_shape = BoxGeom (2.05, 0.3, 2.05), mp_color = ''#d8b4fe''\<rparr>,
      \<lparr>mp_pos = (0, 0, 0), mp_rot = (0, pi / 2, 0), mp_shape = BoxGeom (2.05, 0.3, 2.05),
       mp_color = ''#d8b4fe''\<rparr>]"

text \<open>Lines 66--88, in the frame of the lid group: the lid
  \<open>RoundedBox args={[2.2, 0.4, 2.2]}\<close>, two ribbons
  \<open>boxGeometry args={[2.25, 0.05, 0.3]}\<close> at height 0.21, and two torus loops
  \<open>torusGeometry args={[0.2, 0.05, 16, 32]}\<close> at height 0.4.\<close>

definition giftbox_lid :: "mesh_part list" where
  "giftbox_lid =
     [\<lparr>mp_pos = (0, 0, 0), mp_rot = (0, 0, 0), mp_shape = RoundedBox (2.2, 0.4, 2.2) 0.1, mp_color = ''#ffc1cc''\<rparr>,
      \<lparr>mp_pos = (0, 0.21, 0), mp_rot = (0, 0, 0), mp_shape = BoxGeom (2.25, 0.05, 0.3), mp_color = ''#d8b4fe''\<rparr>,
      \<lparr>mp_pos = (0, 0.21, 0), mp_rot = (0, pi / 2, 0), mp_shape = BoxGeom (2.25, 0.05, 0.3),
       mp_color = ''#d8b4fe''\<rparr>,
      \<lparr>mp_pos = (0, 0.4, 0), mp_rot = (0, 0, pi / 4), mp_shape = Torus 0.2 0.05, mp_color = ''#d8b4fe''\<rparr>,
      \<lparr>mp_pos = (0, 0.4, 0), mp_rot = (0, pi / 2, pi / 4), mp_shape = Torus 0.2 0.05,
       mp_color = ''#d8b4fe''\<rparr>]"

text \<open>Lines 91--100: the label, a drei \<open>Text\<close> at \<open>(0, -2, 0)\<close> of font size 0.4,
  rendered while the box is closed (\<open>label_shown\<close>).\<close>

record text_label =
  lbl_pos :: vec3
  lbl_font_size :: real
  lbl_color :: string

definition giftbox_label :: text_label where
  "giftbox_label = \<lparr>lbl_pos = (0, -2, 0), lbl_font_size = 0.4, lbl_color = ''#e11d48''\<rparr>"

subsection \<open>Extents\<close>

text \<open>The vertical extent of a mesh that is turned about y only, in the frame
  of its parent: a turn about y leaves heights unchanged.\<close>

definition y_bottom :: "mesh_part \<Rightarrow> real" where
  "y_bottom p = fst (snd (mp_pos p)) - fst (snd (half_extent (mp_shape p)))"

definition y_top :: "mesh_part \<Rightarrow> real" where
  "y_top p = fst (snd (mp_pos p)) + fst (snd (half_extent (mp_shape p)))"

text \<open>A height in the lid group's frame, seen in the box's frame, for a lid
  that is not tilted.\<close>

definition lid_to_box :: "lid_transform \<Rightarrow> real \<Rightarrow> real" where
  "lid_to_box l y = lid_y l + lid_scale l * y"

subsection \<open>The closed box\<close>

text \<open>The two body ribbons are wider than the body along x and z, and the
  turned one is as wide as deep, so both show on all four sides.\<close>

lemma body_ribbons_show:
  "fst (half_extent (mp_shape (giftbox_body ! 0))) < fst (half_extent (mp_shape (giftbox_body ! 1))) \<and>
   snd (snd (half_extent (mp_shape (giftbox_body ! 0)))) < snd (snd (half_extent (mp_shape (giftbox_body ! 1)))) \<and>
   mp_shape (giftbox_body ! 2) = BoxGeom (2.05, 0.3, 2.05)"
  by (simp add: giftbox_body_def)

text \<open>With the lid group at its initial transform the lid caps the body: the
  lid's underside is below the body's top and its top above it, and the lid
  is wider than the body and its ribbons.  The lid ribbons cross the lid's
  top face.\<close>

lemma closed_lid_caps_box:
  "lid_to_box lid_init (y_bottom (giftbox_lid ! 0)) < y_top (giftbox_body ! 0) \<and>
   y_top (giftbox_body ! 0) < lid_to_box lid_init (y_top (giftbox_lid ! 0)) \<and>
   fst (half_extent (mp_shape (giftbox_body ! 1))) < fst (half_extent (mp_shape (giftbox_lid ! 0))) \<and>
   y_bottom (giftbox_lid ! 1) < y_top (giftbox_lid ! 0) \<and> y_top (giftbox_lid ! 0) < y_top (giftbox_lid ! 1)"
  by (simp add: giftbox_body_def giftbox_lid_def lid_init_def lid_to_box_def y_bottom_def y_top_def)

text \<open>The label hangs below the body, and it is shown exactly while the box
  is closed.\<close>

lemma label_below_box:
  "fst (snd (lbl_pos giftbox_label)) + lbl_font_size giftbox_label / 2 < y_bottom (giftbox_body ! 0) \<and>
   (label_shown p \<longleftrightarrow> \<not> isOpen p)"
  by (simp add: giftbox_label_def giftbox_body_def y_bottom_def label_shown_def)

end
