(* ===== verification/Spec2Isabelle.thy ===== *)
theory Spec2Isabelle
  imports Progress Config ParticleBuffer WorldDecor BoxGeometry
begin

text \<open>
  \<^bold>\<open>A verification library for the "virtual gift" page.\<close>

  The program (\<open>src/\<close>) is a React and three.js page.  \<open>App\<close>
  (\<open>App.tsx\<close>) owns the state: the stage (\<open>ExperienceStage\<close>,
  \<open>types.ts\<close>) and the flag \<open>hasStarted\<close>.  It advances the stage on a
  click on the start button (\<open>startExperience\<close>), on a click on the gift box
  (\<open>nextStage\<close>, passed through \<open>Scene\<close> as \<open>onBoxClick\<close>) and on the
  timers that its effect on \<open>[stage]\<close> arms in \<open>OPENING\<close> and \<open>WORLD\<close>.
  \<open>UIOverlay\<close> cycles its love notes on an interval during \<open>WORLD\<close> and sets
  \<open>CELEBRATION\<close> from its "Yes" button.  \<open>Scene\<close> mounts the particles, the
  gift box and the miniature world by stage.  Every handler plays sounds
  through the singleton \<open>SoundController\<close> (\<open>services/SoundController.ts\<close>),
  which schedules timers of its own.  All of it runs on one event loop.

  \<^bold>\<open>Theories and what they model.\<close>
  \<^item> \<open>Prelude\<close>: \<open>THREE.MathUtils.lerp\<close> (\<open>lerp\<close>, \<open>lerp_iter\<close>)
    and generic facts.
  \<^item> \<open>Types\<close>: \<open>ExperienceStage\<close> as a datatype ordered along the path,
    \<open>Point\<close> as a record.
  \<^item> \<open>Sequencer\<close> (\<open>App.tsx\<close>): the state \<open>app_state\<close>, the updater of
    \<open>nextStage\<close> (\<open>nextStage_update\<close>), the timer of the effect for a stage
    (\<open>stage_timer\<close>), the view flags; and the contract of spec section 4.1
    (\<open>spec_transition\<close>, \<open>spec_delay\<close>).
  \<^item> \<open>Timers\<close>: the browser's \<open>setTimeout\<close>, \<open>setInterval\<close>,
    \<open>clearTimeout\<close>, \<open>clearInterval\<close> and the event loop's choice of the next
    timer (\<open>fire_next\<close>: earliest due, ties by id), from the spec; no code of
    the repository implements them.
  \<^item> \<open>Sound\<close> (\<open>SoundController.ts\<close>): \<open>init\<close>, \<open>playTone\<close> (a tone
    log with its gain envelope), \<open>playPop\<close>, \<open>playBoop\<close>, \<open>playSparkle\<close>,
    \<open>playBackground\<close> and the timer callbacks (\<open>run_sound_cb\<close>).  The
    browser is \<open>audio_env\<close>: whether \<open>AudioContext\<close> exists, and the state
    of a fresh context.  A missing constructor is a \<open>TypeError\<close>, an
    \<open>Inl\<close> of the result.
  \<^item> \<open>Overlay\<close> (\<open>UIOverlay.tsx\<close>): \<open>messages\<close>, \<open>msg_cycle\<close>, the
    interval effect, the CSS \<open>pointer-events\<close> of the layers that decide
    where the "Yes" button takes clicks (\<open>yes_clickable\<close>), and the
    \<open>fade-up\<close> keyframes of a note.
  \<^item> \<open>GiftBox\<close>, \<open>MiniatureWorld\<close>, \<open>Particles\<close>: the handlers as call
    lists, and each \<open>useFrame\<close> callback as a function of the stage, the clock
    and the frame's \<open>delta\<close> on a record of the refs.
  \<^item> \<open>ParticleBuffer\<close> (\<open>Particles.tsx\<close>): the \<open>Float32Array\<close> of
    positions as a flat list (\<open>to_flat\<close>), and both \<open>for\<close>
    loops written index by index on it (\<open>init_loop\<close>, \<open>shower_loop\<close>),
    proved equal to the point-wise functions of \<open>Particles\<close>.
  \<^item> \<open>Meshes\<close>: meshes as the JSX gives them (position, rotation,
    geometry with its arguments, colour).
  \<^item> \<open>WorldDecor\<close> (\<open>MiniatureWorld.tsx\<close>): the \<open>HeartShape\<close> outline
    as its \<open>moveTo\<close> / \<open>bezierCurveTo\<close> calls with the current-point
    semantics of \<open>THREE.Path\<close>, the ground disc, the ring of ten
    decorations, and the meshes of the two figures.
  \<^item> \<open>BoxGeometry\<close> (\<open>GiftBox.tsx\<close>): the meshes of the box body, of the
    lid group and the label.
  \<^item> \<open>Scene\<close> (\<open>Scene.tsx\<close>): the children mounted per stage, the gift
    box's props and the group's bobbing.
  \<^item> \<open>Config\<close> (\<open>vite.config.ts\<close>): the \<open>base\<close> path and the
    configuration object; \<open>JSON.stringify\<close> of the \<open>define\<close> values and
    the JavaScript reader of string literals (from ECMA-262).
  \<^item> \<open>Experience\<close>: the page as one state \<open>world\<close>.  A handler is a list
    of \<open>call\<close>s run by \<open>run_calls\<close>: a call that throws ends the handler,
    keeps the earlier updates and is recorded in \<open>uncaught\<close>.  After each
    discrete event or timer (\<open>experience_step\<close>) the React commit runs the
    cleanups and bodies of the effects on \<open>[stage]\<close> when the stage changed
    (\<open>commit\<close>).  \<open>reachable\<close> is the set of states a run from load reaches.
  \<^item> \<open>Invariants\<close>: the invariant \<open>exp_inv\<close>, proved for every reachable
    state by rule induction (\<open>reachable_inv\<close>), and the step lemmas the
    claims below use.
  \<^item> \<open>Progress\<close>: the backlog of the timer queue up to App's timer
    (\<open>backlog\<close>, \<open>fire_count\<close> of \<open>Timers\<close>), which every other firing
    lowers, so App's timer is eventually run (\<open>app_timer_reached\<close>).

  \<^bold>\<open>What is proved.\<close>  Here (C1--C11, C27, C33 and C34), over every reachable state of
  every browser:
  \<^item> The pending App timers always match the stage.
  \<^item> Timer and click steps refine the spec's transition table.
  \<^item> The stage only moves forward, so \<open>CELEBRATION\<close> is terminal.
  \<^item> The start click works in every browser.
  \<^item> Without any user input, the timers alone take the page from
    \<open>OPENING\<close> or \<open>WORLD\<close> to \<open>FINAL\<close> (C27).
  \<^item> No exception is left uncaught when \<open>AudioContext\<close> exists.
  \<^item> The message index stays in range and every tone envelope is valid.
  \<^item> In \<open>GIFT_BOX\<close> hovering scales the box and plays the boop (C33);
    in every other stage the box's events change nothing (C34).

  The component theories prove:
  \<^item> the timer table refines the spec;
  \<^item> when \<open>init\<close> throws;
  \<^item> that the piano note is always defined;
  \<^item> the bounds and convergence of the lid, the figures and the particles for
    frames short enough, and that the frame bounds of the lid and the figures
    are exact (C17, C22);
  \<^item> the exact sounds and timers the sound operations schedule, the
    heartbeat's echo included (C32);
  \<^item> that the flat loops of \<open>Particles.tsx\<close> compute the point-wise
    shower and start-up positions (C29, C30);
  \<^item> that each figure's eyes lie inside its head (C31);
  \<^item> that the build's \<open>define\<close> table hands the bundle the API key
    unchanged, whatever characters it contains (C23).

  \<^bold>\<open>Departures from the spec, proved.\<close>
  \<^item> The "Yes" button takes clicks in every stage after \<open>START\<close> (C5).
  \<^item> Without \<open>AudioContext\<close> the box never opens (C7).
  \<^item> Frames longer than the exact bounds throw the figures and the lid past
    their targets (C17, C22).
  \<^item> \<open>MiniatureWorld\<close>'s celebration code is dead (C20).
  \<^item> The background intervals can never be cleared (C26).
  \<^item> The two upper lobes of \<open>HeartShape\<close> are not mirror images
    (\<open>WorldDecor.heart_lobes_not_mirrored\<close>).
  \<^item> The figures' eyes are inside their opaque heads and never seen (C31).

  \<^bold>\<open>Bounds.\<close>  Nothing is fuelled.
  \<^item> The sparkle \<open>forEach\<close>, the point-wise particle shower, and the
    successive frames and events are structural recursions.  The two index
    loops of \<open>ParticleBuffer\<close> are \<open>function\<close>s whose termination is proved
    by the measure \<open>count - i\<close>.
  \<^item> \<open>run_events\<close> and \<open>reachable\<close> take any finite sequence of events.
  \<^item> The liveness of C27 is stated without a fixed bound: the number of
    firings is bounded by the backlog, which depends on the state reached.
  \<^item> The frame bounds are \<open>delta * 3 \<le> 1\<close> for the lid and
    \<open>delta * 1.5 \<le> 1\<close> for the figures.  They are exactly where a lerp factor
    reaches 1, and C17 and C22 show that one longer frame already leaves the
    ranges.
  \<^item> The bound 251 of C19 is the 25 units of the band in steps of 0.1, plus
    one frame.

  \<^bold>\<open>Not modelled.\<close>
  \<^item> Rendering: materials beyond their colour, the camera, lights, stars and
    shadows, the extrusion of \<open>HeartShape\<close>, the easing and drawing of the
    overlay's CSS animation.  Meshes and keyframes are data (\<open>Meshes\<close>,
    \<open>Overlay\<close>); their drawing is not modelled.
  \<^item> The audio graph beyond the tone log.
  \<^item> Float32 and double rounding: numbers are \<open>real\<close>, delays \<open>nat\<close>
    milliseconds.
  \<^item> The asynchronous \<open>resume()\<close>, which is taken to succeed.
  \<^item> What Vite does with the server, plugin and alias settings of
    \<open>vite.config.ts\<close>; they are recorded as data only.
\<close>

section \<open>Browsers and abstract events\<close>

text \<open>Two browsers: one with an \<open>AudioContext\<close> whose fresh contexts start
  suspended (the usual autoplay policy), and one without it.\<close>

definition audio_browser :: audio_env where
  "audio_browser = \<lparr>ctor_available = True, fresh_state = Suspended\<rparr>"

definition mute_browser :: audio_env where
  "mute_browser = \<lparr>ctor_available = False, fresh_state = Suspended\<rparr>"

text \<open>The spec's event a page event stands for (pointer moves stand for none).\<close>

fun spec_event_of :: "event \<Rightarrow> spec_event option" where
  "spec_event_of ClickStart = Some StartClick"
| "spec_event_of ClickBox = Some BoxClick"
| "spec_event_of ClickYes = Some YesClick"
| "spec_event_of (FireTimer r) = Some TimerElapsed"
| "spec_event_of PointerOverBox = None"
| "spec_event_of PointerOutBox = None"

text \<open>An event whose \<open>Math.random()\<close> draw, if it has one, is a value
  \<open>Math.random()\<close> can return.\<close>

fun random_ok :: "event \<Rightarrow> bool" where
  "random_ok (FireTimer r) = (0 \<le> r \<and> r < 1)"
| "random_ok e = True"

text \<open>The run the witnesses start from: the start button, then the box.\<close>

definition opened_run :: "event list" where
  "opened_run = [ClickStart, ClickBox]"

section \<open>Properties of the page\<close>

lemma reachable_run: "reachable env (run_events env es world_init)"
  by (rule run_events_reachable [OF reachable.init])

lemma run_events_append:
  "run_events env (xs @ ys) w = run_events env ys (run_events env xs w)"
  by (induction xs arbitrary: w) simp_all

lemma timed_stage_left:
  assumes "reachable env w" "stage_timer (stage (app w)) = Some (d, s)"
  shows "\<exists>n. stage (app (run_events env (replicate n (FireTimer r)) w)) = s"
proof -
  obtain a where "a \<in> set (tq_timers (queue w))" "tm_kind a = AppSetStage s"
    using app_timer_pending [OF reachable_inv [OF assms(1)] assms(2)] by blast
  from app_timer_reached [OF assms this] show ?thesis .
qed

lemma step_uncaught_audio:
  assumes "ctor_available env" "random_ok e"
  shows "uncaught (experience_step env e w) = uncaught w"
proof (cases "\<exists>r. e = FireTimer r")
  case True
  then obtain r where FireTimer: "e = FireTimer r" by blast
  show ?thesis
  proof (cases "fire_next (queue w)")
    case (Some tq)
    then obtain t q where f: "fire_next (queue w) = Some (t, q)" by (cases tq) auto
    have "\<forall>c \<in> set (cb_calls (tm_kind t) r). audio_safe c"
      using assms(2) FireTimer by (cases "tm_kind t") (auto simp: audio_safe_RunSound)
    from run_calls_audio [OF assms(1) this, of "w\<lparr>queue := q\<rparr>"] f FireTimer show ?thesis
      by simp
  qed (simp add: FireTimer)
next
  case False
  then show ?thesis using user_step_audio [OF assms(1)] by blast
qed

text \<open>C1: In every reachable state the pending App timers are exactly those the
  current stage calls for: one timer to \<open>WORLD\<close> in \<open>OPENING\<close>, one to
  \<open>FINAL\<close> in \<open>WORLD\<close>, none otherwise; and the overlay's message interval is
  pending exactly in \<open>WORLD\<close>.  No timer armed for an earlier stage survives.\<close>

theorem pending_timers_match_stage:
  assumes "reachable env w"
  shows "map tm_kind (filter (\<lambda>t. is_app_cb (tm_kind t)) (tq_timers (queue w))) =
           (case stage_timer (stage (app w)) of None \<Rightarrow> [] | Some (d, s) \<Rightarrow> [AppSetStage s]) \<and>
         map tm_kind (filter (\<lambda>t. is_msg_cb (tm_kind t)) (tq_timers (queue w))) =
           (if stage (app w) = WORLD then [MsgTick] else [])"
proof -
  have ti: "timers_inv w" using reachable_inv [OF assms] by (simp add: exp_inv_def)
  have k: "map tm_kind (filter (\<lambda>t. P (tm_kind t)) (tq_timers (queue w))) =
           map (\<lambda>x. fst (snd x)) (kind_sigs P (queue w))" for P
    by (simp add: kind_sigs_def tsig_def)
  show ?thesis
    using ti by (auto simp: k timers_inv_def app_sigs_def msg_sigs_def overlay_interval_def
        split: option.splits if_splits)
qed

theorem pending_timers_match_stage_witness:
  "reachable audio_browser (run_events audio_browser opened_run world_init) \<and>
   stage (app (run_events audio_browser opened_run world_init)) = OPENING \<and>
   map tm_kind (filter (\<lambda>t. is_app_cb (tm_kind t))
     (tq_timers (queue (run_events audio_browser opened_run world_init)))) = [AppSetStage WORLD]"
proof -
  have st: "stage (app (run_events audio_browser opened_run world_init)) = OPENING"
    by (simp add: opened_run_def audio_browser_def experience_eval)
  from pending_timers_match_stage [OF reachable_run, of audio_browser opened_run] st
  show ?thesis by (simp add: reachable_run stage_timer_def)
qed

text \<open>C2: A timer firing moves the stage only when it is App's timer, and then
  exactly as the spec's timed transition from the current stage; a sound or
  message timer leaves the stage as it is.\<close>

theorem timer_step_refines_spec:
  assumes "reachable env w" "fire_next (queue w) = Some (t, q)"
  shows "stage (app (experience_step env (FireTimer r) w)) =
           (if is_app_cb (tm_kind t) then spec_transition (stage (app w)) TimerElapsed
            else stage (app w))"
proof -
  have inv: "exp_inv w" using reachable_inv [OF assms(1)] .
  from fire_analysis(4) [OF inv assms(2)] fire_step_app [OF assms(2), of env r] show ?thesis
    by (cases "tm_kind t") (auto simp: stage_timer_def split: if_splits)
qed

theorem timer_step_refines_spec_witness:
  "stage (app (experience_step audio_browser (FireTimer 0.5)
     (run_events audio_browser opened_run world_init))) = OPENING"
proof -
  let ?w = "run_events audio_browser opened_run world_init"
  have st: "stage (app ?w) = OPENING"
    by (simp add: opened_run_def audio_browser_def experience_eval)
  have "map_option (is_app_cb \<circ> tm_kind \<circ> fst) (fire_next (queue ?w)) = Some False"
    by (simp add: opened_run_def audio_browser_def experience_eval)
  then obtain t q where f: "fire_next (queue ?w) = Some (t, q)" and k: "\<not> is_app_cb (tm_kind t)"
    by auto
  from timer_step_refines_spec [OF reachable_run f] st k show ?thesis by simp
qed

text \<open>C3: On a browser with \<open>AudioContext\<close>, a click on the start button
  or on the gift box moves the stage exactly as the spec's table says for that
  event in the current stage (a click the table does not list changes
  nothing), and the handler raises no exception.\<close>

theorem user_step_refines_spec:
  assumes "reachable env w" "ctor_available env" "e \<in> {ClickStart, ClickBox}"
    and "spec_event_of e = Some se"
  shows "stage (app (experience_step env e w)) = spec_transition (stage (app w)) se \<and>
         uncaught (experience_step env e w) = uncaught w"
proof -
  have st: "hasStarted (app w) \<longleftrightarrow> stage (app w) \<noteq> START"
    using reachable_inv [OF assms(1)] by (simp add: exp_inv_def)
  have "\<forall>r. e \<noteq> FireTimer r" using assms(3) by auto
  from user_step_audio [OF assms(2) this] assms(3,4) st show ?thesis
    by (cases "stage (app w)") (auto simp: handler_defs)
qed

theorem user_step_refines_spec_witness:
  "stage (app (experience_step audio_browser ClickBox
     (run_events audio_browser [ClickStart] world_init))) = OPENING"
proof -
  let ?w = "run_events audio_browser [ClickStart] world_init"
  have st: "stage (app ?w) = GIFT_BOX" by (simp add: audio_browser_def experience_eval)
  have a: "ctor_available audio_browser" by (simp add: audio_browser_def)
  have "stage (app (experience_step audio_browser ClickBox ?w)) =
        spec_transition (stage (app ?w)) BoxClick"
    using user_step_refines_spec [OF reachable_run [of audio_browser "[ClickStart]"] a,
        of ClickBox BoxClick]
    by (simp only: insert_iff spec_event_of.simps simp_thms)
  then show ?thesis unfolding st by simp
qed

text \<open>C4: The stage never goes back: along any run from a reachable state
  the stage only moves forward in the order of \<open>ExperienceStage\<close>.\<close>

theorem stage_monotone_run:
  "reachable env w \<Longrightarrow> stage (app w) \<le> stage (app (run_events env es w))"
proof (induction es arbitrary: w)
  case (Cons e es)
  have "stage (app w) \<le> stage (app (experience_step env e w))"
    using step_stage_mono [OF reachable_inv [OF Cons.prems]] .
  also have "\<dots> \<le> stage (app (run_events env es (experience_step env e w)))"
    using Cons.IH [OF reachable.step [OF Cons.prems]] .
  finally show ?case by simp
qed simp

theorem stage_monotone_run_witness:
  "GIFT_BOX \<le> stage (app (run_events audio_browser [ClickYes] (run_events audio_browser [ClickStart] world_init)))"
proof -
  have "stage (app (run_events audio_browser [ClickStart] world_init)) = GIFT_BOX"
    by (simp add: audio_browser_def experience_eval)
  with stage_monotone_run [OF reachable_run [of audio_browser "[ClickStart]"], of "[ClickYes]"]
  show ?thesis by (simp only:)
qed

text \<open>C5: Once the experience has started, a click on the "Yes" button sets
  the stage to \<open>CELEBRATION\<close> from every stage, not only from \<open>FINAL\<close>:
  the button is rendered with \<open>pointer-events-auto\<close> under a layer that is
  only transparent before \<open>FINAL\<close>.  Before the start the overlay holds
  the click and nothing happens.  This holds in every browser, as the stage is
  set before any sound is played.\<close>

theorem yes_click_celebrates:
  assumes "reachable env w"
  shows "stage (app (experience_step env ClickYes w)) =
           (if stage (app w) = START then START else CELEBRATION)"
proof -
  have st: "hasStarted (app w) \<longleftrightarrow> stage (app w) \<noteq> START"
    using reachable_inv [OF assms] by (simp add: exp_inv_def)
  have "app (experience_step env ClickYes w) \<in> set (app_stops (step_calls ClickYes w) (app w))"
    by (rule step_app)
  with st show ?thesis
    by (auto simp: step_calls_def start_overlay_shown_def yes_clickable_iff handleYesClick_def)
qed

theorem yes_click_celebrates_witness:
  "stage (app (experience_step audio_browser ClickYes
     (run_events audio_browser [ClickStart] world_init))) = CELEBRATION"
proof -
  let ?w = "run_events audio_browser [ClickStart] world_init"
  have st: "stage (app ?w) = GIFT_BOX" by (simp add: audio_browser_def experience_eval)
  have "stage (app (experience_step audio_browser ClickYes ?w)) =
        (if stage (app ?w) = START then START else CELEBRATION)"
    by (rule yes_click_celebrates [OF reachable_run])
  then show ?thesis unfolding st by simp
qed

text \<open>C6: In every browser, the start button moves the page from
  \<open>START\<close> to \<open>GIFT_BOX\<close> and hides the start overlay, even where
  \<open>playBackground\<close> throws, since it is called last.\<close>

theorem start_click_starts:
  assumes "reachable env w" "stage (app w) = START"
  shows "stage (app (experience_step env ClickStart w)) = GIFT_BOX \<and>
         \<not> start_overlay_shown (app (experience_step env ClickStart w))"
proof -
  have st: "\<not> hasStarted (app w)"
    using reachable_inv [OF assms(1)] assms(2) by (simp add: exp_inv_def)
  have "app (experience_step env ClickStart w) \<in> set (app_stops (step_calls ClickStart w) (app w))"
    by (rule step_app)
  with st show ?thesis
    by (auto simp: step_calls_def start_overlay_shown_def startExperience_def)
qed

theorem start_click_starts_witness:
  "stage (app (experience_step mute_browser ClickStart world_init)) = GIFT_BOX"
proof -
  have "stage (app world_init) = START" by (simp add: world_init_def app_init_def)
  from start_click_starts [OF reachable.init this, of mute_browser] show ?thesis by blast
qed

text \<open>C7: In a browser without \<open>AudioContext\<close> the gift box never opens:
  the box's click handler calls \<open>playPop()\<close>, which throws, before it calls
  \<open>onClick()\<close>.  The only stages such a page reaches are \<open>START\<close>,
  \<open>GIFT_BOX\<close> and \<open>CELEBRATION\<close>, and no sound context is ever
  created.\<close>

theorem mute_browser_never_opens:
  assumes "reachable env w" "\<not> ctor_available env"
  shows "stage (app w) \<in> {START, GIFT_BOX, CELEBRATION} \<and> audioContext (sound w) = None"
  using mute_reachable [OF assms] by (simp add: mute_inv_def)

theorem mute_browser_never_opens_witness:
  "stage (app (run_events mute_browser (opened_run @ [ClickBox, FireTimer 0.5]) world_init)) \<noteq> OPENING"
proof -
  have "\<not> ctor_available mute_browser" by (simp add: mute_browser_def)
  from mute_browser_never_opens [OF reachable_run [of mute_browser "opened_run @ [ClickBox, FireTimer 0.5]"] this]
  show ?thesis by auto
qed

text \<open>C8: In a browser with \<open>AudioContext\<close>, a run whose random draws are
  values \<open>Math.random()\<close> can return records no uncaught exception.\<close>

theorem audio_run_no_uncaught:
  assumes "ctor_available env" "\<forall>e \<in> set es. random_ok e"
  shows "uncaught (run_events env es w) = uncaught w"
  using assms(2)
proof (induction es arbitrary: w)
  case (Cons e es)
  then show ?case using step_uncaught_audio [OF assms(1)] by simp
qed simp

theorem audio_run_no_uncaught_witness:
  "uncaught (run_events audio_browser [ClickStart, ClickBox, FireTimer 0.5] world_init) = []"
proof -
  have "ctor_available audio_browser" by (simp add: audio_browser_def)
  from audio_run_no_uncaught [OF this, of "[ClickStart, ClickBox, FireTimer 0.5]" world_init]
  show ?thesis by (simp add: world_init_def)
qed

text \<open>C9: The overlay's \<open>messages[msgIndex]\<close> is always one of the four
  messages, never \<open>undefined\<close>: \<open>msgIndex\<close> stays below the length of
  \<open>messages\<close>, however many ticks of the interval have run.\<close>

theorem shown_message_defined:
  assumes "reachable env w"
  shows "msgIndex w < length messages \<and> shown_message (msgIndex w) = Some (messages ! msgIndex w)"
proof -
  have "msgIndex w < 4" using reachable_inv [OF assms] by (simp add: exp_inv_def aux_inv_def)
  then show ?thesis by (simp add: shown_message_Some)
qed

theorem shown_message_defined_witness:
  "shown_message (msgIndex (run_events audio_browser opened_run world_init)) \<noteq> None"
  using shown_message_defined [OF reachable_run [of audio_browser opened_run]] by simp

text \<open>C10: Every tone the sound controller has scheduled has the envelope
  \<open>playTone\<close> promises: gain 0 at the start, a linear ramp to a volume of at
  most 0.1 after 50 ms, an exponential ramp to 0.001 (positive, as Web Audio
  requires) at the stop time, which lies after the peak; and a positive
  frequency.\<close>

theorem tones_well_formed:
  "reachable env w \<Longrightarrow> t \<in> set (tones (sound w)) \<Longrightarrow> envelope_ok t"
  using reachable_inv by (auto simp: exp_inv_def aux_inv_def sound_ok_def)

theorem tones_well_formed_witness:
  "envelope_ok (mk_tone 0 400 Sine 0.2 0.1)"
proof -
  let ?w = "run_events audio_browser [ClickStart, ClickBox] world_init"
  have "mk_tone 0 400 Sine 0.2 0.1 \<in> set (tones (sound ?w))"
    by (simp add: audio_browser_def experience_eval)
  from tones_well_formed [OF reachable_run this] show ?thesis .
qed

text \<open>C11: The start overlay is shown exactly in \<open>START\<close>, and the floating
  gift box is hovered only in \<open>GIFT_BOX\<close>: its hover state is dropped
  when the box unmounts.\<close>

theorem started_and_hover_consistent:
  assumes "reachable env w"
  shows "(start_overlay_shown (app w) \<longleftrightarrow> stage (app w) = START) \<and>
         (hovered (box w) \<longrightarrow> stage (app w) = GIFT_BOX)"
  using reachable_inv [OF assms] by (auto simp: exp_inv_def start_overlay_shown_def)

theorem started_and_hover_consistent_witness:
  "\<not> hovered (box (run_events audio_browser [ClickStart, PointerOverBox, ClickBox] world_init))"
proof -
  let ?w = "run_events audio_browser [ClickStart, PointerOverBox, ClickBox] world_init"
  have "stage (app ?w) = OPENING" by (simp add: audio_browser_def experience_eval)
  with started_and_hover_consistent [OF reachable_run [of audio_browser "[ClickStart, PointerOverBox, ClickBox]"]]
  show ?thesis by auto
qed

text \<open>C27: The scripted part of the path needs no user: from \<open>OPENING\<close> or
  \<open>WORLD\<close>, letting the event loop fire the pending timers one after the
  other reaches \<open>FINAL\<close> after finitely many firings, in every browser and
  whatever the random draws, although sound and message timers keep being
  scheduled and fire in between.\<close>

theorem timers_reach_final:
  assumes "reachable env w" "stage (app w) \<in> {OPENING, WORLD}"
  shows "\<exists>n. stage (app (run_events env (replicate n (FireTimer r)) w)) = FINAL"
proof -
  have world: "\<exists>n. stage (app (run_events env (replicate n (FireTimer r)) w')) = FINAL"
    if "reachable env w'" "stage (app w') = WORLD" for w'
    using timed_stage_left [OF that(1)] that(2) by (simp add: stage_timer_def)
  show ?thesis
  proof (cases "stage (app w) = WORLD")
    case True
    then show ?thesis using world assms(1) by blast
  next
    case False
    with assms(2) have "stage_timer (stage (app w)) = Some (3500, WORLD)"
      by (simp add: stage_timer_def)
    from timed_stage_left [OF assms(1) this] obtain n1 where
      n1: "stage (app (run_events env (replicate n1 (FireTimer r)) w)) = WORLD" by blast
    from world [OF run_events_reachable [OF assms(1)] n1] obtain n2 where
      "stage (app (run_events env (replicate n2 (FireTimer r))
         (run_events env (replicate n1 (FireTimer r)) w))) = FINAL" by blast
    then show ?thesis
      by (intro exI [of _ "n1 + n2"]) (simp add: replicate_add run_events_append)
  qed
qed

theorem timers_reach_final_witness:
  "\<exists>n. stage (app (run_events audio_browser (replicate n (FireTimer 0.5))
     (run_events audio_browser opened_run world_init))) = FINAL"
proof -
  have "stage (app (run_events audio_browser opened_run world_init)) = OPENING"
    by (simp add: opened_run_def audio_browser_def experience_eval)
  then have "stage (app (run_events audio_browser opened_run world_init)) \<in> {OPENING, WORLD}"
    by simp
  from timers_reach_final [OF reachable_run this] show ?thesis .
qed

text \<open>C33: In \<open>GIFT_BOX\<close> the pointer entering the floating box marks it
  hovered and scales it to 1.1, in every browser; where \<open>AudioContext\<close>
  exists it also plays the 880 Hz boop and throws nothing.  The pointer leaving
  it scales it back to 1.  Neither event moves the stage.\<close>

theorem hover_scales_box:
  assumes "reachable env w" "stage (app w) = GIFT_BOX"
  shows "box_scale (box (experience_step env PointerOverBox w)) = 1.1 \<and>
         stage (app (experience_step env PointerOverBox w)) = GIFT_BOX \<and>
         (ctor_available env \<longrightarrow>
            tones (sound (experience_step env PointerOverBox w)) =
              tones (sound w) @ [mk_tone (audio_now w) 880 Sine 0.15 0.05] \<and>
            uncaught (experience_step env PointerOverBox w) = uncaught w) \<and>
         box_scale (box (experience_step env PointerOutBox w)) = 1 \<and>
         stage (app (experience_step env PointerOutBox w)) = GIFT_BOX"
proof -
  have ns: "\<not> start_overlay_shown (app w)"
    using reachable_inv [OF assms(1)] assms(2) by (simp add: exp_inv_def start_overlay_shown_def)
  let ?w1 = "w\<lparr>box := (box w)\<lparr>hovered := True\<rparr>\<rparr>"
  have over: "experience_step env PointerOverBox w =
      (case playBoop env (audio_now w) (sound w) of
         Inl e \<Rightarrow> ?w1\<lparr>uncaught := uncaught w @ [e]\<rparr> | Inr sc \<Rightarrow> ?w1\<lparr>sound := sc\<rparr>)"
    using ns assms(2)
    by (simp add: giftbox_props_of_def handlePointerOver_def commit_def audio_now_def set_sound_def
        split: sum.split)
  have out: "experience_step env PointerOutBox w = w\<lparr>box := (box w)\<lparr>hovered := False\<rparr>\<rparr>"
    using ns assms(2) by (simp add: giftbox_props_of_def handlePointerOut_def commit_def)
  have "ctor_available env \<Longrightarrow> \<exists>sc. playBoop env (audio_now w) (sound w) = Inr sc \<and>
          tones sc = tones (sound w) @ [mk_tone (audio_now w) 880 Sine 0.15 0.05]"
    using playTone_audio playTone_appends unfolding playBoop_def by blast
  with assms(2) over out show ?thesis
    by (auto simp: box_scale_def split: sum.split)
qed

theorem hover_scales_box_witness:
  "box_scale (box (run_events audio_browser [ClickStart, PointerOverBox] world_init)) = 1.1"
proof -
  let ?w = "run_events audio_browser [ClickStart] world_init"
  have "stage (app ?w) = GIFT_BOX" by (simp add: audio_browser_def experience_eval)
  from hover_scales_box [OF reachable_run this] show ?thesis by simp
qed

text \<open>C34: Outside \<open>GIFT_BOX\<close> the gift box ignores the pointer: in every
  reachable state of another stage a click on the box, the pointer entering it
  and the pointer leaving it change nothing at all (in \<open>OPENING\<close> the opened
  box is mounted but its handlers test \<open>isOpen\<close>; elsewhere no box is
  mounted or the start overlay takes the event).\<close>

theorem box_events_noop_elsewhere:
  assumes "reachable env w" "stage (app w) \<noteq> GIFT_BOX"
  shows "experience_step env ClickBox w = w \<and> experience_step env PointerOverBox w = w \<and>
         experience_step env PointerOutBox w = w"
proof -
  have h: "\<not> hovered (box w)"
    using reachable_inv [OF assms(1)] assms(2) by (simp add: exp_inv_def)
  then have "w\<lparr>box := (box w)\<lparr>hovered := False\<rparr>\<rparr> = w" by simp
  with assms(2) show ?thesis
    by (simp add: giftbox_props_of_def handleClick_def handlePointerOver_def handlePointerOut_def
        commit_def)
qed

theorem box_events_noop_elsewhere_witness:
  "experience_step audio_browser ClickBox (run_events audio_browser opened_run world_init) =
   run_events audio_browser opened_run world_init"
proof -
  have "stage (app (run_events audio_browser opened_run world_init)) = OPENING"
    by (simp add: opened_run_def audio_browser_def experience_eval)
  then have "stage (app (run_events audio_browser opened_run world_init)) \<noteq> GIFT_BOX" by simp
  from box_events_noop_elsewhere [OF reachable_run this] show ?thesis by blast
qed

end
